theory Spec2Isabelle
  imports Complex_Main
begin

section \<open>Python values\<close>

text \<open>
  The two modules \<^verbatim>\<open>utils_police.py\<close> and \<^verbatim>\<open>utils_osm.py\<close> move decoded JSON
  around without looking at most of it. A decoded JSON document is modelled as the Python
  value \<^verbatim>\<open>json.load\<close> builds: \<^verbatim>\<open>None\<close>, a bool, a number, a \<^verbatim>\<open>str\<close>, a \<^verbatim>\<open>list\<close>
  or a \<^verbatim>\<open>dict\<close> (an association list whose keys are distinct, as a decoded object's
  are). A number is the real number it denotes: a finite Python \<^verbatim>\<open>int\<close> or \<^verbatim>\<open>float\<close> is one,
  and Python compares and tests numbers by that value; \<^verbatim>\<open>NaN\<close> and the infinities are
  outside the model.
\<close>

datatype json =
    JNull
  | JBool bool
  | JNum real
  | JStr string
  | JArr "json list"
  | JObj "(string \<times> json) list"

text \<open>The exceptions the modelled code can raise without catching them.\<close>

datatype py_error = AttributeError | TypeError | ValueError | JSONDecodeError

text \<open>Truth value of a Python object, as \<^verbatim>\<open>or\<close> and \<^verbatim>\<open>if\<close> test it.\<close>

fun truthy :: "json \<Rightarrow> bool" where
  "truthy JNull = False"
| "truthy (JBool b) = b"
| "truthy (JNum r) = (r \<noteq> 0)"
| "truthy (JStr s) = (s \<noteq> [])"
| "truthy (JArr xs) = (xs \<noteq> [])"
| "truthy (JObj kvs) = (kvs \<noteq> [])"

text \<open>
  \<^verbatim>\<open>obj.get(key, default)\<close>: only a \<^verbatim>\<open>dict\<close> has the method, every other value raises
  \<^verbatim>\<open>AttributeError\<close>.
\<close>

fun py_get :: "json \<Rightarrow> string \<Rightarrow> json \<Rightarrow> py_error + json" where
  "py_get (JObj kvs) k d = Inr (case map_of kvs k of None \<Rightarrow> d | Some v \<Rightarrow> v)"
| "py_get _ k d = Inl AttributeError"

text \<open>
  \<^verbatim>\<open>for c in value\<close>: a list yields its items, a dict its keys, a string its characters;
  \<^verbatim>\<open>None\<close>, bools and numbers are not iterable.
\<close>

fun py_iter :: "json \<Rightarrow> py_error + json list" where
  "py_iter (JArr xs) = Inr xs"
| "py_iter (JObj kvs) = Inr (map (\<lambda>kv. JStr (fst kv)) kvs)"
| "py_iter (JStr s) = Inr (map (\<lambda>c. JStr [c]) s)"
| "py_iter _ = Inl TypeError"

text \<open>\<^verbatim>\<open>len(value)\<close> is defined on lists, dicts and strings only.\<close>

fun py_len :: "json \<Rightarrow> py_error + nat" where
  "py_len (JArr xs) = Inr (length xs)"
| "py_len (JObj kvs) = Inr (length kvs)"
| "py_len (JStr s) = Inr (length s)"
| "py_len _ = Inl TypeError"

text \<open>
  Members of a Python \<^verbatim>\<open>set\<close> are hashed and compared with \<^verbatim>\<open>==\<close>. Lists and dicts are
  unhashable (\<^verbatim>\<open>TypeError\<close>); \<^verbatim>\<open>True\<close> and \<^verbatim>\<open>False\<close> hash and compare as the numbers
  1 and 0; a string never equals a number or \<^verbatim>\<open>None\<close>.
\<close>

datatype pykey = KNone | KNum real | KStr string

fun py_hashable :: "json \<Rightarrow> py_error + pykey" where
  "py_hashable JNull = Inr KNone"
| "py_hashable (JBool b) = Inr (KNum (if b then 1 else 0))"
| "py_hashable (JNum r) = Inr (KNum r)"
| "py_hashable (JStr s) = Inr (KStr s)"
| "py_hashable (JArr xs) = Inl TypeError"
| "py_hashable (JObj kvs) = Inl TypeError"

subsection \<open>Formatting a float with six decimals\<close>

text \<open>
  \<^verbatim>\<open>f"{x:.6f}"\<close> prints the exact value of the float rounded to six decimals, ties to
  even, with a minus sign for every negative value (also one that rounds to zero): the
  integer part in decimal without leading zeros, a point, and six digits.
\<close>

definition round_half_even :: "real \<Rightarrow> int" where
  "round_half_even q =
     (let f = \<lfloor>q\<rfloor>; r = q - of_int f
      in if r < 1 / 2 then f else if 1 / 2 < r then f + 1 else if even f then f else f + 1)"

definition digit_char :: "nat \<Rightarrow> char" where
  "digit_char d = ''0123456789'' ! d"

fun str_nat :: "nat \<Rightarrow> string" where
  "str_nat n = (if n < 10 then [digit_char n] else str_nat (n div 10) @ [digit_char (n mod 10)])"

declare str_nat.simps [simp del]

definition fmt6 :: "real \<Rightarrow> string" where
  "fmt6 x =
     (let n = nat (round_half_even (\<bar>x\<bar> * 1000000))
      in (if x < 0 then ''-'' else '''') @ str_nat (n div 1000000) @ ''.''
           @ [digit_char (n div 100000 mod 10), digit_char (n div 10000 mod 10),
              digit_char (n div 1000 mod 10), digit_char (n div 100 mod 10),
              digit_char (n div 10 mod 10), digit_char (n mod 10)])"

section \<open>The geometry library\<close>

text \<open>
  Geometries are Shapely objects. The library is not part of the repository, so its
  operations are parameters of the model: a record of functions over an arbitrary type
  \<open>'g\<close> of geometries. Coordinates are the reals the floats denote, and a coordinate
  tuple is a list (Shapely yields pairs, or triples for a geometry with a z value).
  \<^item> \<open>geom_exterior g\<close> is \<^verbatim>\<open>list(g.exterior.coords)\<close>, or \<open>None\<close> when \<^verbatim>\<open>g\<close> has no
    attribute \<^verbatim>\<open>exterior\<close> (anything but a Polygon);
  \<^item> \<open>geom_simplify g tol\<close> is \<^verbatim>\<open>g.simplify(tol, preserve_topology=True)\<close>;
  \<^item> \<open>geom_bounds g\<close> is \<^verbatim>\<open>g.bounds\<close>, \<open>geom_box\<close> is \<^verbatim>\<open>shapely.geometry.box\<close>;
  \<^item> \<open>geom_intersection\<close>, \<open>geom_is_empty\<close>, \<open>geom_contains\<close> are the methods of these
    names; \<open>geom_point x y\<close> is \<^verbatim>\<open>Point(x, y)\<close> on two decoded JSON values, which raises
    on values it cannot read as numbers.
\<close>

record 'g shapely =
  geom_exterior :: "'g \<Rightarrow> real list list option"
  geom_simplify :: "'g \<Rightarrow> real \<Rightarrow> 'g"
  geom_bounds :: "'g \<Rightarrow> real \<times> real \<times> real \<times> real"
  geom_box :: "real \<Rightarrow> real \<Rightarrow> real \<Rightarrow> real \<Rightarrow> 'g"
  geom_intersection :: "'g \<Rightarrow> 'g \<Rightarrow> 'g"
  geom_is_empty :: "'g \<Rightarrow> bool"
  geom_contains :: "'g \<Rightarrow> 'g \<Rightarrow> bool"
  geom_point :: "json \<Rightarrow> json \<Rightarrow> py_error + 'g"

section \<open>utils\_police.py\<close>

definition MAX_POLY_POINTS :: int where
  "MAX_POLY_POINTS = 25"

definition MAX_GRID_DEPTH :: nat where
  "MAX_GRID_DEPTH = 2"

subsection \<open>Polygon helpers\<close>

text \<open>
  The body of \<^verbatim>\<open>for _ in range(30)\<close> in \<^verbatim>\<open>_simplify_to_n_points\<close>: the first argument
  counts the iterations left, \<open>tolerance\<close> and \<open>simplified\<close> are the loop's variables.
  The loop ends at the first attempt within the budget, or after the last iteration with
  whatever that attempt produced.
\<close>

fun simplify_loop ::
  "'g shapely \<Rightarrow> 'g \<Rightarrow> int \<Rightarrow> nat \<Rightarrow> real \<Rightarrow> 'g \<Rightarrow> py_error + 'g" where
  "simplify_loop sh geom max_points 0 tolerance simplified = Inr simplified"
| "simplify_loop sh geom max_points (Suc k) tolerance simplified =
     (let simplified' = geom_simplify sh geom tolerance
      in case geom_exterior sh simplified' of
           None \<Rightarrow> Inl AttributeError
         | Some cs \<Rightarrow>
             if int (length cs) \<le> max_points then Inr simplified'
             else simplify_loop sh geom max_points k (tolerance * 2) simplified')"

definition simplify_to_n_points :: "'g shapely \<Rightarrow> 'g \<Rightarrow> int \<Rightarrow> py_error + real list list" where
  "simplify_to_n_points sh geom max_points =
     (case geom_exterior sh geom of
        None \<Rightarrow> Inl AttributeError
      | Some coords \<Rightarrow>
          if int (length coords) \<le> max_points then Inr (butlast coords)
          else
            (case simplify_loop sh geom max_points 30 (1 / 10000) geom of
               Inl e \<Rightarrow> Inl e
             | Inr simplified \<Rightarrow>
                 (case geom_exterior sh simplified of
                    None \<Rightarrow> Inl AttributeError
                  | Some cs \<Rightarrow> Inr (butlast cs))))"

text \<open>
  \<^verbatim>\<open>_coords_to_api_string\<close>. The generator unpacks each tuple with
  \<^verbatim>\<open>for lng, lat in coords\<close>, which raises \<^verbatim>\<open>ValueError\<close> on a tuple that is not a pair;
  \<^verbatim>\<open>":".join\<close> then puts a colon between the pieces.
\<close>

fun fmt_pair :: "real list \<Rightarrow> py_error + string" where
  "fmt_pair [lng, lat] = Inr (fmt6 lat @ '','' @ fmt6 lng)"
| "fmt_pair _ = Inl ValueError"

fun fmt_pairs :: "real list list \<Rightarrow> py_error + string list" where
  "fmt_pairs [] = Inr []"
| "fmt_pairs (c # cs) =
     (case fmt_pair c of
        Inl e \<Rightarrow> Inl e
      | Inr s \<Rightarrow> (case fmt_pairs cs of Inl e \<Rightarrow> Inl e | Inr ss \<Rightarrow> Inr (s # ss)))"

fun join_str :: "string \<Rightarrow> string list \<Rightarrow> string" where
  "join_str sep [] = []"
| "join_str sep [s] = s"
| "join_str sep (s # t # ss) = s @ sep @ join_str sep (t # ss)"

definition coords_to_api_string :: "real list list \<Rightarrow> py_error + string" where
  "coords_to_api_string coords =
     (case fmt_pairs coords of Inl e \<Rightarrow> Inl e | Inr ss \<Rightarrow> Inr (join_str '':'' ss))"

subsection \<open>The file cache and the network\<close>

text \<open>
  What the endpoint of a request answers: \<^verbatim>\<open>session.get\<close> or \<^verbatim>\<open>session.post\<close> raises a
  \<^verbatim>\<open>requests.RequestException\<close>, or returns a response with a status code and a body.
  The body is the value \<^verbatim>\<open>resp.json()\<close> decodes, or \<open>None\<close> when decoding it raises.
\<close>

datatype response = RequestException | Response int "json option"

text \<open>
  The effects of the code, in the order they happen: a GET of the police endpoint (the
  \<^verbatim>\<open>poly\<close> and \<^verbatim>\<open>date\<close> parameters, and the answer), a POST to an Overpass endpoint (the
  endpoint, the query, and the answer), a cache file written (its name and content), and
  the warning \<^verbatim>\<open>_fetch_with_subdivision\<close> logs when it gives a cell up at the depth
  limit (the month and the label). The sleeps after each request and the other log
  records are left out.
\<close>

datatype event =
    Get string string response
  | Post string string response
  | Write string json
  | MaxDepthWarning string string

text \<open>
  The state the code runs in: the files of the cache directory, by name, each holding a
  decoded JSON document (\<^verbatim>\<open>json.dump\<close> followed by \<^verbatim>\<open>json.load\<close> gives the document
  back), and the trace of the effects so far. The remote service is a function of the
  trace and of the request, so that its answers may depend on everything that happened
  before.
\<close>

record world =
  cache :: "string \<rightharpoonup> json"
  trace :: "event list"

type_synonym service = "event list \<Rightarrow> string \<Rightarrow> string \<Rightarrow> response"

definition emit :: "event \<Rightarrow> world \<Rightarrow> world" where
  "emit e w = w\<lparr>trace := trace w @ [e]\<rparr>"

text \<open>\<^verbatim>\<open>with open(cache_path, "w") as f: json.dump(value, f)\<close>\<close>

definition write_cache :: "string \<Rightarrow> json \<Rightarrow> world \<Rightarrow> world" where
  "write_cache cache_path v w = emit (Write cache_path v) (w\<lparr>cache := (cache w)(cache_path \<mapsto> v)\<rparr>)"

subsection \<open>Core fetch: single polygon and month\<close>

text \<open>
  \<^verbatim>\<open>_fetch_single_poly\<close>. The Python value \<^verbatim>\<open>None\<close> it returns on status 503 is
  \<open>JNull\<close>, as is a cached document \<^verbatim>\<open>null\<close>. On status 200 the body is decoded
  (\<^verbatim>\<open>JSONDecodeError\<close> when it cannot be), written to the cache, and its length is
  taken for a log record, which raises \<^verbatim>\<open>TypeError\<close> on a value without a length, after
  the file is written.
\<close>

definition fetch_single_poly ::
  "service \<Rightarrow> string \<Rightarrow> string \<Rightarrow> string \<Rightarrow> world \<Rightarrow> (py_error + json) \<times> world" where
  "fetch_single_poly api poly_str month cache_path w =
     (case cache w cache_path of
        Some v \<Rightarrow> (Inr v, w)
      | None \<Rightarrow>
          (let resp = api (trace w) poly_str month;
               w1 = emit (Get poly_str month resp) w
           in case resp of
                RequestException \<Rightarrow> (Inr (JArr []), w1)
              | Response status_code body \<Rightarrow>
                  if status_code = 503 then (Inr JNull, w1)
                  else if status_code \<noteq> 200 then (Inr (JArr []), w1)
                  else
                    (case body of
                       None \<Rightarrow> (Inl JSONDecodeError, w1)
                     | Some crimes \<Rightarrow>
                         (let w2 = write_cache cache_path crimes w1
                          in case py_len crimes of
                               Inl e \<Rightarrow> (Inl e, w2)
                             | Inr n \<Rightarrow> (Inr crimes, w2)))))"

subsection \<open>Recursive grid-subdivision fetch\<close>

text \<open>
  The identity of a crime record, as the merge loop computes it:
  \<^verbatim>\<open>uid = c.get("id") or (c.get("location", {}) or {}).get("street", {}).get("id", "")\<close>
  and \<^verbatim>\<open>key = (uid, c.get("month", ""))\<close>. The key is put into a set, which raises
  \<^verbatim>\<open>TypeError\<close> when a component is unhashable.
\<close>

definition crime_uid :: "json \<Rightarrow> py_error + json" where
  "crime_uid c =
     (case py_get c ''id'' JNull of
        Inl e \<Rightarrow> Inl e
      | Inr i \<Rightarrow>
          if truthy i then Inr i
          else
            (case py_get c ''location'' (JObj []) of
               Inl e \<Rightarrow> Inl e
             | Inr loc \<Rightarrow>
                 (case py_get (if truthy loc then loc else JObj []) ''street'' (JObj []) of
                    Inl e \<Rightarrow> Inl e
                  | Inr street \<Rightarrow> py_get street ''id'' (JStr []))))"

definition crime_key :: "json \<Rightarrow> py_error + pykey \<times> pykey" where
  "crime_key c =
     (case crime_uid c of
        Inl e \<Rightarrow> Inl e
      | Inr uid \<Rightarrow>
          (case py_get c ''month'' (JStr []) of
             Inl e \<Rightarrow> Inl e
           | Inr m \<Rightarrow>
               (case py_hashable uid of
                  Inl e \<Rightarrow> Inl e
                | Inr ku \<Rightarrow> (case py_hashable m of Inl e \<Rightarrow> Inl e | Inr km \<Rightarrow> Inr (ku, km)))))"

text \<open>
  The inner loop \<^verbatim>\<open>for c in crimes\<close> of the merge, over the items of one child's
  result, with the two accumulators \<^verbatim>\<open>all_crimes\<close> and \<^verbatim>\<open>seen_ids\<close>.
\<close>

fun merge_crimes ::
  "json list \<Rightarrow> json list \<Rightarrow> (pykey \<times> pykey) set \<Rightarrow> py_error + json list \<times> (pykey \<times> pykey) set" where
  "merge_crimes [] all_crimes seen_ids = Inr (all_crimes, seen_ids)"
| "merge_crimes (c # cs) all_crimes seen_ids =
     (case crime_key c of
        Inl e \<Rightarrow> Inl e
      | Inr key \<Rightarrow>
          if key \<notin> seen_ids then merge_crimes cs (all_crimes @ [c]) (insert key seen_ids)
          else merge_crimes cs all_crimes seen_ids)"

text \<open>
  \<^verbatim>\<open>_fetch_with_subdivision\<close>, and the loop \<^verbatim>\<open>for quad, suffix in zip(quadrants, suffixes)\<close>
  in it, which calls it again one level deeper. The loop carries \<^verbatim>\<open>all_crimes\<close> and
  \<^verbatim>\<open>seen_ids\<close>; an exception anywhere ends the whole call with the state reached.
\<close>

function fetch_with_subdivision ::
    "'g shapely \<Rightarrow> service \<Rightarrow> 'g \<Rightarrow> string \<Rightarrow> nat \<Rightarrow> string \<Rightarrow> world \<Rightarrow> (py_error + json) \<times> world"
  and subdivide_loop ::
    "'g shapely \<Rightarrow> service \<Rightarrow> 'g \<Rightarrow> string \<Rightarrow> nat \<Rightarrow> string \<Rightarrow> ('g \<times> string) list \<Rightarrow> json list
       \<Rightarrow> (pykey \<times> pykey) set \<Rightarrow> world \<Rightarrow> (py_error + json list) \<times> world"
where
  "fetch_with_subdivision sh api geom month depth cell_id w =
     (case simplify_to_n_points sh geom MAX_POLY_POINTS of
        Inl e \<Rightarrow> (Inl e, w)
      | Inr coords \<Rightarrow>
          (case coords_to_api_string coords of
             Inl e \<Rightarrow> (Inl e, w)
           | Inr poly_str \<Rightarrow>
               (let label = (if cell_id \<noteq> [] then cell_id else ''full'');
                    cache_path = label @ ''_'' @ month @ ''.json''
                in case fetch_single_poly api poly_str month cache_path w of
                     (Inl e, w1) \<Rightarrow> (Inl e, w1)
                   | (Inr result, w1) \<Rightarrow>
                       if result \<noteq> JNull then (Inr result, w1)
                       else if depth \<ge> MAX_GRID_DEPTH
                       then (Inr (JArr []), emit (MaxDepthWarning month label) w1)
                       else
                         (case geom_bounds sh geom of
                            (minx, miny, maxx, maxy) \<Rightarrow>
                              (let midx = (minx + maxx) / 2;
                                   midy = (miny + maxy) / 2;
                                   quadrants =
                                     [geom_box sh minx midy midx maxy,
                                      geom_box sh midx midy maxx maxy,
                                      geom_box sh minx miny midx midy,
                                      geom_box sh midx miny maxx midy];
                                   suffixes = [''NW'', ''NE'', ''SW'', ''SE'']
                               in case subdivide_loop sh api geom month depth cell_id
                                         (zip quadrants suffixes) [] {} w1 of
                                    (Inl e, w2) \<Rightarrow> (Inl e, w2)
                                  | (Inr all_crimes, w2) \<Rightarrow>
                                      (Inr (JArr all_crimes),
                                       write_cache cache_path (JArr all_crimes) w2))))))"
| "subdivide_loop sh api geom month depth cell_id [] all_crimes seen_ids w = (Inr all_crimes, w)"
| "subdivide_loop sh api geom month depth cell_id ((quad, suffix) # rest) all_crimes seen_ids w =
     (let clipped = geom_intersection sh geom quad
      in if geom_is_empty sh clipped
         then subdivide_loop sh api geom month depth cell_id rest all_crimes seen_ids w
         else
           (let label = (if cell_id \<noteq> [] then cell_id else ''full'');
                sub_id = (if cell_id \<noteq> [] then label @ ''_'' @ suffix else suffix)
            in case fetch_with_subdivision sh api clipped month (depth + 1) sub_id w of
                 (Inl e, w1) \<Rightarrow> (Inl e, w1)
               | (Inr crimes, w1) \<Rightarrow>
                   (case py_iter crimes of
                      Inl e \<Rightarrow> (Inl e, w1)
                    | Inr cs \<Rightarrow>
                        (case merge_crimes cs all_crimes seen_ids of
                           Inl e \<Rightarrow> (Inl e, w1)
                         | Inr (all_crimes', seen_ids') \<Rightarrow>
                             subdivide_loop sh api geom month depth cell_id rest
                               all_crimes' seen_ids' w1))))"
  by pat_completeness auto
termination
  by (relation "measure (\<lambda>x. case x of
          Inl (sh, api, geom, month, depth, cell_id, w) \<Rightarrow> 6 * (MAX_GRID_DEPTH + 1 - depth)
        | Inr (sh, api, geom, month, depth, cell_id, qs, all_crimes, seen_ids, w) \<Rightarrow>
            6 * (MAX_GRID_DEPTH - depth) + 1 + length qs)") auto

declare fetch_with_subdivision.simps [simp del]

text \<open>
  \<^verbatim>\<open>fetch_borough_month\<close>: the public entry point starts the recursion at depth 0 with an
  empty cell id, in the cache directory of the borough (the directory whose files
  \<open>cache\<close> holds).
\<close>

definition fetch_borough_month :: "'g shapely \<Rightarrow> service \<Rightarrow> 'g \<Rightarrow> string \<Rightarrow> world \<Rightarrow> (py_error + json) \<times> world" where
  "fetch_borough_month sh api borough_geom month w =
     fetch_with_subdivision sh api borough_geom month 0 [] w"

section \<open>utils\_osm.py\<close>

definition OVERPASS_ENDPOINTS :: "string list" where
  "OVERPASS_ENDPOINTS =
     [''https://overpass-api.de/api/interpreter'',
      ''https://overpass.kumi.systems/api/interpreter'']"

text \<open>\<^verbatim>\<open>_build_query\<close>: the Overpass QL text for a bounding box, line by line.\<close>

definition build_query :: "real \<Rightarrow> real \<Rightarrow> real \<Rightarrow> real \<Rightarrow> string" where
  "build_query south west north east =
     (let bbox = fmt6 south @ '','' @ fmt6 west @ '','' @ fmt6 north @ '','' @ fmt6 east;
          q = [CHR 0x22]; nl = [CHR 0x0A]
      in ''[out:json][timeout:60];'' @ nl @ ''('' @ nl
         @ ''  node['' @ q @ ''amenity'' @ q @ ''='' @ q @ ''bicycle_parking'' @ q @ '']('' @ bbox @ '');'' @ nl
         @ ''  way['' @ q @ ''amenity'' @ q @ ''='' @ q @ ''bicycle_parking'' @ q @ '']('' @ bbox @ '');'' @ nl
         @ '');'' @ nl @ ''out center;'')"

text \<open>
  \<^verbatim>\<open>_query_overpass\<close>: the loop over the endpoints. An endpoint that raises a
  \<^verbatim>\<open>RequestException\<close> (which the decoding error of \<^verbatim>\<open>resp.json()\<close> is, in the
  \<^verbatim>\<open>requests\<close> library) or answers with another status than 200 is passed over; when
  none is left the result is \<^verbatim>\<open>None\<close>, here \<open>JNull\<close>.
\<close>

fun query_overpass :: "service \<Rightarrow> string list \<Rightarrow> string \<Rightarrow> world \<Rightarrow> json \<times> world" where
  "query_overpass api [] query w = (JNull, w)"
| "query_overpass api (endpoint # rest) query w =
     (let resp = api (trace w) endpoint query;
          w1 = emit (Post endpoint query resp) w
      in case resp of
           RequestException \<Rightarrow> query_overpass api rest query w1
         | Response status_code body \<Rightarrow>
             if status_code = 200
             then (case body of None \<Rightarrow> query_overpass api rest query w1 | Some v \<Rightarrow> (v, w1))
             else query_overpass api rest query w1)"

text \<open>\<^verbatim>\<open>_element_to_point\<close>: the result is \<open>None\<close> where the function returns \<^verbatim>\<open>None\<close>.\<close>

definition element_to_point :: "'g shapely \<Rightarrow> json \<Rightarrow> py_error + 'g option" where
  "element_to_point sh elem =
     (case py_get elem ''type'' JNull of
        Inl e \<Rightarrow> Inl e
      | Inr etype \<Rightarrow>
          (case
             (if etype = JStr ''node'' then
                (case py_get elem ''lat'' JNull of
                   Inl e \<Rightarrow> Inl e
                 | Inr lat \<Rightarrow>
                     (case py_get elem ''lon'' JNull of
                        Inl e \<Rightarrow> Inl e
                      | Inr lon \<Rightarrow> Inr (Some (lat, lon))))
              else if etype = JStr ''way'' then
                (case py_get elem ''center'' (JObj []) of
                   Inl e \<Rightarrow> Inl e
                 | Inr center \<Rightarrow>
                     (case py_get center ''lat'' JNull of
                        Inl e \<Rightarrow> Inl e
                      | Inr lat \<Rightarrow>
                          (case py_get center ''lon'' JNull of
                             Inl e \<Rightarrow> Inl e
                           | Inr lon \<Rightarrow> Inr (Some (lat, lon)))))
              else Inr None)
           of
             Inl e \<Rightarrow> Inl e
           | Inr None \<Rightarrow> Inr None
           | Inr (Some (lat, lon)) \<Rightarrow>
               if lat = JNull \<or> lon = JNull then Inr None
               else (case geom_point sh lon lat of Inl e \<Rightarrow> Inl e | Inr pt \<Rightarrow> Inr (Some pt))))"

text \<open>
  The spatial filter of \<^verbatim>\<open>fetch_borough_parking\<close>: the loop \<^verbatim>\<open>for elem in elements\<close>
  with its counter.
\<close>

fun count_contained :: "'g shapely \<Rightarrow> 'g \<Rightarrow> json list \<Rightarrow> nat \<Rightarrow> py_error + nat" where
  "count_contained sh borough_geom [] count = Inr count"
| "count_contained sh borough_geom (elem # rest) count =
     (case element_to_point sh elem of
        Inl e \<Rightarrow> Inl e
      | Inr pt \<Rightarrow>
          if pt \<noteq> None \<and> geom_contains sh borough_geom (the pt)
          then count_contained sh borough_geom rest (count + 1)
          else count_contained sh borough_geom rest count)"

definition spatial_filter :: "'g shapely \<Rightarrow> 'g \<Rightarrow> json \<Rightarrow> py_error + nat" where
  "spatial_filter sh borough_geom raw =
     (case py_get raw ''elements'' (JArr []) of
        Inl e \<Rightarrow> Inl e
      | Inr elements \<Rightarrow>
          (case py_iter elements of
             Inl e \<Rightarrow> Inl e
           | Inr elems \<Rightarrow> count_contained sh borough_geom elems 0))"

text \<open>\<^verbatim>\<open>fetch_borough_parking\<close>, with the cache directory and the service in the state.\<close>

definition fetch_borough_parking ::
  "'g shapely \<Rightarrow> service \<Rightarrow> string \<Rightarrow> 'g \<Rightarrow> world \<Rightarrow> (py_error + nat) \<times> world" where
  "fetch_borough_parking sh api borough_name borough_geom w =
     (let safe_name = map (\<lambda>c. if c = CHR '' '' then CHR ''_'' else c) borough_name;
          cache_path = safe_name @ ''_parking.json''
      in case cache w cache_path of
           Some raw \<Rightarrow> (spatial_filter sh borough_geom raw, w)
         | None \<Rightarrow>
             (case geom_bounds sh borough_geom of
                (minx, miny, maxx, maxy) \<Rightarrow>
                  (let query = build_query miny minx maxy maxx
                   in case query_overpass api OVERPASS_ENDPOINTS query w of
                        (raw, w1) \<Rightarrow>
                          if raw = JNull then (Inr 0, w1)
                          else
                            (let w2 = write_cache cache_path raw w1
                             in (spatial_filter sh borough_geom raw, w2)))))"

section \<open>A small geometry library for examples\<close>

text \<open>
  The examples below run the code on axis-parallel rectangles \<open>(minx, miny, maxx, maxy)\<close>,
  for which the geometry operations are elementary. The ring of a rectangle has five
  coordinates (the first corner repeated at the end), as the ring of \<^verbatim>\<open>box(...)\<close> has;
  a rectangle without area is no polygon and has no exterior; no tolerance removes a
  corner; two rectangles meet in the rectangle of the larger lower and the smaller upper
  bounds, which is empty when these cross; a point is a rectangle whose corners coincide,
  and it is contained when it lies in the interior.
\<close>

type_synonym rect = "real \<times> real \<times> real \<times> real"

definition rect_shapely :: "rect shapely" where
  "rect_shapely =
     \<lparr> geom_exterior = (\<lambda>(minx, miny, maxx, maxy).
          if minx < maxx \<and> miny < maxy
          then Some [[maxx, miny], [maxx, maxy], [minx, maxy], [minx, miny], [maxx, miny]]
          else None),
       geom_simplify = (\<lambda>g tolerance. g),
       geom_bounds = (\<lambda>g. g),
       geom_box = (\<lambda>minx miny maxx maxy. (minx, miny, maxx, maxy)),
       geom_intersection = (\<lambda>(a, b, c, d) (a', b', c', d'). (max a a', max b b', min c c', min d d')),
       geom_is_empty = (\<lambda>(minx, miny, maxx, maxy). maxx < minx \<or> maxy < miny),
       geom_contains = (\<lambda>(minx, miny, maxx, maxy) (x, y, x', y').
          minx < x \<and> x' < maxx \<and> miny < y \<and> y' < maxy),
       geom_point = (\<lambda>x y. case (x, y) of (JNum p, JNum q) \<Rightarrow> Inr (p, q, p, q) | _ \<Rightarrow> Inl TypeError) \<rparr>"

text \<open>A crime record as the police endpoint returns it, cut down to the fields the code reads.\<close>

definition crime_rec :: "real \<Rightarrow> json" where
  "crime_rec i = JObj [(''id'', JNum i), (''month'', JStr ''2025-01'')]"

text \<open>The state before anything has run: an empty cache directory, an empty trace.\<close>

definition empty_world :: world where
  "empty_world = \<lparr>cache = Map.empty, trace = []\<rparr>"



text \<open>
  The scenario of the specification: the region with the bounding box \<open>(0, 0, 2, 2)\<close> is
  too large for the service, and its four quadrants hold 3, 0, 5 and 2 crimes with
  different ids. The service answers by the polygon it is asked for.
\<close>

definition scenario_api :: service where
  "scenario_api tr poly date =
     (if poly = ''0.000000,2.000000:2.000000,2.000000:2.000000,0.000000:0.000000,0.000000''
      then Response 503 None
      else if poly = ''1.000000,1.000000:2.000000,1.000000:2.000000,0.000000:1.000000,0.000000''
      then Response 200 (Some (JArr [crime_rec 1, crime_rec 2, crime_rec 3]))
      else if poly = ''1.000000,2.000000:2.000000,2.000000:2.000000,1.000000:1.000000,1.000000''
      then Response 200 (Some (JArr []))
      else if poly = ''0.000000,1.000000:1.000000,1.000000:1.000000,0.000000:0.000000,0.000000''
      then Response 200 (Some (JArr [crime_rec 4, crime_rec 5, crime_rec 6, crime_rec 7, crime_rec 8]))
      else if poly = ''0.000000,2.000000:1.000000,2.000000:1.000000,1.000000:0.000000,1.000000''
      then Response 200 (Some (JArr [crime_rec 9, crime_rec 10]))
      else Response 404 None)"

definition scenario_world :: world where
  "scenario_world =
     \<lparr>cache =
        [''NW_2025-01.json'' \<mapsto> JArr [crime_rec 1, crime_rec 2, crime_rec 3],
         ''NE_2025-01.json'' \<mapsto> JArr [],
         ''SW_2025-01.json'' \<mapsto> JArr [crime_rec 4, crime_rec 5, crime_rec 6, crime_rec 7, crime_rec 8],
         ''SE_2025-01.json'' \<mapsto> JArr [crime_rec 9, crime_rec 10],
         ''full_2025-01.json'' \<mapsto>
            JArr [crime_rec 1, crime_rec 2, crime_rec 3, crime_rec 4, crime_rec 5, crime_rec 6,
                  crime_rec 7, crime_rec 8, crime_rec 9, crime_rec 10]],
      trace =
        [Get ''0.000000,2.000000:2.000000,2.000000:2.000000,0.000000:0.000000,0.000000'' ''2025-01''
           (Response 503 None),
         Get ''1.000000,1.000000:2.000000,1.000000:2.000000,0.000000:1.000000,0.000000'' ''2025-01''
           (Response 200 (Some (JArr [crime_rec 1, crime_rec 2, crime_rec 3]))),
         Write ''NW_2025-01.json'' (JArr [crime_rec 1, crime_rec 2, crime_rec 3]),
         Get ''1.000000,2.000000:2.000000,2.000000:2.000000,1.000000:1.000000,1.000000'' ''2025-01''
           (Response 200 (Some (JArr []))),
         Write ''NE_2025-01.json'' (JArr []),
         Get ''0.000000,1.000000:1.000000,1.000000:1.000000,0.000000:0.000000,0.000000'' ''2025-01''
           (Response 200 (Some (JArr [crime_rec 4, crime_rec 5, crime_rec 6, crime_rec 7, crime_rec 8]))),
         Write ''SW_2025-01.json'' (JArr [crime_rec 4, crime_rec 5, crime_rec 6, crime_rec 7, crime_rec 8]),
         Get ''0.000000,2.000000:1.000000,2.000000:1.000000,1.000000:0.000000,1.000000'' ''2025-01''
           (Response 200 (Some (JArr [crime_rec 9, crime_rec 10]))),
         Write ''SE_2025-01.json'' (JArr [crime_rec 9, crime_rec 10]),
         Write ''full_2025-01.json''
           (JArr [crime_rec 1, crime_rec 2, crime_rec 3, crime_rec 4, crime_rec 5, crime_rec 6,
                  crime_rec 7, crime_rec 8, crime_rec 9, crime_rec 10])]\<rparr>"

text \<open>A service that is unreachable for the first request and answers every later one.\<close>

definition flaky_api :: service where
  "flaky_api tr poly date =
     (if tr = [] then RequestException else Response 200 (Some (JArr [crime_rec 1])))"

text \<open>
  A service for which the whole region is too large, and which is unreachable for every
  other request.
\<close>

definition overload_api :: service where
  "overload_api tr poly date =
     (if poly = ''0.000000,2.000000:2.000000,2.000000:2.000000,0.000000:0.000000,0.000000''
      then Response 503 None
      else RequestException)"

text \<open>
  A second family of geometries, for regions that are not rectangles: a convex polygon is
  the list of its vertices, in order and without the closing vertex; a single vertex is
  a point, two are a line, none is the empty geometry. Only a polygon has an exterior
  ring. Intersecting with a box (the code intersects with boxes only, and the second
  argument is taken by its bounds) clips the polygon at the four sides of the box, one
  after the other, then drops the vertices that repeat; a point is contained in a
  polygon when it lies strictly on the same side of every edge. As for the rectangles,
  no tolerance removes a vertex: the rings of the examples are within the budget of the
  code, or are triangles, which no simplification makes smaller.
\<close>

type_synonym convex = "(real \<times> real) list"

fun clip_edges ::
  "(real \<times> real \<Rightarrow> bool) \<Rightarrow> (real \<times> real \<Rightarrow> real \<times> real \<Rightarrow> real \<times> real) \<Rightarrow> real \<times> real
     \<Rightarrow> convex \<Rightarrow> convex" where
  "clip_edges inside xing p [] = []"
| "clip_edges inside xing p (q # qs) =
     (if inside q then (if inside p then [q] else [xing p q, q])
      else (if inside p then [xing p q] else []))
     @ clip_edges inside xing q qs"

definition clip_half ::
  "(real \<times> real \<Rightarrow> bool) \<Rightarrow> (real \<times> real \<Rightarrow> real \<times> real \<Rightarrow> real \<times> real) \<Rightarrow> convex \<Rightarrow> convex" where
  "clip_half inside xing ps = (if ps = [] then [] else clip_edges inside xing (last ps) ps)"

definition cut_x :: "real \<Rightarrow> real \<times> real \<Rightarrow> real \<times> real \<Rightarrow> real \<times> real" where
  "cut_x a p q = (a, snd p + (snd q - snd p) * (a - fst p) / (fst q - fst p))"

definition cut_y :: "real \<Rightarrow> real \<times> real \<Rightarrow> real \<times> real \<Rightarrow> real \<times> real" where
  "cut_y b p q = (fst p + (fst q - fst p) * (b - snd p) / (snd q - snd p), b)"

definition tidy :: "convex \<Rightarrow> convex" where
  "tidy ps =
     (let qs = remdups_adj ps
      in if 1 < length qs \<and> hd qs = last qs then butlast qs else qs)"

definition clip_box :: "real \<times> real \<times> real \<times> real \<Rightarrow> convex \<Rightarrow> convex" where
  "clip_box b ps =
     (case b of
        (minx, miny, maxx, maxy) \<Rightarrow>
          tidy (clip_half (\<lambda>p. snd p \<le> maxy) (cut_y maxy)
                 (clip_half (\<lambda>p. fst p \<le> maxx) (cut_x maxx)
                    (clip_half (\<lambda>p. miny \<le> snd p) (cut_y miny)
                       (clip_half (\<lambda>p. minx \<le> fst p) (cut_x minx) ps)))))"

definition bounds_of :: "convex \<Rightarrow> real \<times> real \<times> real \<times> real" where
  "bounds_of ps =
     (case ps of
        [] \<Rightarrow> (0, 0, 0, 0)
      | p # qs \<Rightarrow>
          (fold min (map fst qs) (fst p), fold min (map snd qs) (snd p),
           fold max (map fst qs) (fst p), fold max (map snd qs) (snd p)))"

definition side_of :: "real \<times> real \<Rightarrow> real \<times> real \<Rightarrow> real \<times> real \<Rightarrow> real" where
  "side_of a b p = (fst b - fst a) * (snd p - snd a) - (snd b - snd a) * (fst p - fst a)"

definition strictly_inside :: "convex \<Rightarrow> real \<times> real \<Rightarrow> bool" where
  "strictly_inside ps p =
     (let sides = map (\<lambda>(a, b). side_of a b p) (zip ps (rotate1 ps))
      in ps \<noteq> [] \<and> (list_all (\<lambda>s. 0 < s) sides \<or> list_all (\<lambda>s. s < 0) sides))"

definition convex_shapely :: "convex shapely" where
  "convex_shapely =
     \<lparr> geom_exterior = (\<lambda>ps.
          if 3 \<le> length ps then Some (map (\<lambda>(x, y). [x, y]) (ps @ [hd ps])) else None),
       geom_simplify = (\<lambda>g tolerance. g),
       geom_bounds = bounds_of,
       geom_box = (\<lambda>minx miny maxx maxy. [(maxx, miny), (maxx, maxy), (minx, maxy), (minx, miny)]),
       geom_intersection = (\<lambda>g quad. clip_box (bounds_of quad) g),
       geom_is_empty = (\<lambda>ps. ps = []),
       geom_contains = (\<lambda>g h. h \<noteq> [] \<and> list_all (strictly_inside g) h),
       geom_point = (\<lambda>x y. case (x, y) of (JNum p, JNum q) \<Rightarrow> Inr [(p, q)] | _ \<Rightarrow> Inl TypeError) \<rparr>"

text \<open>
  A triangular region, the lower right half of the square \<open>(0, 0, 2, 2)\<close>. The north-west
  quadrant of its bounding box meets it in the single point \<open>(1, 1)\<close>.
\<close>

definition triangle :: convex where
  "triangle = [(0, 0), (2, 0), (2, 2)]"

text \<open>
  A service for which the first region asked for is too large and whose next answer,
  with status 200, has a body that is not JSON.
\<close>

definition garbled_api :: service where
  "garbled_api tr poly date = (if tr = [] then Response 503 None else Response 200 None)"


section \<open>Notions used to state the properties\<close>

text \<open>The identity keys of the records of a list.\<close>

definition keys_of :: "json list \<Rightarrow> (pykey \<times> pykey) set" where
  "keys_of xs = {k. \<exists>c \<in> set xs. crime_key c = Inr k}"

text \<open>
  The merge rule of the specification for two feature lists: the union by identity key
  in which the first record seen with a key is the one kept. It keeps no set of seen
  keys: a record of the second list is added when no record kept so far has its key.
\<close>

definition spec_merge :: "json list \<Rightarrow> json list \<Rightarrow> json list" where
  "spec_merge a b =
     foldl (\<lambda>acc c. if crime_key c \<in> crime_key ` set acc then acc else acc @ [c]) a b"

text \<open>
  The wire string of a geometry (the first two steps of \<^verbatim>\<open>_fetch_with_subdivision\<close>), and
  the name of the cache file of a cell for a month.
\<close>

definition encode_geom :: "'g shapely \<Rightarrow> 'g \<Rightarrow> py_error + string" where
  "encode_geom sh geom =
     (case simplify_to_n_points sh geom MAX_POLY_POINTS of
        Inl e \<Rightarrow> Inl e
      | Inr coords \<Rightarrow> coords_to_api_string coords)"

definition cell_path :: "string \<Rightarrow> string \<Rightarrow> string" where
  "cell_path cell_id month = (if cell_id \<noteq> [] then cell_id else ''full'') @ ''_'' @ month @ ''.json''"

text \<open>
  The outcome the specification calls \<^verbatim>\<open>OtherFailure\<close>: a network error, or a status
  that is neither success (200) nor capacity-exceeded (503).
\<close>

definition other_failure :: "response \<Rightarrow> bool" where
  "other_failure resp =
     (case resp of RequestException \<Rightarrow> True | Response status_code body \<Rightarrow> status_code \<noteq> 200 \<and> status_code \<noteq> 503)"

text \<open>The name of the cache file of a borough's Overpass response.\<close>

definition parking_path :: "string \<Rightarrow> string" where
  "parking_path borough_name =
     map (\<lambda>c. if c = CHR '' '' then CHR ''_'' else c) borough_name @ ''_parking.json''"



text \<open>
  The invariant of the merge loop: \<open>seen_ids\<close> is the set of the keys of \<open>all_crimes\<close>,
  no two records of \<open>all_crimes\<close> share a key, and every record kept has a key.
\<close>

definition merge_inv :: "json list \<Rightarrow> (pykey \<times> pykey) set \<Rightarrow> bool" where
  "merge_inv all_crimes seen_ids \<longleftrightarrow>
     seen_ids = keys_of all_crimes \<and> distinct (map crime_key all_crimes)
     \<and> (\<forall>c \<in> set all_crimes. \<exists>k. crime_key c = Inr k)"

text \<open>
  The subdivision step in the words of the specification. The four quadrant boxes of a
  region bisect its bounding box on both axes; north is the larger \<open>y\<close>, west the
  smaller \<open>x\<close>.
\<close>

definition quadrant_boxes :: "'g shapely \<Rightarrow> 'g \<Rightarrow> ('g \<times> string) list" where
  "quadrant_boxes sh region =
     (case geom_bounds sh region of
        (minx, miny, maxx, maxy) \<Rightarrow>
          [(geom_box sh minx ((miny + maxy) / 2) ((minx + maxx) / 2) maxy, ''NW''),
           (geom_box sh ((minx + maxx) / 2) ((miny + maxy) / 2) maxx maxy, ''NE''),
           (geom_box sh minx miny ((minx + maxx) / 2) ((miny + maxy) / 2), ''SW''),
           (geom_box sh ((minx + maxx) / 2) miny maxx ((miny + maxy) / 2), ''SE'')])"

text \<open>Each quadrant is intersected with the region, and the empty intersections are discarded.\<close>

definition surviving_pieces :: "'g shapely \<Rightarrow> 'g \<Rightarrow> ('g \<times> string) list" where
  "surviving_pieces sh region =
     filter (\<lambda>(piece, suffix). \<not> geom_is_empty sh piece)
       (map (\<lambda>(quad, suffix). (geom_intersection sh region quad, suffix)) (quadrant_boxes sh region))"

text \<open>The cell id of a child: the parent's, extended by the quadrant suffix.\<close>

definition child_id :: "string \<Rightarrow> string \<Rightarrow> string" where
  "child_id cell_id suffix = (if cell_id \<noteq> [] then cell_id @ ''_'' @ suffix else suffix)"

text \<open>The exception a list of records makes the merge raise: that of the first record without a key.\<close>

fun first_key_error :: "json list \<Rightarrow> py_error option" where
  "first_key_error [] = None"
| "first_key_error (c # cs) =
     (case crime_key c of Inl e \<Rightarrow> Some e | Inr k \<Rightarrow> first_key_error cs)"

text \<open>
  The surviving pieces are fetched one after the other, one level deeper, and each
  result is merged into the results so far by the merge rule.
\<close>

fun spec_merge_children ::
  "'g shapely \<Rightarrow> service \<Rightarrow> string \<Rightarrow> nat \<Rightarrow> string \<Rightarrow> ('g \<times> string) list \<Rightarrow> json list \<Rightarrow> world
     \<Rightarrow> (py_error + json list) \<times> world" where
  "spec_merge_children sh api month depth cell_id [] merged w = (Inr merged, w)"
| "spec_merge_children sh api month depth cell_id ((piece, suffix) # rest) merged w =
     (case fetch_with_subdivision sh api piece month (depth + 1) (child_id cell_id suffix) w of
        (Inl e, w1) \<Rightarrow> (Inl e, w1)
      | (Inr crimes, w1) \<Rightarrow>
          (case py_iter crimes of
             Inl e \<Rightarrow> (Inl e, w1)
           | Inr cs \<Rightarrow>
               (case first_key_error cs of
                  Some e \<Rightarrow> (Inl e, w1)
                | None \<Rightarrow> spec_merge_children sh api month depth cell_id rest (spec_merge merged cs) w1)))"

text \<open>
  Counting requests in a trace. A leaf query is a request that did not lead to a
  subdivision: one answered with anything but status 503, or one whose cell was given up
  at the depth limit, which the warning of \<^verbatim>\<open>_fetch_with_subdivision\<close> records.
\<close>

fun is_get :: "event \<Rightarrow> bool" where
  "is_get (Get p m r) = True"
| "is_get _ = False"

fun is_leaf :: "event \<Rightarrow> bool" where
  "is_leaf (Get p m (Response status_code body)) = (status_code \<noteq> 503)"
| "is_leaf (Get p m RequestException) = True"
| "is_leaf (MaxDepthWarning m l) = True"
| "is_leaf _ = False"

text \<open>
  A run from the state \<open>w\<close> to the state \<open>w'\<close> stays within \<open>g\<close> requests and \<open>l\<close> leaf
  queries when the trace has only grown, by events among which at most \<open>g\<close> are requests
  and at most \<open>l\<close> are leaf queries.
\<close>

definition run_within :: "world \<Rightarrow> world \<Rightarrow> nat \<Rightarrow> nat \<Rightarrow> bool" where
  "run_within w w' g l \<longleftrightarrow>
     (\<exists>evs. trace w' = trace w @ evs
        \<and> length (filter is_get evs) \<le> g \<and> length (filter is_leaf evs) \<le> l)"

text \<open>The number of cells of a full quadtree with \<open>n\<close> levels below its root.\<close>

fun total_bound :: "nat \<Rightarrow> nat" where
  "total_bound 0 = 1"
| "total_bound (Suc n) = 1 + 4 * total_bound n"

text \<open>
  A run from \<open>w\<close> to \<open>w'\<close> keeps the cache entries it found: every file that held a
  document other than \<^verbatim>\<open>null\<close> in \<open>w\<close> holds the same document in \<open>w'\<close>.
\<close>

definition keeps_entries :: "world \<Rightarrow> world \<Rightarrow> bool" where
  "keeps_entries w w' \<longleftrightarrow> (\<forall>k v. cache w k = Some v \<and> v \<noteq> JNull \<longrightarrow> cache w' k = Some v)"

section \<open>Verification\<close>

subsection \<open>Evaluation rules\<close>

lemma str_nat_small: "n < 10 \<Longrightarrow> str_nat n = [digit_char n]"
  by (simp add: str_nat.simps)

lemma str_nat_big: "\<not> n < 10 \<Longrightarrow> str_nat n = str_nat (n div 10) @ [digit_char (n mod 10)]"
  by (subst str_nat.simps) simp

lemmas fmt6_eval = fmt6_def round_half_even_def Let_def str_nat_small str_nat_big digit_char_def

subsection \<open>The query encoder\<close>

lemma fmt_pair_cases:
  "fmt_pair c = (if length c = 2 then Inr (fmt6 (c ! 1) @ '','' @ fmt6 (c ! 0)) else Inl ValueError)"
  by (cases c rule: fmt_pair.cases) simp_all

lemma fmt_pairs_cases:
  "fmt_pairs coords =
     (if \<forall>c \<in> set coords. length c = 2
      then Inr (map (\<lambda>c. fmt6 (c ! 1) @ '','' @ fmt6 (c ! 0)) coords)
      else Inl ValueError)"
proof (induction coords)
  case Nil
  show ?case by simp
next
  case (Cons c cs)
  show ?case
  proof (cases "length c = 2")
    case True
    with Cons show ?thesis by (simp add: fmt_pair_cases)
  next
    case False
    then show ?thesis by (simp add: fmt_pair_cases)
  qed
qed

text \<open>
  C9, as the code has it. The claim says that encoding an empty ring is an error; the
  code returns the empty string for it.
\<close>

theorem encode_empty_ring_is_no_error: "coords_to_api_string [] = Inr []"
  by (simp add: coords_to_api_string_def)

text \<open>
  C9 (amended). The encoder has no state and one failure: a ring with a coordinate tuple
  that is not a pair raises \<^verbatim>\<open>ValueError\<close>. The empty ring encodes to the empty
  string, and a ring of (lng, lat) pairs to the pieces \<^verbatim>\<open>lat,lng\<close>, each number with six
  decimals, in the order of the ring, with a colon between two neighbours and none at
  either end.
\<close>

theorem coords_to_api_string_spec:
  "coords_to_api_string coords =
     (if \<forall>c \<in> set coords. length c = 2
      then Inr (join_str '':'' (map (\<lambda>c. fmt6 (c ! 1) @ '','' @ fmt6 (c ! 0)) coords))
      else Inl ValueError)
   \<and> coords_to_api_string [] = Inr []
   \<and> coords_to_api_string [[lng, lat]] = Inr (fmt6 lat @ '','' @ fmt6 lng)
   \<and> (coords_to_api_string (c # coords) = Inr s \<and> coords \<noteq> [] \<longrightarrow>
        (\<exists>t. coords_to_api_string coords = Inr t \<and> s = fmt6 (c ! 1) @ '','' @ fmt6 (c ! 0) @ '':'' @ t))"
proof (intro conjI impI)
  show "coords_to_api_string coords =
     (if \<forall>c \<in> set coords. length c = 2
      then Inr (join_str '':'' (map (\<lambda>c. fmt6 (c ! 1) @ '','' @ fmt6 (c ! 0)) coords))
      else Inl ValueError)"
    by (simp add: coords_to_api_string_def fmt_pairs_cases)
  show "coords_to_api_string [] = Inr []"
    by (simp add: coords_to_api_string_def)
  show "coords_to_api_string [[lng, lat]] = Inr (fmt6 lat @ '','' @ fmt6 lng)"
    by (simp add: coords_to_api_string_def)
next
  assume a: "coords_to_api_string (c # coords) = Inr s \<and> coords \<noteq> []"
  then obtain d ds where ds: "coords = d # ds" by (cases coords) auto
  from a have all2: "\<forall>x \<in> set (c # coords). length x = 2"
    by (simp add: coords_to_api_string_def fmt_pairs_cases split: if_splits)
  with a ds show "\<exists>t. coords_to_api_string coords = Inr t \<and> s = fmt6 (c ! 1) @ '','' @ fmt6 (c ! 0) @ '':'' @ t"
    by (simp add: coords_to_api_string_def fmt_pairs_cases)
qed

theorem coords_to_api_string_spec_witness:
  "coords_to_api_string [[- 1278 / 10000, 515074 / 10000], [0, 1]]
     = Inr ''51.507400,-0.127800:1.000000,0.000000''
   \<and> (\<exists>t. coords_to_api_string [[0, 1]] = Inr t
          \<and> ''51.507400,-0.127800:1.000000,0.000000''
              = fmt6 (515074 / 10000) @ '','' @ fmt6 (- 1278 / 10000) @ '':'' @ t)
   \<and> coords_to_api_string [[0, 1, 5]] = Inl ValueError"
proof -
  have v: "coords_to_api_string ([- 1278 / 10000, 515074 / 10000] # [[0, 1]])
             = Inr ''51.507400,-0.127800:1.000000,0.000000'' \<and> [[0, 1 :: real]] \<noteq> []"
    by (simp add: coords_to_api_string_def fmt6_eval)
  have "\<exists>t. coords_to_api_string [[0, 1]] = Inr t
          \<and> ''51.507400,-0.127800:1.000000,0.000000''
              = fmt6 ([- 1278 / 10000, 515074 / 10000] ! 1) @ '',''
                  @ fmt6 ([- 1278 / 10000, 515074 / 10000] ! 0) @ '':'' @ t"
    using coords_to_api_string_spec [of "[[0, 1]]" 0 1 "[- 1278 / 10000, 515074 / 10000]"
        "''51.507400,-0.127800:1.000000,0.000000''"] v
    by blast
  moreover have "coords_to_api_string [[0, 1, 5]] = Inl ValueError"
    using coords_to_api_string_spec [of "[[0, 1, 5]]" 0 1 "[]" "[]"] by simp
  ultimately show ?thesis using v by simp
qed

subsection \<open>The polygon simplifier\<close>

text \<open>
  The tolerance of the attempt number \<open>i\<close> (from 0) of a loop started at \<open>tolerance\<close> is
  \<open>tolerance * 2 ^ i\<close>. An attempt is within the budget when its ring, closing coordinate
  included, has at most \<open>max_points\<close> coordinates.
\<close>

lemma simplify_loop_exhausted:
  "\<forall>i<k. \<exists>cs. geom_exterior sh (geom_simplify sh geom (tolerance * 2 ^ i)) = Some cs
             \<and> \<not> int (length cs) \<le> max_points
   \<Longrightarrow> simplify_loop sh geom max_points k tolerance simplified
        = Inr (if k = 0 then simplified else geom_simplify sh geom (tolerance * 2 ^ (k - 1)))"
proof (induction k arbitrary: tolerance simplified)
  case 0
  show ?case by simp
next
  case (Suc k)
  from Suc.prems have first: "\<exists>cs. geom_exterior sh (geom_simplify sh geom tolerance) = Some cs
      \<and> \<not> int (length cs) \<le> max_points"
    by (metis mult.right_neutral power_0 zero_less_Suc)
  have rest: "\<forall>i<k. \<exists>cs. geom_exterior sh (geom_simplify sh geom (tolerance * 2 * 2 ^ i)) = Some cs
      \<and> \<not> int (length cs) \<le> max_points"
  proof (intro allI impI)
    fix i assume "i < k"
    then have "Suc i < Suc k" by simp
    with Suc.prems have "\<exists>cs. geom_exterior sh (geom_simplify sh geom (tolerance * 2 ^ Suc i)) = Some cs
      \<and> \<not> int (length cs) \<le> max_points" by blast
    then show "\<exists>cs. geom_exterior sh (geom_simplify sh geom (tolerance * 2 * 2 ^ i)) = Some cs
      \<and> \<not> int (length cs) \<le> max_points" by (simp add: mult.assoc)
  qed
  from first obtain cs where cs: "geom_exterior sh (geom_simplify sh geom tolerance) = Some cs"
    "\<not> int (length cs) \<le> max_points" by blast
  have "simplify_loop sh geom max_points (Suc k) tolerance simplified
          = simplify_loop sh geom max_points k (tolerance * 2) (geom_simplify sh geom tolerance)"
    using cs by (simp add: Let_def)
  also have "\<dots> = Inr (if k = 0 then geom_simplify sh geom tolerance
                        else geom_simplify sh geom (tolerance * 2 * 2 ^ (k - 1)))"
    using Suc.IH [OF rest] .
  also have "\<dots> = Inr (if Suc k = 0 then simplified else geom_simplify sh geom (tolerance * 2 ^ (Suc k - 1)))"
  proof (cases k)
    case 0
    then show ?thesis by simp
  next
    case (Suc j)
    then show ?thesis by (simp add: mult.assoc)
  qed
  finally show ?case .
qed

lemma simplify_loop_within:
  "simplify_loop sh geom max_points k tolerance simplified = Inr r
   \<Longrightarrow> i < k
   \<Longrightarrow> geom_exterior sh (geom_simplify sh geom (tolerance * 2 ^ i)) = Some cs
   \<Longrightarrow> int (length cs) \<le> max_points
   \<Longrightarrow> \<exists>cs'. geom_exterior sh r = Some cs' \<and> int (length cs') \<le> max_points"
proof (induction k arbitrary: tolerance simplified i)
  case 0
  then show ?case by simp
next
  case (Suc k)
  show ?case
  proof (cases "geom_exterior sh (geom_simplify sh geom tolerance)")
    case None
    with Suc.prems(1) show ?thesis by (simp add: Let_def)
  next
    case (Some cs0)
    show ?thesis
    proof (cases "int (length cs0) \<le> max_points")
      case True
      with Some Suc.prems(1) show ?thesis by (auto simp: Let_def)
    next
      case False
      with Some Suc.prems(1) have run: "simplify_loop sh geom max_points k (tolerance * 2)
          (geom_simplify sh geom tolerance) = Inr r"
        by (simp add: Let_def)
      from False Some Suc.prems(3,4) have "i \<noteq> 0" by (cases i) auto
      then obtain j where j: "i = Suc j" by (cases i) auto
      with Suc.prems(2) have "j < k" by simp
      moreover from j Suc.prems(3)
      have "geom_exterior sh (geom_simplify sh geom (tolerance * 2 * 2 ^ j)) = Some cs"
        by (simp add: mult.assoc)
      ultimately show ?thesis using Suc.IH [OF run] Suc.prems(4) by blast
    qed
  qed
qed

text \<open>
  What the simplifier does on each of its paths, whenever it returns a ring: if the ring
  of the input, closing coordinate included, has at most \<open>max_points\<close> coordinates, the
  result is that ring without its closing coordinate; otherwise, if one of the 30 attempts
  (tolerance 0.0001, doubled after each) is within the budget, the result has at most
  \<open>max_points\<close> vertices; and if none is, the result is the ring of the last attempt.
\<close>

lemma simplify_to_n_points_budget:
  assumes "simplify_to_n_points sh geom max_points = Inr r"
    and "geom_exterior sh geom = Some coords"
  shows "(int (length coords) \<le> max_points \<longrightarrow> r = butlast coords \<and> int (length r) \<le> max_points)
    \<and> ((\<exists>i<30. \<exists>cs. geom_exterior sh (geom_simplify sh geom (1 / 10000 * 2 ^ i)) = Some cs
                    \<and> int (length cs) \<le> max_points)
         \<longrightarrow> int (length r) \<le> max_points \<and> (r \<noteq> [] \<longrightarrow> int (length r) < max_points))
    \<and> (\<not> int (length coords) \<le> max_points
         \<and> (\<forall>i<30. \<exists>cs. geom_exterior sh (geom_simplify sh geom (1 / 10000 * 2 ^ i)) = Some cs
                    \<and> \<not> int (length cs) \<le> max_points)
         \<longrightarrow> (\<exists>cs. geom_exterior sh (geom_simplify sh geom (1 / 10000 * 2 ^ 29)) = Some cs
                    \<and> r = butlast cs \<and> int (length r) \<ge> max_points))"
proof -
  have p1: "r = butlast coords \<and> int (length r) \<le> max_points"
    if "int (length coords) \<le> max_points"
    using assms that by (auto simp: simplify_to_n_points_def)
  have p2: "int (length r) \<le> max_points \<and> (r \<noteq> [] \<longrightarrow> int (length r) < max_points)"
    if ex: "\<exists>i<30. \<exists>cs. geom_exterior sh (geom_simplify sh geom (1 / 10000 * 2 ^ i)) = Some cs
                    \<and> int (length cs) \<le> max_points"
  proof (cases "int (length coords) \<le> max_points")
    case True
    with assms have "r = butlast coords" by (simp add: simplify_to_n_points_def)
    with True show ?thesis by (cases coords rule: rev_cases) auto
  next
    case False
    with assms obtain s cs' where s: "simplify_loop sh geom max_points 30 (1 / 10000) geom = Inr s"
        and cs': "geom_exterior sh s = Some cs'" and r: "r = butlast cs'"
      by (auto simp: simplify_to_n_points_def split: sum.splits option.splits)
    from ex obtain i cs where "i < 30"
        "geom_exterior sh (geom_simplify sh geom (1 / 10000 * 2 ^ i)) = Some cs"
        "int (length cs) \<le> max_points" by blast
    from simplify_loop_within [OF s this] cs' have "int (length cs') \<le> max_points" by simp
    with r show ?thesis by (cases cs' rule: rev_cases) auto
  qed
  have p3: "\<exists>cs. geom_exterior sh (geom_simplify sh geom (1 / 10000 * 2 ^ 29)) = Some cs
                    \<and> r = butlast cs \<and> int (length r) \<ge> max_points"
    if a: "\<not> int (length coords) \<le> max_points
         \<and> (\<forall>i<30. \<exists>cs. geom_exterior sh (geom_simplify sh geom (1 / 10000 * 2 ^ i)) = Some cs
                    \<and> \<not> int (length cs) \<le> max_points)"
  proof -
  from a have "simplify_loop sh geom max_points 30 (1 / 10000) geom
          = Inr (if (30 :: nat) = 0 then geom
                 else geom_simplify sh geom (1 / 10000 * 2 ^ (30 - 1)))"
    by (intro simplify_loop_exhausted) blast
  then have s: "simplify_loop sh geom max_points 30 (1 / 10000) geom
          = Inr (geom_simplify sh geom (1 / 10000 * 2 ^ 29))" by simp
  have "(29 :: nat) < 30" by simp
  with a have "\<exists>cs. geom_exterior sh (geom_simplify sh geom (1 / 10000 * 2 ^ 29)) = Some cs
                    \<and> \<not> int (length cs) \<le> max_points" by blast
  then obtain cs where cs: "geom_exterior sh (geom_simplify sh geom (1 / 10000 * 2 ^ 29)) = Some cs"
     "\<not> int (length cs) \<le> max_points" by blast
  from a assms s cs have "r = butlast cs" by (simp add: simplify_to_n_points_def)
  with cs show ?thesis by auto
  qed
  from p1 p2 p3 show ?thesis by blast
qed



subsection \<open>Merging the results of sibling cells\<close>

lemma keys_of_simps [simp]:
  "keys_of [] = {}"
  "crime_key c = Inr k \<Longrightarrow> keys_of (xs @ [c]) = insert k (keys_of xs)"
  by (auto simp: keys_of_def)

lemma keys_of_append: "keys_of (xs @ ys) = keys_of xs \<union> keys_of ys"
  by (auto simp: keys_of_def)

lemma key_in_keys_of:
  "crime_key c = Inr k \<Longrightarrow> \<forall>x \<in> set xs. \<exists>j. crime_key x = Inr j
   \<Longrightarrow> k \<in> keys_of xs \<longleftrightarrow> crime_key c \<in> crime_key ` set xs"
proof
  assume "k \<in> keys_of xs"
  then obtain x where "x \<in> set xs" "crime_key x = Inr k" by (auto simp: keys_of_def)
  moreover assume "crime_key c = Inr k"
  ultimately show "crime_key c \<in> crime_key ` set xs" by (metis imageI)
next
  assume "crime_key c \<in> crime_key ` set xs" and "crime_key c = Inr k"
  then obtain x where "x \<in> set xs" "crime_key x = Inr k" by (metis imageE)
  then show "k \<in> keys_of xs" by (auto simp: keys_of_def)
qed

lemma find_append_eq:
  "find P (xs @ ys) = (case find P xs of None \<Rightarrow> find P ys | Some x \<Rightarrow> Some x)"
  by (induction xs) auto

lemma merge_inv_empty: "merge_inv [] {}"
  by (simp add: merge_inv_def)

lemma merge_inv_step:
  assumes "merge_inv acc seen" "crime_key c = Inr k" "k \<notin> seen"
  shows "merge_inv (acc @ [c]) (insert k seen)"
proof -
  from assms have "crime_key c \<notin> crime_key ` set acc"
    using key_in_keys_of [of c k acc] by (simp add: merge_inv_def)
  with assms show ?thesis by (auto simp: merge_inv_def)
qed

lemma merge_crimes_inv:
  "merge_crimes cs acc seen = Inr (acc', seen') \<Longrightarrow> merge_inv acc seen
   \<Longrightarrow> merge_inv acc' seen' \<and> acc' = spec_merge acc cs \<and> (\<exists>ys. acc' = acc @ ys \<and> set ys \<subseteq> set cs)"
proof (induction cs arbitrary: acc seen)
  case Nil
  then show ?case by (simp add: spec_merge_def)
next
  case (Cons c cs)
  from Cons.prems(1) obtain k where k: "crime_key c = Inr k"
    by (cases "crime_key c") auto
  show ?case
  proof (cases "k \<in> seen")
    case True
    with k Cons.prems(1) have run: "merge_crimes cs acc seen = Inr (acc', seen')" by simp
    from True k Cons.prems(2) have "crime_key c \<in> crime_key ` set acc"
      using key_in_keys_of [of c k acc] by (simp add: merge_inv_def)
    then have "spec_merge acc (c # cs) = spec_merge acc cs" by (simp add: spec_merge_def)
    with Cons.IH [OF run Cons.prems(2)] show ?thesis by auto
  next
    case False
    with k Cons.prems(1) have run: "merge_crimes cs (acc @ [c]) (insert k seen) = Inr (acc', seen')"
      by simp
    from False k Cons.prems(2) have "crime_key c \<notin> crime_key ` set acc"
      using key_in_keys_of [of c k acc] by (simp add: merge_inv_def)
    then have "spec_merge acc (c # cs) = spec_merge (acc @ [c]) cs" by (simp add: spec_merge_def)
    with Cons.IH [OF run merge_inv_step [OF Cons.prems(2) k False]] show ?thesis by auto
  qed
qed

lemma merge_crimes_find:
  "merge_crimes cs acc seen = Inr (acc', seen') \<Longrightarrow> merge_inv acc seen
   \<Longrightarrow> find (\<lambda>c. crime_key c = Inr k) acc' = find (\<lambda>c. crime_key c = Inr k) (acc @ cs)"
proof (induction cs arbitrary: acc seen)
  case Nil
  then show ?case by simp
next
  case (Cons c cs)
  from Cons.prems(1) obtain kc where kc: "crime_key c = Inr kc"
    by (cases "crime_key c") auto
  show ?case
  proof (cases "kc \<in> seen")
    case True
    with kc Cons.prems(1) have run: "merge_crimes cs acc seen = Inr (acc', seen')" by simp
    have "find (\<lambda>c. crime_key c = Inr k) (acc @ c # cs) = find (\<lambda>c. crime_key c = Inr k) (acc @ cs)"
    proof (cases "find (\<lambda>c. crime_key c = Inr k) acc")
      case (Some x)
      then show ?thesis by (simp add: find_append_eq)
    next
      case None
      then have "k \<notin> keys_of acc" by (auto simp: keys_of_def find_None_iff)
      with True Cons.prems(2) have "kc \<noteq> k" by (auto simp: merge_inv_def)
      with None kc show ?thesis by (simp add: find_append_eq)
    qed
    with Cons.IH [OF run Cons.prems(2)] show ?thesis by simp
  next
    case False
    with kc Cons.prems(1) have run: "merge_crimes cs (acc @ [c]) (insert kc seen) = Inr (acc', seen')"
      by simp
    from Cons.IH [OF run merge_inv_step [OF Cons.prems(2) kc False]] show ?thesis by simp
  qed
qed

lemma merge_crimes_distinct_keys:
  "merge_crimes cs acc seen = Inr (acc', seen') \<Longrightarrow> merge_inv acc seen
   \<Longrightarrow> distinct (map crime_key (acc @ cs)) \<Longrightarrow> acc' = acc @ cs"
proof (induction cs arbitrary: acc seen)
  case Nil
  then show ?case by simp
next
  case (Cons c cs)
  from Cons.prems(1) obtain k where k: "crime_key c = Inr k"
    by (cases "crime_key c") auto
  from Cons.prems(3) have "crime_key c \<notin> crime_key ` set acc" by auto
  with k Cons.prems(2) have new: "k \<notin> seen"
    using key_in_keys_of [of c k acc] by (simp add: merge_inv_def)
  with k Cons.prems(1) have run: "merge_crimes cs (acc @ [c]) (insert k seen) = Inr (acc', seen')"
    by simp
  from Cons.prems(3) have "distinct (map crime_key ((acc @ [c]) @ cs))" by simp
  from Cons.IH [OF run merge_inv_step [OF Cons.prems(2) k new] this] show ?case by simp
qed

lemma merge_crimes_total:
  "\<forall>c \<in> set cs. \<exists>k. crime_key c = Inr k \<Longrightarrow> \<exists>r. merge_crimes cs acc seen = Inr r"
proof (induction cs arbitrary: acc seen)
  case Nil
  show ?case by simp
next
  case (Cons c cs)
  then obtain k where "crime_key c = Inr k" by auto
  with Cons show ?case by simp
qed

lemma merge_crimes_append:
  "merge_crimes (xs @ ys) acc seen =
     (case merge_crimes xs acc seen of
        Inl e \<Rightarrow> Inl e
      | Inr (acc', seen') \<Rightarrow> merge_crimes ys acc' seen')"
  by (induction xs arbitrary: acc seen) (auto split: sum.splits)

text \<open>
  C4. The results \<open>c1\<close>, \<open>c2\<close>, \<open>c3\<close>, \<open>c4\<close> of the (at most) four children are merged
  one after the other into the accumulators, which start empty (a skipped child merges
  like an empty result). When the merges go through: no two records of the merged list
  share an identity key; for every key, the record of the merged list with this key is
  the first record with it in the children's results, read in child order; and if the
  children return 3, 0, 5 and 2 records whose keys are pairwise different, the merged
  list is these 10 records. The merges go through whenever every record has a key.
\<close>

theorem merge_keeps_first_seen:
  "(merge_crimes c1 [] {} = Inr (a1, s1) \<and> merge_crimes c2 a1 s1 = Inr (a2, s2)
      \<and> merge_crimes c3 a2 s2 = Inr (a3, s3) \<and> merge_crimes c4 a3 s3 = Inr (a4, s4)
    \<longrightarrow> distinct (map crime_key a4)
        \<and> (\<forall>k. find (\<lambda>c. crime_key c = Inr k) a4
                 = find (\<lambda>c. crime_key c = Inr k) (c1 @ c2 @ c3 @ c4))
        \<and> a4 = spec_merge (spec_merge (spec_merge (spec_merge [] c1) c2) c3) c4
        \<and> (length c1 = 3 \<and> length c2 = 0 \<and> length c3 = 5 \<and> length c4 = 2
             \<and> distinct (map crime_key (c1 @ c2 @ c3 @ c4))
            \<longrightarrow> a4 = c1 @ c2 @ c3 @ c4 \<and> length a4 = 10))
   \<and> ((\<forall>c \<in> set (c1 @ c2 @ c3 @ c4). \<exists>k. crime_key c = Inr k)
        \<longrightarrow> (\<exists>r. merge_crimes (c1 @ c2 @ c3 @ c4) [] {} = Inr r))"
proof (intro conjI impI)
  assume "\<forall>c \<in> set (c1 @ c2 @ c3 @ c4). \<exists>k. crime_key c = Inr k"
  then show "\<exists>r. merge_crimes (c1 @ c2 @ c3 @ c4) [] {} = Inr r"
    by (rule merge_crimes_total)
next
  assume runs: "merge_crimes c1 [] {} = Inr (a1, s1) \<and> merge_crimes c2 a1 s1 = Inr (a2, s2)
      \<and> merge_crimes c3 a2 s2 = Inr (a3, s3) \<and> merge_crimes c4 a3 s3 = Inr (a4, s4)"
  then have whole: "merge_crimes (c1 @ c2 @ c3 @ c4) [] {} = Inr (a4, s4)"
    by (simp add: merge_crimes_append)
  from runs have r1: "merge_crimes c1 [] {} = Inr (a1, s1)"
    and r2: "merge_crimes c2 a1 s1 = Inr (a2, s2)"
    and r3: "merge_crimes c3 a2 s2 = Inr (a3, s3)"
    and r4: "merge_crimes c4 a3 s3 = Inr (a4, s4)" by blast+
  from merge_crimes_inv [OF r1 merge_inv_empty]
  have i1: "merge_inv a1 s1" and m1: "a1 = spec_merge [] c1" by blast+
  from merge_crimes_inv [OF r2 i1]
  have i2: "merge_inv a2 s2" and m2: "a2 = spec_merge a1 c2" by blast+
  from merge_crimes_inv [OF r3 i2]
  have i3: "merge_inv a3 s3" and m3: "a3 = spec_merge a2 c3" by blast+
  from merge_crimes_inv [OF r4 i3]
  have i4: "merge_inv a4 s4" and m4: "a4 = spec_merge a3 c4" by blast+
  from i4 show "distinct (map crime_key a4)" by (simp add: merge_inv_def)
  from m1 m2 m3 m4 show "a4 = spec_merge (spec_merge (spec_merge (spec_merge [] c1) c2) c3) c4"
    by simp
  show "\<forall>k. find (\<lambda>c. crime_key c = Inr k) a4
                 = find (\<lambda>c. crime_key c = Inr k) (c1 @ c2 @ c3 @ c4)"
    using merge_crimes_find [OF whole merge_inv_empty] by simp
  assume sc: "length c1 = 3 \<and> length c2 = 0 \<and> length c3 = 5 \<and> length c4 = 2
             \<and> distinct (map crime_key (c1 @ c2 @ c3 @ c4))"
  then have "distinct (map crime_key (c1 @ c2 @ c3 @ c4))" by blast
  then have "distinct (map crime_key ([] @ c1 @ c2 @ c3 @ c4))" by (simp only: append_Nil)
  from merge_crimes_distinct_keys [OF whole merge_inv_empty this]
  show a4: "a4 = c1 @ c2 @ c3 @ c4" by simp
  with sc show "length a4 = 10" by simp
qed

lemma crime_key_crime_rec:
  "i \<noteq> 0 \<Longrightarrow> crime_key (crime_rec i) = Inr (KNum i, KStr ''2025-01'')"
  by (simp add: crime_rec_def crime_key_def crime_uid_def)

theorem merge_keeps_first_seen_witness:
  "\<exists>a1 s1 a2 s2 a3 s3 s4.
     merge_crimes [crime_rec 1, crime_rec 2, crime_rec 3] [] {} = Inr (a1, s1)
     \<and> merge_crimes [] a1 s1 = Inr (a2, s2)
     \<and> merge_crimes [crime_rec 4, crime_rec 5, crime_rec 6, crime_rec 7, crime_rec 8] a2 s2 = Inr (a3, s3)
     \<and> merge_crimes [crime_rec 9, crime_rec 10] a3 s3
          = Inr ([crime_rec 1, crime_rec 2, crime_rec 3, crime_rec 4, crime_rec 5, crime_rec 6,
                  crime_rec 7, crime_rec 8, crime_rec 9, crime_rec 10], s4)
     \<and> length [crime_rec 1, crime_rec 2, crime_rec 3, crime_rec 4, crime_rec 5, crime_rec 6,
                  crime_rec 7, crime_rec 8, crime_rec 9, crime_rec 10] = 10"
proof -
  let ?m = "KStr ''2025-01''"
  let ?c1 = "[crime_rec 1, crime_rec 2, crime_rec 3]"
  let ?c3 = "[crime_rec 4, crime_rec 5, crime_rec 6, crime_rec 7, crime_rec 8]"
  let ?c4 = "[crime_rec 9, crime_rec 10]"
  let ?s1 = "{(KNum 3, ?m), (KNum 2, ?m), (KNum 1, ?m)}"
  let ?s3 = "{(KNum 8, ?m), (KNum 7, ?m), (KNum 6, ?m), (KNum 5, ?m), (KNum 4, ?m),
              (KNum 3, ?m), (KNum 2, ?m), (KNum 1, ?m)}"
  let ?s4 = "{(KNum 10, ?m), (KNum 9, ?m), (KNum 8, ?m), (KNum 7, ?m), (KNum 6, ?m),
              (KNum 5, ?m), (KNum 4, ?m), (KNum 3, ?m), (KNum 2, ?m), (KNum 1, ?m)}"
  have r1: "merge_crimes ?c1 [] {} = Inr (?c1, ?s1)"
    by (simp add: crime_key_crime_rec)
  have r2: "merge_crimes [] ?c1 ?s1 = Inr (?c1, ?s1)"
    by simp
  have r3: "merge_crimes ?c3 ?c1 ?s1 = Inr (?c1 @ ?c3, ?s3)"
    by (simp add: crime_key_crime_rec)
  have r4: "merge_crimes ?c4 (?c1 @ ?c3) ?s3 = Inr (?c1 @ ?c3 @ ?c4, ?s4)"
    by (simp add: crime_key_crime_rec)
  have d: "length ?c1 = 3 \<and> length ([] :: json list) = 0 \<and> length ?c3 = 5 \<and> length ?c4 = 2
      \<and> distinct (map crime_key (?c1 @ [] @ ?c3 @ ?c4))"
    by (simp add: crime_key_crime_rec)
  from merge_keeps_first_seen [of ?c1 ?c1 ?s1 "[]" ?c1 ?s1 ?c3 "?c1 @ ?c3" ?s3 ?c4 "?c1 @ ?c3 @ ?c4" ?s4]
    r1 r2 r3 r4 d
  have "length (?c1 @ ?c3 @ ?c4) = 10" by blast
  with r1 r2 r3 r4 show ?thesis by auto
qed

subsection \<open>One request\<close>

lemma fetch_single_poly_hit:
  "cache w p = Some v \<Longrightarrow> fetch_single_poly api ps m p w = (Inr v, w)"
  by (simp add: fetch_single_poly_def)

lemma fetch_single_poly_failure:
  "cache w p = None \<Longrightarrow> other_failure (api (trace w) ps m)
   \<Longrightarrow> fetch_single_poly api ps m p w = (Inr (JArr []), emit (Get ps m (api (trace w) ps m)) w)"
  by (auto simp: fetch_single_poly_def other_failure_def Let_def split: response.splits)

lemma fetch_single_poly_503:
  "cache w p = None \<Longrightarrow> api (trace w) ps m = Response 503 b
   \<Longrightarrow> fetch_single_poly api ps m p w = (Inr JNull, emit (Get ps m (Response 503 b)) w)"
  by (simp add: fetch_single_poly_def Let_def)

lemma fetch_single_poly_200:
  "cache w p = None \<Longrightarrow> api (trace w) ps m = Response 200 (Some v) \<Longrightarrow> py_len v = Inr n
   \<Longrightarrow> fetch_single_poly api ps m p w
        = (Inr v, write_cache p v (emit (Get ps m (Response 200 (Some v))) w))"
  by (simp add: fetch_single_poly_def Let_def)

lemma py_len_not_null: "py_len v = Inr n \<Longrightarrow> v \<noteq> JNull"
  by (cases v) auto

lemma cache_emit [simp]: "cache (emit e w) = cache w"
  by (simp add: emit_def)

lemma trace_emit [simp]: "trace (emit e w) = trace w @ [e]"
  by (simp add: emit_def)

lemma cache_write_cache [simp]: "cache (write_cache p v w) = (cache w)(p \<mapsto> v)"
  by (simp add: write_cache_def)

lemma trace_write_cache [simp]: "trace (write_cache p v w) = trace w @ [Write p v]"
  by (simp add: write_cache_def)

declare subdivide_loop.simps(2) [simp del]

text \<open>The body of \<^verbatim>\<open>_fetch_with_subdivision\<close> once the geometry is encoded.\<close>

lemma fetch_unfold:
  "fetch_with_subdivision sh api geom month depth cell_id w =
     (case encode_geom sh geom of
        Inl e \<Rightarrow> (Inl e, w)
      | Inr ps \<Rightarrow>
          (case fetch_single_poly api ps month (cell_path cell_id month) w of
             (Inl e, w1) \<Rightarrow> (Inl e, w1)
           | (Inr result, w1) \<Rightarrow>
               if result \<noteq> JNull then (Inr result, w1)
               else if depth \<ge> MAX_GRID_DEPTH
               then (Inr (JArr []),
                     emit (MaxDepthWarning month (if cell_id \<noteq> [] then cell_id else ''full'')) w1)
               else
                 (case geom_bounds sh geom of
                    (minx, miny, maxx, maxy) \<Rightarrow>
                      (case subdivide_loop sh api geom month depth cell_id
                              (zip [geom_box sh minx ((miny + maxy) / 2) ((minx + maxx) / 2) maxy,
                                    geom_box sh ((minx + maxx) / 2) ((miny + maxy) / 2) maxx maxy,
                                    geom_box sh minx miny ((minx + maxx) / 2) ((miny + maxy) / 2),
                                    geom_box sh ((minx + maxx) / 2) miny maxx ((miny + maxy) / 2)]
                                   [''NW'', ''NE'', ''SW'', ''SE''])
                              [] {} w1 of
                         (Inl e, w2) \<Rightarrow> (Inl e, w2)
                       | (Inr all_crimes, w2) \<Rightarrow>
                           (Inr (JArr all_crimes),
                            write_cache (cell_path cell_id month) (JArr all_crimes) w2)))))"
  unfolding encode_geom_def cell_path_def
  by (subst fetch_with_subdivision.simps) (simp only: Let_def split: sum.split, simp)

lemma fetch_encode_error:
  "encode_geom sh geom = Inl e \<Longrightarrow> fetch_with_subdivision sh api geom month depth cell_id w = (Inl e, w)"
  by (subst fetch_unfold) simp

lemma fetch_not_null:
  "encode_geom sh geom = Inr ps
   \<Longrightarrow> fetch_single_poly api ps month (cell_path cell_id month) w = (Inr v, w1) \<Longrightarrow> v \<noteq> JNull
   \<Longrightarrow> fetch_with_subdivision sh api geom month depth cell_id w = (Inr v, w1)"
  by (subst fetch_unfold) simp

lemma fetch_raises:
  "encode_geom sh geom = Inr ps
   \<Longrightarrow> fetch_single_poly api ps month (cell_path cell_id month) w = (Inl e, w1)
   \<Longrightarrow> fetch_with_subdivision sh api geom month depth cell_id w = (Inl e, w1)"
  by (subst fetch_unfold) simp

lemma fetch_max_depth:
  "encode_geom sh geom = Inr ps
   \<Longrightarrow> fetch_single_poly api ps month (cell_path cell_id month) w = (Inr JNull, w1)
   \<Longrightarrow> MAX_GRID_DEPTH \<le> depth
   \<Longrightarrow> fetch_with_subdivision sh api geom month depth cell_id w
        = (Inr (JArr []), emit (MaxDepthWarning month (if cell_id \<noteq> [] then cell_id else ''full'')) w1)"
  by (subst fetch_unfold) simp

lemma fetch_subdivide:
  "encode_geom sh geom = Inr ps
   \<Longrightarrow> fetch_single_poly api ps month (cell_path cell_id month) w = (Inr JNull, w1)
   \<Longrightarrow> depth < MAX_GRID_DEPTH
   \<Longrightarrow> geom_bounds sh geom = (minx, miny, maxx, maxy)
   \<Longrightarrow> fetch_with_subdivision sh api geom month depth cell_id w
        = (case subdivide_loop sh api geom month depth cell_id
                  [(geom_box sh minx ((miny + maxy) / 2) ((minx + maxx) / 2) maxy, ''NW''),
                   (geom_box sh ((minx + maxx) / 2) ((miny + maxy) / 2) maxx maxy, ''NE''),
                   (geom_box sh minx miny ((minx + maxx) / 2) ((miny + maxy) / 2), ''SW''),
                   (geom_box sh ((minx + maxx) / 2) miny maxx ((miny + maxy) / 2), ''SE'')]
                  [] {} w1 of
             (Inl e, w2) \<Rightarrow> (Inl e, w2)
           | (Inr all_crimes, w2) \<Rightarrow>
               (Inr (JArr all_crimes), write_cache (cell_path cell_id month) (JArr all_crimes) w2))"
  by (subst fetch_unfold) simp

text \<open>One turn of the loop over the quadrants.\<close>

lemma subdivide_loop_skip:
  "geom_is_empty sh (geom_intersection sh geom quad)
   \<Longrightarrow> subdivide_loop sh api geom month depth cell_id ((quad, suffix) # rest) acc seen w
        = subdivide_loop sh api geom month depth cell_id rest acc seen w"
  by (simp add: subdivide_loop.simps(2) Let_def)

lemma subdivide_loop_child:
  "\<not> geom_is_empty sh (geom_intersection sh geom quad)
   \<Longrightarrow> subdivide_loop sh api geom month depth cell_id ((quad, suffix) # rest) acc seen w
        = (case fetch_with_subdivision sh api (geom_intersection sh geom quad) month (depth + 1)
                  (if cell_id \<noteq> [] then cell_id @ ''_'' @ suffix else suffix) w of
             (Inl e, w1) \<Rightarrow> (Inl e, w1)
           | (Inr crimes, w1) \<Rightarrow>
               (case py_iter crimes of
                  Inl e \<Rightarrow> (Inl e, w1)
                | Inr cs \<Rightarrow>
                    (case merge_crimes cs acc seen of
                       Inl e \<Rightarrow> (Inl e, w1)
                     | Inr (acc', seen') \<Rightarrow>
                         subdivide_loop sh api geom month depth cell_id rest acc' seen' w1)))"
  by (auto simp: subdivide_loop.simps(2) Let_def split: prod.splits sum.splits)

subsection \<open>Examples on rectangles\<close>

lemma encode_rect_0022:
  "encode_geom rect_shapely (0, 0, 2, 2)
     = Inr ''0.000000,2.000000:2.000000,2.000000:2.000000,0.000000:0.000000,0.000000''"
  by (simp add: encode_geom_def simplify_to_n_points_def rect_shapely_def MAX_POLY_POINTS_def
      coords_to_api_string_def fmt6_eval)

lemma cell_path_root: "cell_path [] ''2025-01'' = ''full_2025-01.json''"
  by (simp add: cell_path_def)

subsection \<open>Fetches that do not subdivide\<close>

text \<open>
  C10. For a region whose ring encodes to \<open>ps\<close>: on a cache hit with a document other
  than \<^verbatim>\<open>null\<close> the fetch returns the cached document as it is, and changes nothing;
  on a cache miss answered with status 200 and a body \<open>v\<close> that has a length it returns
  \<open>v\<close> as it is (after one request and one cache write). No deduplication touches
  either result: records with the same identity key stay in it.
\<close>

theorem unsubdivided_fetch_is_verbatim:
  "encode_geom sh geom = Inr ps \<longrightarrow>
     (cache w (cell_path cell_id month) = Some v \<and> v \<noteq> JNull
        \<longrightarrow> fetch_with_subdivision sh api geom month depth cell_id w = (Inr v, w))
     \<and> (cache w (cell_path cell_id month) = None
          \<and> api (trace w) ps month = Response 200 (Some v) \<and> py_len v = Inr n
        \<longrightarrow> fetch_with_subdivision sh api geom month depth cell_id w
              = (Inr v, write_cache (cell_path cell_id month) v
                          (emit (Get ps month (Response 200 (Some v))) w)))"
proof (intro impI conjI)
  assume enc: "encode_geom sh geom = Inr ps"
  {
    assume "cache w (cell_path cell_id month) = Some v \<and> v \<noteq> JNull"
    then show "fetch_with_subdivision sh api geom month depth cell_id w = (Inr v, w)"
      using fetch_not_null [OF enc fetch_single_poly_hit] by blast
  next
    assume a: "cache w (cell_path cell_id month) = None
          \<and> api (trace w) ps month = Response 200 (Some v) \<and> py_len v = Inr n"
    then have "v \<noteq> JNull" using py_len_not_null by blast
    with a show "fetch_with_subdivision sh api geom month depth cell_id w
              = (Inr v, write_cache (cell_path cell_id month) v
                          (emit (Get ps month (Response 200 (Some v))) w))"
      using fetch_not_null [OF enc fetch_single_poly_200] by blast
  }
qed

theorem unsubdivided_fetch_is_verbatim_witness:
  "fetch_with_subdivision rect_shapely
       (\<lambda>tr p m. Response 200 (Some (JArr [crime_rec 1, crime_rec 1]))) (0, 0, 2, 2) ''2025-01'' 0 []
       empty_world
     = (Inr (JArr [crime_rec 1, crime_rec 1]),
        write_cache ''full_2025-01.json'' (JArr [crime_rec 1, crime_rec 1])
          (emit (Get ''0.000000,2.000000:2.000000,2.000000:2.000000,0.000000:0.000000,0.000000''
                   ''2025-01'' (Response 200 (Some (JArr [crime_rec 1, crime_rec 1]))))
             empty_world))
   \<and> fetch_with_subdivision rect_shapely (\<lambda>tr p m. RequestException) (0, 0, 2, 2) ''2025-01'' 0 []
       \<lparr>cache = [''full_2025-01.json'' \<mapsto> JArr [crime_rec 1, crime_rec 1]], trace = []\<rparr>
     = (Inr (JArr [crime_rec 1, crime_rec 1]),
        \<lparr>cache = [''full_2025-01.json'' \<mapsto> JArr [crime_rec 1, crime_rec 1]], trace = []\<rparr>)
   \<and> merge_crimes [crime_rec 1, crime_rec 1] [] {} = Inr ([crime_rec 1], {(KNum 1, KStr ''2025-01'')})"
proof -
  let ?v = "JArr [crime_rec 1, crime_rec 1]"
  let ?ps = "''0.000000,2.000000:2.000000,2.000000:2.000000,0.000000:0.000000,0.000000''"
  let ?w = "\<lparr>cache = [''full_2025-01.json'' \<mapsto> ?v], trace = []\<rparr>"
  have miss: "cache empty_world (cell_path [] ''2025-01'') = None
      \<and> (\<lambda>tr p m. Response 200 (Some ?v)) (trace empty_world) ?ps ''2025-01'' = Response 200 (Some ?v)
      \<and> py_len ?v = Inr 2"
    by (simp add: empty_world_def)
  have hit: "cache ?w (cell_path [] ''2025-01'') = Some ?v \<and> ?v \<noteq> JNull"
    by (simp add: cell_path_root)
  from unsubdivided_fetch_is_verbatim [of rect_shapely "(0, 0, 2, 2)" ?ps empty_world "[]" "''2025-01''"
      ?v "\<lambda>tr p m. Response 200 (Some ?v)" 0 2] encode_rect_0022 miss
  have a: "fetch_with_subdivision rect_shapely (\<lambda>tr p m. Response 200 (Some ?v)) (0, 0, 2, 2)
      ''2025-01'' 0 [] empty_world
     = (Inr ?v, write_cache (cell_path [] ''2025-01'') ?v
          (emit (Get ?ps ''2025-01'' (Response 200 (Some ?v))) empty_world))"
    by blast
  from unsubdivided_fetch_is_verbatim [of rect_shapely "(0, 0, 2, 2)" ?ps ?w "[]" "''2025-01''"
      ?v "\<lambda>tr p m. RequestException" 0 2] encode_rect_0022 hit
  have b: "fetch_with_subdivision rect_shapely (\<lambda>tr p m. RequestException) (0, 0, 2, 2)
      ''2025-01'' 0 [] ?w = (Inr ?v, ?w)"
    by blast
  have c: "merge_crimes [crime_rec 1, crime_rec 1] [] {} = Inr ([crime_rec 1], {(KNum 1, KStr ''2025-01'')})"
    by (simp add: crime_key_crime_rec)
  from a b c show ?thesis by (simp add: cell_path_root)
qed

subsection \<open>Failures that are not capacity failures\<close>

lemma query_overpass_two_failures:
  assumes "other_failure (api (trace w) e1 q)"
    and "other_failure (api (trace w @ [Post e1 q (api (trace w) e1 q)]) e2 q)"
  shows "query_overpass api [e1, e2] q w
     = (JNull, emit (Post e2 q (api (trace w @ [Post e1 q (api (trace w) e1 q)]) e2 q))
                 (emit (Post e1 q (api (trace w) e1 q)) w))"
proof -
  let ?r1 = "api (trace w) e1 q"
  let ?w1 = "emit (Post e1 q ?r1) w"
  let ?r2 = "api (trace w @ [Post e1 q ?r1]) e2 q"
  have s1: "query_overpass api [e1, e2] q w = query_overpass api [e2] q ?w1"
    using assms(1) by (cases ?r1) (simp_all add: other_failure_def Let_def)
  have s2: "query_overpass api [e2] q ?w1 = (JNull, emit (Post e2 q ?r2) ?w1)"
    using assms(2) by (cases ?r2) (simp_all add: other_failure_def Let_def)
  from s1 s2 show ?thesis by simp
qed

text \<open>
  The failures the code absorbs. A cell that is not cached and whose request ends in a
  network error, or in a status that is neither 200 nor 503, gives the empty list: the fetch returns normally,
  has sent this one request and no other, and has written no cache file. In the loop
  over the quadrants of a parent such a child adds nothing to the accumulators and the
  loop goes on with the remaining quadrants. For the amenity count, when both Overpass
  endpoints fail in this way the count is 0, after one request to each endpoint, and
  nothing is cached.
\<close>

lemma other_failure_gives_empty_result:
  "(encode_geom sh geom = Inr ps \<and> cache w (cell_path cell_id month) = None
      \<and> other_failure (api (trace w) ps month)
     \<longrightarrow> fetch_with_subdivision sh api geom month depth cell_id w
           = (Inr (JArr []), emit (Get ps month (api (trace w) ps month)) w))
   \<and> (\<not> geom_is_empty sh (geom_intersection sh geom quad)
       \<and> encode_geom sh (geom_intersection sh geom quad) = Inr ps
       \<and> cache w (cell_path (if cell_id \<noteq> [] then cell_id @ ''_'' @ suffix else suffix) month) = None
       \<and> other_failure (api (trace w) ps month)
     \<longrightarrow> subdivide_loop sh api geom month depth cell_id ((quad, suffix) # rest) acc seen w
           = subdivide_loop sh api geom month depth cell_id rest acc seen
               (emit (Get ps month (api (trace w) ps month)) w))
   \<and> (cache w (parking_path borough_name) = None
       \<and> geom_bounds sh borough_geom = (minx, miny, maxx, maxy)
       \<and> other_failure (osm (trace w) (OVERPASS_ENDPOINTS ! 0) (build_query miny minx maxy maxx))
       \<and> other_failure (osm (trace w @ [Post (OVERPASS_ENDPOINTS ! 0) (build_query miny minx maxy maxx)
                                  (osm (trace w) (OVERPASS_ENDPOINTS ! 0) (build_query miny minx maxy maxx))])
                           (OVERPASS_ENDPOINTS ! 1) (build_query miny minx maxy maxx))
     \<longrightarrow> (\<exists>w'. fetch_borough_parking sh osm borough_name borough_geom w = (Inr 0, w')
               \<and> cache w' = cache w
               \<and> trace w' = trace w @
                    [Post (OVERPASS_ENDPOINTS ! 0) (build_query miny minx maxy maxx)
                       (osm (trace w) (OVERPASS_ENDPOINTS ! 0) (build_query miny minx maxy maxx)),
                     Post (OVERPASS_ENDPOINTS ! 1) (build_query miny minx maxy maxx)
                       (osm (trace w @ [Post (OVERPASS_ENDPOINTS ! 0) (build_query miny minx maxy maxx)
                                  (osm (trace w) (OVERPASS_ENDPOINTS ! 0) (build_query miny minx maxy maxx))])
                           (OVERPASS_ENDPOINTS ! 1) (build_query miny minx maxy maxx))]))"
proof (intro conjI impI)
  assume a: "encode_geom sh geom = Inr ps \<and> cache w (cell_path cell_id month) = None
      \<and> other_failure (api (trace w) ps month)"
  then have "fetch_single_poly api ps month (cell_path cell_id month) w
      = (Inr (JArr []), emit (Get ps month (api (trace w) ps month)) w)"
    by (simp add: fetch_single_poly_failure)
  with a show "fetch_with_subdivision sh api geom month depth cell_id w
           = (Inr (JArr []), emit (Get ps month (api (trace w) ps month)) w)"
    using fetch_not_null [of sh geom ps api month cell_id w "JArr []" _ depth] by simp
next
  let ?sub = "if cell_id \<noteq> [] then cell_id @ ''_'' @ suffix else suffix"
  assume a: "\<not> geom_is_empty sh (geom_intersection sh geom quad)
       \<and> encode_geom sh (geom_intersection sh geom quad) = Inr ps
       \<and> cache w (cell_path ?sub month) = None
       \<and> other_failure (api (trace w) ps month)"
  then have "fetch_single_poly api ps month (cell_path ?sub month) w
      = (Inr (JArr []), emit (Get ps month (api (trace w) ps month)) w)"
    by (simp add: fetch_single_poly_failure)
  with a have "fetch_with_subdivision sh api (geom_intersection sh geom quad) month (depth + 1) ?sub w
      = (Inr (JArr []), emit (Get ps month (api (trace w) ps month)) w)"
    using fetch_not_null [of sh "geom_intersection sh geom quad" ps api month ?sub w "JArr []" _ "depth + 1"]
    by simp
  with a show "subdivide_loop sh api geom month depth cell_id ((quad, suffix) # rest) acc seen w
           = subdivide_loop sh api geom month depth cell_id rest acc seen
               (emit (Get ps month (api (trace w) ps month)) w)"
    by (simp add: subdivide_loop_child)
next
  let ?q = "build_query miny minx maxy maxx"
  let ?e1 = "OVERPASS_ENDPOINTS ! 0" and ?e2 = "OVERPASS_ENDPOINTS ! 1"
  let ?r1 = "osm (trace w) ?e1 ?q"
  let ?r2 = "osm (trace w @ [Post ?e1 ?q ?r1]) ?e2 ?q"
  assume a: "cache w (parking_path borough_name) = None
       \<and> geom_bounds sh borough_geom = (minx, miny, maxx, maxy)
       \<and> other_failure ?r1 \<and> other_failure ?r2"
  have eps: "OVERPASS_ENDPOINTS = [?e1, ?e2]" by (simp add: OVERPASS_ENDPOINTS_def)
  from a have "query_overpass osm [?e1, ?e2] ?q w
      = (JNull, emit (Post ?e2 ?q ?r2) (emit (Post ?e1 ?q ?r1) w))"
    by (intro query_overpass_two_failures) simp_all
  with eps have q: "query_overpass osm OVERPASS_ENDPOINTS ?q w
      = (JNull, emit (Post ?e2 ?q ?r2) (emit (Post ?e1 ?q ?r1) w))" by simp
  from a q have "fetch_borough_parking sh osm borough_name borough_geom w
      = (Inr 0, emit (Post ?e2 ?q ?r2) (emit (Post ?e1 ?q ?r1) w))"
    by (simp add: fetch_borough_parking_def parking_path_def Let_def)
  then show "\<exists>w'. fetch_borough_parking sh osm borough_name borough_geom w = (Inr 0, w')
               \<and> cache w' = cache w \<and> trace w' = trace w @ [Post ?e1 ?q ?r1, Post ?e2 ?q ?r2]"
    by simp
qed

lemma encode_rect_0112:
  "encode_geom rect_shapely (0, 1, 1, 2)
     = Inr ''1.000000,1.000000:2.000000,1.000000:2.000000,0.000000:1.000000,0.000000''"
  by (simp add: encode_geom_def simplify_to_n_points_def rect_shapely_def MAX_POLY_POINTS_def
      coords_to_api_string_def fmt6_eval)

lemma other_failure_gives_empty_result_example:
  "fetch_with_subdivision rect_shapely (\<lambda>tr p m. RequestException) (0, 0, 2, 2) ''2025-01'' 0 []
       empty_world
     = (Inr (JArr []),
        emit (Get ''0.000000,2.000000:2.000000,2.000000:2.000000,0.000000:0.000000,0.000000''
                ''2025-01'' RequestException) empty_world)
   \<and> subdivide_loop rect_shapely (\<lambda>tr p m. Response 404 None) (0, 0, 2, 2) ''2025-01'' 0 []
        [((0, 1, 1, 2), ''NW'')] [crime_rec 1] {(KNum 1, KStr ''2025-01'')} empty_world
     = (Inr [crime_rec 1],
        emit (Get ''1.000000,1.000000:2.000000,1.000000:2.000000,0.000000:1.000000,0.000000''
                ''2025-01'' (Response 404 None)) empty_world)
   \<and> (\<exists>w'. fetch_borough_parking rect_shapely (\<lambda>tr p m. RequestException) ''City of London''
               (0, 0, 2, 2) empty_world = (Inr 0, w')
            \<and> cache w' = cache empty_world \<and> length (trace w') = 2)"
proof -
  let ?ps = "''0.000000,2.000000:2.000000,2.000000:2.000000,0.000000:0.000000,0.000000''"
  let ?ps1 = "''1.000000,1.000000:2.000000,1.000000:2.000000,0.000000:1.000000,0.000000''"
  let ?down = "\<lambda>(tr :: event list) (p :: string) (m :: string). RequestException"
  let ?nf = "\<lambda>(tr :: event list) (p :: string) (m :: string). Response 404 None"
  note main = other_failure_gives_empty_result
  have h1: "encode_geom rect_shapely (0, 0, 2, 2) = Inr ?ps
      \<and> cache empty_world (cell_path [] ''2025-01'') = None
      \<and> other_failure (?down (trace empty_world) ?ps ''2025-01'')"
    by (simp add: encode_rect_0022 empty_world_def other_failure_def)
  have a: "fetch_with_subdivision rect_shapely ?down (0, 0, 2, 2) ''2025-01'' 0 [] empty_world
     = (Inr (JArr []), emit (Get ?ps ''2025-01'' RequestException) empty_world)"
    using main [where sh = rect_shapely and geom = "(0, 0, 2, 2)" and ps = ?ps and w = empty_world
        and cell_id = "[]" and month = "''2025-01''" and api = ?down and depth = 0,
        THEN conjunct1] h1
    by simp
  have h2: "\<not> geom_is_empty rect_shapely (geom_intersection rect_shapely (0, 0, 2, 2) (0, 1, 1, 2))
      \<and> encode_geom rect_shapely (geom_intersection rect_shapely (0, 0, 2, 2) (0, 1, 1, 2)) = Inr ?ps1
      \<and> cache empty_world (cell_path (if [] \<noteq> ([] :: string) then [] @ ''_'' @ ''NW'' else ''NW'') ''2025-01'') = None
      \<and> other_failure (?nf (trace empty_world) ?ps1 ''2025-01'')"
  proof -
    have i: "geom_intersection rect_shapely (0, 0, 2, 2) (0, 1, 1, 2) = (0, 1, 1, 2)"
      by (simp add: rect_shapely_def)
    have e: "\<not> geom_is_empty rect_shapely (0, 1, 1, 2)"
      by (simp add: rect_shapely_def)
    show ?thesis
      by (simp add: i e encode_rect_0112 empty_world_def other_failure_def)
  qed
  have b: "subdivide_loop rect_shapely ?nf (0, 0, 2, 2) ''2025-01'' 0 []
        [((0, 1, 1, 2), ''NW'')] [crime_rec 1] {(KNum 1, KStr ''2025-01'')} empty_world
     = (Inr [crime_rec 1], emit (Get ?ps1 ''2025-01'' (Response 404 None)) empty_world)"
    using main [where sh = rect_shapely and geom = "(0, 0, 2, 2)" and ps = ?ps1 and w = empty_world
        and cell_id = "[]" and month = "''2025-01''" and api = ?nf and depth = 0
        and quad = "(0, 1, 1, 2)" and suffix = "''NW''" and rest = "[]"
        and acc = "[crime_rec 1]" and seen = "{(KNum 1, KStr ''2025-01'')}",
        THEN conjunct2, THEN conjunct1] h2
    by simp
  have h3: "cache empty_world (parking_path ''City of London'') = None
      \<and> geom_bounds rect_shapely (0, 0, 2, 2) = (0, 0, 2, 2)"
    by (simp add: empty_world_def rect_shapely_def)
  have c: "\<exists>w'. fetch_borough_parking rect_shapely ?down ''City of London'' (0, 0, 2, 2) empty_world
               = (Inr 0, w') \<and> cache w' = cache empty_world \<and> length (trace w') = 2"
  proof -
    from main [where sh = rect_shapely and w = empty_world and borough_name = "''City of London''"
        and borough_geom = "(0, 0, 2, 2)" and minx = 0 and miny = 0 and maxx = 2 and maxy = 2
        and osm = ?down, THEN conjunct2, THEN conjunct2] h3
    have "\<exists>w'. fetch_borough_parking rect_shapely ?down ''City of London'' (0, 0, 2, 2) empty_world
               = (Inr 0, w') \<and> cache w' = cache empty_world
        \<and> trace w' = trace empty_world @
           [Post (OVERPASS_ENDPOINTS ! 0) (build_query 0 0 2 2) RequestException,
            Post (OVERPASS_ENDPOINTS ! 1) (build_query 0 0 2 2) RequestException]"
      by (simp add: other_failure_def)
    then show ?thesis by (auto simp: empty_world_def)
  qed
  from a b c show ?thesis by blast
qed

subsection \<open>Failures that are not absorbed\<close>

text \<open>
  C6. Not every cell yields a result. In \<^verbatim>\<open>_fetch_single_poly\<close> only the request itself
  stands in the \<^verbatim>\<open>try\<close> block; the decoding of the body, \<^verbatim>\<open>resp.json()\<close>, comes after it.
  A cell that is not cached and is answered with status 200 and a body that is not JSON
  therefore raises \<^verbatim>\<open>JSONDecodeError\<close> out of \<^verbatim>\<open>_fetch_with_subdivision\<close>, after this one
  request and with nothing written; in the loop over the quadrants of a parent the
  exception ends the loop, whatever had been merged before, so that the remaining
  quadrants are never asked for. \<^verbatim>\<open>_query_overpass\<close>, which decodes inside its \<^verbatim>\<open>try\<close>
  block, passes over the same answer and goes on with the next endpoint.
\<close>

theorem undecodable_answer_raises:
  "(encode_geom sh geom = Inr ps \<and> cache w (cell_path cell_id month) = None
      \<and> api (trace w) ps month = Response 200 None
     \<longrightarrow> fetch_with_subdivision sh api geom month depth cell_id w
           = (Inl JSONDecodeError, emit (Get ps month (Response 200 None)) w))
   \<and> (\<not> geom_is_empty sh (geom_intersection sh geom quad)
       \<and> encode_geom sh (geom_intersection sh geom quad) = Inr ps
       \<and> cache w (cell_path (child_id cell_id suffix) month) = None
       \<and> api (trace w) ps month = Response 200 None
     \<longrightarrow> subdivide_loop sh api geom month depth cell_id ((quad, suffix) # rest) acc seen w
           = (Inl JSONDecodeError, emit (Get ps month (Response 200 None)) w))
   \<and> (osm (trace w) endpoint query = Response 200 None
     \<longrightarrow> query_overpass osm (endpoint # others) query w
           = query_overpass osm others query (emit (Post endpoint query (Response 200 None)) w))"
proof (intro conjI impI)
  assume a: "encode_geom sh geom = Inr ps \<and> cache w (cell_path cell_id month) = None
      \<and> api (trace w) ps month = Response 200 None"
  then have enc: "encode_geom sh geom = Inr ps" and miss: "cache w (cell_path cell_id month) = None"
    and ans: "api (trace w) ps month = Response 200 None" by blast+
  from miss ans have "fetch_single_poly api ps month (cell_path cell_id month) w
      = (Inl JSONDecodeError, emit (Get ps month (Response 200 None)) w)"
    by (simp add: fetch_single_poly_def Let_def)
  with enc show "fetch_with_subdivision sh api geom month depth cell_id w
           = (Inl JSONDecodeError, emit (Get ps month (Response 200 None)) w)"
    by (rule fetch_raises)
next
  let ?piece = "geom_intersection sh geom quad"
  assume a: "\<not> geom_is_empty sh ?piece \<and> encode_geom sh ?piece = Inr ps
       \<and> cache w (cell_path (child_id cell_id suffix) month) = None
       \<and> api (trace w) ps month = Response 200 None"
  then have ne: "\<not> geom_is_empty sh ?piece" and enc: "encode_geom sh ?piece = Inr ps"
    and miss: "cache w (cell_path (child_id cell_id suffix) month) = None"
    and ans: "api (trace w) ps month = Response 200 None" by blast+
  from miss ans have "fetch_single_poly api ps month (cell_path (child_id cell_id suffix) month) w
      = (Inl JSONDecodeError, emit (Get ps month (Response 200 None)) w)"
    by (simp add: fetch_single_poly_def Let_def)
  with enc have "fetch_with_subdivision sh api ?piece month (depth + 1) (child_id cell_id suffix) w
      = (Inl JSONDecodeError, emit (Get ps month (Response 200 None)) w)"
    by (rule fetch_raises)
  then have "fetch_with_subdivision sh api ?piece month (depth + 1)
        (if cell_id \<noteq> [] then cell_id @ ''_'' @ suffix else suffix) w
      = (Inl JSONDecodeError, emit (Get ps month (Response 200 None)) w)"
    by (simp add: child_id_def)
  with ne show "subdivide_loop sh api geom month depth cell_id ((quad, suffix) # rest) acc seen w
           = (Inl JSONDecodeError, emit (Get ps month (Response 200 None)) w)"
    by (simp add: subdivide_loop_child)
next
  assume "osm (trace w) endpoint query = Response 200 None"
  then show "query_overpass osm (endpoint # others) query w
           = query_overpass osm others query (emit (Post endpoint query (Response 200 None)) w)"
    by (simp add: Let_def)
qed

text \<open>
  The whole region is too large, and the answer for its north-west quadrant cannot be
  decoded: the fetch of the borough raises, the other three quadrants are never asked
  for, and nothing is cached. The same answer from both Overpass endpoints gives the
  count 0.
\<close>

theorem undecodable_answer_raises_witness:
  "(\<exists>p. fetch_borough_month rect_shapely garbled_api (0, 0, 2, 2) ''2025-01'' empty_world
        = (Inl JSONDecodeError,
           \<lparr>cache = Map.empty,
            trace =
              [Get ''0.000000,2.000000:2.000000,2.000000:2.000000,0.000000:0.000000,0.000000''
                 ''2025-01'' (Response 503 None),
               Get p ''2025-01'' (Response 200 None)]\<rparr>))
   \<and> (\<exists>w'. fetch_borough_parking rect_shapely (\<lambda>tr e q. Response 200 None) ''City of London''
               (0, 0, 2, 2) empty_world = (Inr 0, w')
            \<and> cache w' = Map.empty \<and> length (trace w') = 2)"
proof -
  let ?ps = "''0.000000,2.000000:2.000000,2.000000:2.000000,0.000000:0.000000,0.000000''"
  let ?ps1 = "''1.000000,1.000000:2.000000,1.000000:2.000000,0.000000:1.000000,0.000000''"
  let ?m = "''2025-01''"
  let ?w1 = "emit (Get ?ps ?m (Response 503 None)) empty_world"
  let ?w2 = "emit (Get ?ps1 ?m (Response 200 None)) ?w1"
  let ?rest = "[((1, 1, 2, 2), ''NE''), ((0, 0, 1, 1), ''SW''), ((1, 0, 2, 1), ''SE'')] :: (rect \<times> string) list"
  note main = undecodable_answer_raises
  have i: "geom_intersection rect_shapely (0, 0, 2, 2) (0, 1, 1, 2) = (0, 1, 1, 2)"
    by (simp add: rect_shapely_def)
  have e: "\<not> geom_is_empty rect_shapely (0, 1, 1, 2)"
    by (simp add: rect_shapely_def)
  have h: "\<not> geom_is_empty rect_shapely (geom_intersection rect_shapely (0, 0, 2, 2) (0, 1, 1, 2))
      \<and> encode_geom rect_shapely (geom_intersection rect_shapely (0, 0, 2, 2) (0, 1, 1, 2)) = Inr ?ps1
      \<and> cache ?w1 (cell_path (child_id [] ''NW'') ?m) = None
      \<and> garbled_api (trace ?w1) ?ps1 ?m = Response 200 None"
    by (simp add: i e encode_rect_0112 empty_world_def garbled_api_def)
  have loop: "subdivide_loop rect_shapely garbled_api (0, 0, 2, 2) ?m 0 []
        (((0, 1, 1, 2), ''NW'') # ?rest) [] {} ?w1 = (Inl JSONDecodeError, ?w2)"
    by (rule main [where sh = rect_shapely and geom = "(0, 0, 2, 2)" and quad = "(0, 1, 1, 2)"
          and ps = ?ps1 and w = ?w1 and cell_id = "[]" and suffix = "''NW''" and month = ?m
          and api = garbled_api, THEN conjunct2, THEN conjunct1, THEN mp, OF h])
  have miss: "cache empty_world (cell_path [] ?m) = None"
    by (simp add: empty_world_def)
  have cap: "garbled_api (trace empty_world) ?ps ?m = Response 503 None"
    by (simp add: empty_world_def garbled_api_def)
  have d: "0 < MAX_GRID_DEPTH" by (simp add: MAX_GRID_DEPTH_def)
  have b: "geom_bounds rect_shapely (0, 0, 2, 2) = (0, 0, 2, 2)"
    by (simp add: rect_shapely_def)
  have boxes: "geom_box rect_shapely x y x' y' = (x, y, x', y')" for x y x' y'
    by (simp add: rect_shapely_def)
  from fetch_subdivide [OF encode_rect_0022 fetch_single_poly_503 [where api = garbled_api, OF miss cap] d b]
  have "fetch_with_subdivision rect_shapely garbled_api (0, 0, 2, 2) ?m 0 [] empty_world
      = (Inl JSONDecodeError, ?w2)"
    by (simp add: boxes loop)
  then have run: "fetch_borough_month rect_shapely garbled_api (0, 0, 2, 2) ?m empty_world
      = (Inl JSONDecodeError,
         \<lparr>cache = Map.empty, trace = [Get ?ps ?m (Response 503 None), Get ?ps1 ?m (Response 200 None)]\<rparr>)"
    by (simp add: fetch_borough_month_def emit_def empty_world_def)
  let ?osm = "\<lambda>(tr :: event list) (e :: string) (q :: string). Response 200 None"
  let ?q = "build_query 0 0 2 2"
  let ?e1 = "''https://overpass-api.de/api/interpreter''"
  let ?e2 = "''https://overpass.kumi.systems/api/interpreter''"
  have o1: "query_overpass ?osm [?e1, ?e2] ?q empty_world
      = query_overpass ?osm [?e2] ?q (emit (Post ?e1 ?q (Response 200 None)) empty_world)"
    by (rule main [where osm = ?osm, THEN conjunct2, THEN conjunct2, THEN mp]) simp
  have o2: "query_overpass ?osm [?e2] ?q (emit (Post ?e1 ?q (Response 200 None)) empty_world)
      = query_overpass ?osm [] ?q
          (emit (Post ?e2 ?q (Response 200 None)) (emit (Post ?e1 ?q (Response 200 None)) empty_world))"
    by (rule main [where osm = ?osm, THEN conjunct2, THEN conjunct2, THEN mp]) simp
  have q: "query_overpass ?osm OVERPASS_ENDPOINTS ?q empty_world
      = (JNull, emit (Post ?e2 ?q (Response 200 None)) (emit (Post ?e1 ?q (Response 200 None)) empty_world))"
    by (simp only: OVERPASS_ENDPOINTS_def o1 o2 query_overpass.simps(1))
  have pmiss: "cache empty_world (map (\<lambda>c. if c = CHR '' '' then CHR ''_'' else c) ''City of London'' @ ''_parking.json'') = None"
    by (simp add: empty_world_def)
  have "fetch_borough_parking rect_shapely ?osm ''City of London'' (0, 0, 2, 2) empty_world
      = (Inr 0, emit (Post ?e2 ?q (Response 200 None)) (emit (Post ?e1 ?q (Response 200 None)) empty_world))"
    unfolding fetch_borough_parking_def Let_def
    by (simp only: pmiss b q option.case prod.case) simp
  then have park: "\<exists>w'. fetch_borough_parking rect_shapely ?osm ''City of London'' (0, 0, 2, 2) empty_world
      = (Inr 0, w') \<and> cache w' = Map.empty \<and> length (trace w') = 2"
    by (simp add: empty_world_def)
  from run park show ?thesis by blast
qed

subsection \<open>The containment filter\<close>









subsection \<open>The subdivision step\<close>

lemma merge_crimes_key_error:
  "first_key_error cs = Some e \<Longrightarrow> merge_crimes cs acc seen = Inl e"
proof (induction cs arbitrary: acc seen)
  case Nil
  then show ?case by simp
next
  case (Cons c cs)
  then show ?case by (cases "crime_key c") auto
qed

lemma merge_crimes_no_key_error:
  "first_key_error cs = None \<Longrightarrow> \<exists>r. merge_crimes cs acc seen = Inr r"
proof (induction cs arbitrary: acc seen)
  case Nil
  show ?case by simp
next
  case (Cons c cs)
  then show ?case by (cases "crime_key c") auto
qed

lemma merge_crimes_refines:
  assumes "merge_inv acc seen" and "first_key_error cs = None"
  shows "\<exists>seen'. merge_crimes cs acc seen = Inr (spec_merge acc cs, seen')
           \<and> merge_inv (spec_merge acc cs) seen'"
proof -
  from merge_crimes_no_key_error [OF assms(2)]
  obtain acc' seen' where r: "merge_crimes cs acc seen = Inr (acc', seen')" by fastforce
  from merge_crimes_inv [OF r assms(1)] r show ?thesis by blast
qed

text \<open>
  The loop of the code, which clips and skips as it goes and carries the set of seen
  keys, does what the specification's sequence over the surviving pieces does.
\<close>

lemma subdivide_loop_refines:
  "merge_inv acc seen
   \<Longrightarrow> subdivide_loop sh api geom month depth cell_id quads acc seen w
        = spec_merge_children sh api month depth cell_id
            (filter (\<lambda>(piece, suffix). \<not> geom_is_empty sh piece)
               (map (\<lambda>(quad, suffix). (geom_intersection sh geom quad, suffix)) quads))
            acc w"
proof (induction quads arbitrary: acc seen w)
  case Nil
  show ?case by simp
next
  case (Cons q quads)
  obtain quad suffix where q: "q = (quad, suffix)" by (cases q)
  let ?piece = "geom_intersection sh geom quad"
  show ?case
  proof (cases "geom_is_empty sh ?piece")
    case True
    with Cons q show ?thesis by (simp add: subdivide_loop_skip)
  next
    case False
    obtain r w1 where run: "fetch_with_subdivision sh api ?piece month (depth + 1)
        (child_id cell_id suffix) w = (r, w1)" by (cases "fetch_with_subdivision sh api ?piece month (depth + 1)
        (child_id cell_id suffix) w")
    then have run': "fetch_with_subdivision sh api ?piece month (depth + 1)
        (if cell_id \<noteq> [] then cell_id @ ''_'' @ suffix else suffix) w = (r, w1)"
      by (simp add: child_id_def)
    show ?thesis
    proof (cases r)
      case (Inl e)
      with False q run run' show ?thesis by (simp add: subdivide_loop_child)
    next
      case (Inr crimes)
      show ?thesis
      proof (cases "py_iter crimes")
        case (Inl e)
        with Inr False q run run' show ?thesis by (simp add: subdivide_loop_child)
      next
        case iter: (Inr cs)
        show ?thesis
        proof (cases "first_key_error cs")
          case (Some e)
          with iter Inr False q run run' show ?thesis
            by (simp add: subdivide_loop_child merge_crimes_key_error)
        next
          case None
          from merge_crimes_refines [OF Cons.prems None]
          obtain seen' where m: "merge_crimes cs acc seen = Inr (spec_merge acc cs, seen')"
            and inv: "merge_inv (spec_merge acc cs) seen'" by blast
          from Cons.IH [OF inv] None m iter Inr False q run run' show ?thesis
            by (simp add: subdivide_loop_child)
        qed
      qed
    qed
  qed
qed

text \<open>
  The subdivision step, as far as it goes: an exception raised by a child, or by the
  merge of its result, leaves the fetch as it is raised, with nothing written for the
  parent. For a region that is not cached, whose request is answered with status 503
  below the depth limit: the bounding box is split at the midpoints of both axes into the boxes
  NW, NE, SW and SE; each is intersected with the region, and a quadrant whose
  intersection is empty is passed over with the state untouched (no request, no file);
  the surviving pieces are fetched in this order at depth + 1 under the cell id extended
  by the suffix (the bare suffix at the root, whose own file is labelled \<^verbatim>\<open>full\<close>), each
  result being merged into the previous ones; and when all children have returned, the
  merged list is returned and written to the cache file of the parent.
\<close>

lemma capacity_exceeded_subdivides:
  "(encode_geom sh geom = Inr ps \<and> cache w (cell_path cell_id month) = None
      \<and> api (trace w) ps month = Response 503 body \<and> depth < MAX_GRID_DEPTH
     \<longrightarrow> fetch_with_subdivision sh api geom month depth cell_id w
         = (case spec_merge_children sh api month depth cell_id (surviving_pieces sh geom) []
                   (emit (Get ps month (Response 503 body)) w) of
              (Inl e, w2) \<Rightarrow> (Inl e, w2)
            | (Inr merged, w2) \<Rightarrow>
                (Inr (JArr merged), write_cache (cell_path cell_id month) (JArr merged) w2)))
   \<and> (geom_bounds sh geom = (minx, miny, maxx, maxy)
     \<longrightarrow> map fst (quadrant_boxes sh geom)
           = [geom_box sh minx ((miny + maxy) / 2) ((minx + maxx) / 2) maxy,
              geom_box sh ((minx + maxx) / 2) ((miny + maxy) / 2) maxx maxy,
              geom_box sh minx miny ((minx + maxx) / 2) ((miny + maxy) / 2),
              geom_box sh ((minx + maxx) / 2) miny maxx ((miny + maxy) / 2)])
   \<and> map snd (quadrant_boxes sh geom) = [''NW'', ''NE'', ''SW'', ''SE'']
   \<and> (geom_is_empty sh (geom_intersection sh geom quad)
     \<longrightarrow> subdivide_loop sh api geom month depth cell_id ((quad, suffix) # rest) acc seen w
           = subdivide_loop sh api geom month depth cell_id rest acc seen w)
   \<and> child_id [] suffix = suffix
   \<and> (cell_id \<noteq> [] \<longrightarrow> child_id cell_id suffix = cell_id @ ''_'' @ suffix)"
proof (intro conjI impI)
  assume a: "encode_geom sh geom = Inr ps \<and> cache w (cell_path cell_id month) = None
      \<and> api (trace w) ps month = Response 503 body \<and> depth < MAX_GRID_DEPTH"
  then have enc: "encode_geom sh geom = Inr ps" and miss: "cache w (cell_path cell_id month) = None"
    and cap: "api (trace w) ps month = Response 503 body" and d: "depth < MAX_GRID_DEPTH"
    by blast+
  let ?w1 = "emit (Get ps month (Response 503 body)) w"
  obtain minx miny maxx maxy where b: "geom_bounds sh geom = (minx, miny, maxx, maxy)"
    by (cases "geom_bounds sh geom")
  let ?quads = "[(geom_box sh minx ((miny + maxy) / 2) ((minx + maxx) / 2) maxy, ''NW''),
                   (geom_box sh ((minx + maxx) / 2) ((miny + maxy) / 2) maxx maxy, ''NE''),
                   (geom_box sh minx miny ((minx + maxx) / 2) ((miny + maxy) / 2), ''SW''),
                   (geom_box sh ((minx + maxx) / 2) miny maxx ((miny + maxy) / 2), ''SE'')]"
  have sp: "surviving_pieces sh geom
      = filter (\<lambda>(piece, suffix). \<not> geom_is_empty sh piece)
               (map (\<lambda>(quad, suffix). (geom_intersection sh geom quad, suffix)) ?quads)"
    using b by (simp add: surviving_pieces_def quadrant_boxes_def)
  have loop: "subdivide_loop sh api geom month depth cell_id ?quads [] {} ?w1
      = spec_merge_children sh api month depth cell_id (surviving_pieces sh geom) [] ?w1"
    by (simp only: sp subdivide_loop_refines [OF merge_inv_empty])
  from fetch_subdivide [OF enc fetch_single_poly_503 [where api = api, OF miss cap] d b]
  show "fetch_with_subdivision sh api geom month depth cell_id w
         = (case spec_merge_children sh api month depth cell_id (surviving_pieces sh geom) [] ?w1 of
              (Inl e, w2) \<Rightarrow> (Inl e, w2)
            | (Inr merged, w2) \<Rightarrow>
                (Inr (JArr merged), write_cache (cell_path cell_id month) (JArr merged) w2))"
    by (simp only: loop)
next
  assume "geom_bounds sh geom = (minx, miny, maxx, maxy)"
  then show "map fst (quadrant_boxes sh geom)
           = [geom_box sh minx ((miny + maxy) / 2) ((minx + maxx) / 2) maxy,
              geom_box sh ((minx + maxx) / 2) ((miny + maxy) / 2) maxx maxy,
              geom_box sh minx miny ((minx + maxx) / 2) ((miny + maxy) / 2),
              geom_box sh ((minx + maxx) / 2) miny maxx ((miny + maxy) / 2)]"
    by (simp add: quadrant_boxes_def)
next
  show "map snd (quadrant_boxes sh geom) = [''NW'', ''NE'', ''SW'', ''SE'']"
    by (cases "geom_bounds sh geom") (simp add: quadrant_boxes_def)
next
  assume "geom_is_empty sh (geom_intersection sh geom quad)"
  then show "subdivide_loop sh api geom month depth cell_id ((quad, suffix) # rest) acc seen w
           = subdivide_loop sh api geom month depth cell_id rest acc seen w"
    by (rule subdivide_loop_skip)
next
  show "child_id [] suffix = suffix" by (simp add: child_id_def)
next
  assume "cell_id \<noteq> []"
  then show "child_id cell_id suffix = cell_id @ ''_'' @ suffix" by (simp add: child_id_def)
qed

subsection \<open>The scenario of the specification, run\<close>

lemma fetch_direct_200:
  assumes "encode_geom sh geom = Inr ps" and "cache w (cell_path cell_id month) = None"
    and "api (trace w) ps month = Response 200 (Some v)" and "py_len v = Inr n"
  shows "fetch_with_subdivision sh api geom month depth cell_id w
     = (Inr v, write_cache (cell_path cell_id month) v (emit (Get ps month (Response 200 (Some v))) w))"
  using fetch_not_null [OF assms(1) fetch_single_poly_200 [where api = api, OF assms(2,3,4)]]
    py_len_not_null [OF assms(4)] by simp

lemma encode_rect_1122:
  "encode_geom rect_shapely (1, 1, 2, 2)
     = Inr ''1.000000,2.000000:2.000000,2.000000:2.000000,1.000000:1.000000,1.000000''"
  by (simp add: encode_geom_def simplify_to_n_points_def rect_shapely_def MAX_POLY_POINTS_def
      coords_to_api_string_def fmt6_eval)

lemma encode_rect_0011:
  "encode_geom rect_shapely (0, 0, 1, 1)
     = Inr ''0.000000,1.000000:1.000000,1.000000:1.000000,0.000000:0.000000,0.000000''"
  by (simp add: encode_geom_def simplify_to_n_points_def rect_shapely_def MAX_POLY_POINTS_def
      coords_to_api_string_def fmt6_eval)

lemma encode_rect_1021:
  "encode_geom rect_shapely (1, 0, 2, 1)
     = Inr ''0.000000,2.000000:1.000000,2.000000:1.000000,1.000000:0.000000,1.000000''"
  by (simp add: encode_geom_def simplify_to_n_points_def rect_shapely_def MAX_POLY_POINTS_def
      coords_to_api_string_def fmt6_eval)

lemma scenario_pieces:
  "surviving_pieces rect_shapely (0, 0, 2, 2)
     = [((0, 1, 1, 2), ''NW''), ((1, 1, 2, 2), ''NE''), ((0, 0, 1, 1), ''SW''), ((1, 0, 2, 1), ''SE'')]"
  by (simp add: surviving_pieces_def quadrant_boxes_def rect_shapely_def)

lemma first_key_error_crime_recs:
  "\<forall>i \<in> set is. i \<noteq> 0 \<Longrightarrow> first_key_error (map crime_rec is) = None"
  by (induction "is") (simp_all add: crime_key_crime_rec)

lemma spec_merge_fresh:
  "crime_key c \<notin> crime_key ` set acc \<Longrightarrow> spec_merge acc (c # cs) = spec_merge (acc @ [c]) cs"
  by (simp add: spec_merge_def)

lemma spec_merge_Nil [simp]: "spec_merge acc [] = acc"
  by (simp add: spec_merge_def)

lemma scenario_children:
  "spec_merge_children rect_shapely scenario_api ''2025-01'' 0 []
     [((0, 1, 1, 2), ''NW''), ((1, 1, 2, 2), ''NE''), ((0, 0, 1, 1), ''SW''), ((1, 0, 2, 1), ''SE'')] []
     (emit (Get ''0.000000,2.000000:2.000000,2.000000:2.000000,0.000000:0.000000,0.000000'' ''2025-01''
              (Response 503 None)) empty_world)
   = (Inr [crime_rec 1, crime_rec 2, crime_rec 3, crime_rec 4, crime_rec 5, crime_rec 6,
           crime_rec 7, crime_rec 8, crime_rec 9, crime_rec 10],
      scenario_world\<lparr>cache := (cache scenario_world)(''full_2025-01.json'' := None),
                     trace := butlast (trace scenario_world)\<rparr>)"
proof -
  let ?m = "''2025-01''"
  let ?v1 = "JArr [crime_rec 1, crime_rec 2, crime_rec 3]"
  let ?v2 = "JArr []"
  let ?v3 = "JArr [crime_rec 4, crime_rec 5, crime_rec 6, crime_rec 7, crime_rec 8]"
  let ?v4 = "JArr [crime_rec 9, crime_rec 10]"
  let ?p0 = "''0.000000,2.000000:2.000000,2.000000:2.000000,0.000000:0.000000,0.000000''"
  let ?p1 = "''1.000000,1.000000:2.000000,1.000000:2.000000,0.000000:1.000000,0.000000''"
  let ?p2 = "''1.000000,2.000000:2.000000,2.000000:2.000000,1.000000:1.000000,1.000000''"
  let ?p3 = "''0.000000,1.000000:1.000000,1.000000:1.000000,0.000000:0.000000,0.000000''"
  let ?p4 = "''0.000000,2.000000:1.000000,2.000000:1.000000,1.000000:0.000000,1.000000''"
  let ?w1 = "emit (Get ?p0 ?m (Response 503 None)) empty_world"
  let ?w2 = "write_cache ''NW_2025-01.json'' ?v1 (emit (Get ?p1 ?m (Response 200 (Some ?v1))) ?w1)"
  let ?w3 = "write_cache ''NE_2025-01.json'' ?v2 (emit (Get ?p2 ?m (Response 200 (Some ?v2))) ?w2)"
  let ?w4 = "write_cache ''SW_2025-01.json'' ?v3 (emit (Get ?p3 ?m (Response 200 (Some ?v3))) ?w3)"
  let ?w5 = "write_cache ''SE_2025-01.json'' ?v4 (emit (Get ?p4 ?m (Response 200 (Some ?v4))) ?w4)"
  have c1: "fetch_with_subdivision rect_shapely scenario_api (0, 1, 1, 2) ?m d ''NW'' ?w1 = (Inr ?v1, ?w2)" for d
    using fetch_direct_200 [where sh = rect_shapely and api = scenario_api and geom = "(0, 1, 1, 2)"
        and ps = ?p1 and w = ?w1 and cell_id = "''NW''" and month = ?m and v = ?v1 and n = 3 and depth = d]
    by (simp add: encode_rect_0112 cell_path_def empty_world_def scenario_api_def)
  have c2: "fetch_with_subdivision rect_shapely scenario_api (1, 1, 2, 2) ?m d ''NE'' ?w2 = (Inr ?v2, ?w3)" for d
    using fetch_direct_200 [where sh = rect_shapely and api = scenario_api and geom = "(1, 1, 2, 2)"
        and ps = ?p2 and w = ?w2 and cell_id = "''NE''" and month = ?m and v = ?v2 and n = 0 and depth = d]
    by (simp add: encode_rect_1122 cell_path_def empty_world_def scenario_api_def)
  have c3: "fetch_with_subdivision rect_shapely scenario_api (0, 0, 1, 1) ?m d ''SW'' ?w3 = (Inr ?v3, ?w4)" for d
    using fetch_direct_200 [where sh = rect_shapely and api = scenario_api and geom = "(0, 0, 1, 1)"
        and ps = ?p3 and w = ?w3 and cell_id = "''SW''" and month = ?m and v = ?v3 and n = 5 and depth = d]
    by (simp add: encode_rect_0011 cell_path_def empty_world_def scenario_api_def)
  have c4: "fetch_with_subdivision rect_shapely scenario_api (1, 0, 2, 1) ?m d ''SE'' ?w4 = (Inr ?v4, ?w5)" for d
    using fetch_direct_200 [where sh = rect_shapely and api = scenario_api and geom = "(1, 0, 2, 1)"
        and ps = ?p4 and w = ?w4 and cell_id = "''SE''" and month = ?m and v = ?v4 and n = 2 and depth = d]
    by (simp add: encode_rect_1021 cell_path_def empty_world_def scenario_api_def)
  have m1: "spec_merge [] [crime_rec 1, crime_rec 2, crime_rec 3] = [crime_rec 1, crime_rec 2, crime_rec 3]"
    by (simp add: spec_merge_def crime_key_crime_rec)
  have m3: "spec_merge [crime_rec 1, crime_rec 2, crime_rec 3]
        [crime_rec 4, crime_rec 5, crime_rec 6, crime_rec 7, crime_rec 8]
      = [crime_rec 1, crime_rec 2, crime_rec 3, crime_rec 4, crime_rec 5, crime_rec 6, crime_rec 7, crime_rec 8]"
    by (simp add: spec_merge_def crime_key_crime_rec)
  have m4: "spec_merge [crime_rec 1, crime_rec 2, crime_rec 3, crime_rec 4, crime_rec 5, crime_rec 6,
          crime_rec 7, crime_rec 8] [crime_rec 9, crime_rec 10]
      = [crime_rec 1, crime_rec 2, crime_rec 3, crime_rec 4, crime_rec 5, crime_rec 6,
           crime_rec 7, crime_rec 8, crime_rec 9, crime_rec 10]"
    by (simp add: spec_merge_def crime_key_crime_rec)
  have w5: "?w5 = scenario_world\<lparr>cache := (cache scenario_world)(''full_2025-01.json'' := None),
                     trace := butlast (trace scenario_world)\<rparr>"
    by (simp add: scenario_world_def empty_world_def write_cache_def emit_def fun_eq_iff)
  have "spec_merge_children rect_shapely scenario_api ?m 0 []
     [((0, 1, 1, 2), ''NW''), ((1, 1, 2, 2), ''NE''), ((0, 0, 1, 1), ''SW''), ((1, 0, 2, 1), ''SE'')] [] ?w1
   = (Inr [crime_rec 1, crime_rec 2, crime_rec 3, crime_rec 4, crime_rec 5, crime_rec 6,
           crime_rec 7, crime_rec 8, crime_rec 9, crime_rec 10], ?w5)"
    by (simp add: child_id_def c1 c2 c3 c4 crime_key_crime_rec m1 m3 m4)
  with w5 show ?thesis by simp
qed

lemma scenario_final_write:
  "write_cache ''full_2025-01.json''
        (JArr [crime_rec 1, crime_rec 2, crime_rec 3, crime_rec 4, crime_rec 5, crime_rec 6,
                   crime_rec 7, crime_rec 8, crime_rec 9, crime_rec 10])
        (scenario_world\<lparr>cache := (cache scenario_world)(''full_2025-01.json'' := None),
                     trace := butlast (trace scenario_world)\<rparr>) = scenario_world"
  by (simp add: scenario_world_def write_cache_def emit_def fun_eq_iff)

lemma scenario_run:
  "fetch_with_subdivision rect_shapely scenario_api (0, 0, 2, 2) ''2025-01'' 0 [] empty_world
     = (Inr (JArr [crime_rec 1, crime_rec 2, crime_rec 3, crime_rec 4, crime_rec 5, crime_rec 6,
                   crime_rec 7, crime_rec 8, crime_rec 9, crime_rec 10]), scenario_world)"
proof -
  let ?p0 = "''0.000000,2.000000:2.000000,2.000000:2.000000,0.000000:0.000000,0.000000''"
  let ?w1 = "emit (Get ?p0 ''2025-01'' (Response 503 None)) empty_world"
  have s: "fetch_single_poly scenario_api ?p0 ''2025-01'' (cell_path [] ''2025-01'') empty_world
      = (Inr JNull, ?w1)"
    by (rule fetch_single_poly_503) (simp_all add: empty_world_def scenario_api_def)
  have b: "geom_bounds rect_shapely (0, 0, 2, 2) = (0, 0, 2, 2)"
    by (simp add: rect_shapely_def)
  have d: "0 < MAX_GRID_DEPTH" by (simp add: MAX_GRID_DEPTH_def)
  have q: "[(geom_box rect_shapely 0 ((0 + 2) / 2) ((0 + 2) / 2) 2, ''NW''),
            (geom_box rect_shapely ((0 + 2) / 2) ((0 + 2) / 2) 2 2, ''NE''),
            (geom_box rect_shapely 0 0 ((0 + 2) / 2) ((0 + 2) / 2), ''SW''),
            (geom_box rect_shapely ((0 + 2) / 2) 0 2 ((0 + 2) / 2), ''SE'')]
      = map (\<lambda>(g, s). (g, s)) (quadrant_boxes rect_shapely (0, 0, 2, 2))"
    by (simp add: quadrant_boxes_def b)
  have loop: "subdivide_loop rect_shapely scenario_api (0, 0, 2, 2) ''2025-01'' 0 []
        (quadrant_boxes rect_shapely (0, 0, 2, 2)) [] {} ?w1
      = spec_merge_children rect_shapely scenario_api ''2025-01'' 0 []
          (surviving_pieces rect_shapely (0, 0, 2, 2)) [] ?w1"
    by (simp only: surviving_pieces_def subdivide_loop_refines [OF merge_inv_empty])
  from fetch_subdivide [OF encode_rect_0022 s d b] q loop scenario_pieces scenario_children
    scenario_final_write
  show ?thesis by (simp add: cell_path_root)
qed

lemma capacity_exceeded_subdivides_example:
  "fetch_with_subdivision rect_shapely scenario_api (0, 0, 2, 2) ''2025-01'' 0 [] empty_world
     = (Inr (JArr [crime_rec 1, crime_rec 2, crime_rec 3, crime_rec 4, crime_rec 5, crime_rec 6,
                   crime_rec 7, crime_rec 8, crime_rec 9, crime_rec 10]), scenario_world)
   \<and> cache scenario_world ''full_2025-01.json''
       = Some (JArr [crime_rec 1, crime_rec 2, crime_rec 3, crime_rec 4, crime_rec 5, crime_rec 6,
                     crime_rec 7, crime_rec 8, crime_rec 9, crime_rec 10])
   \<and> map fst (quadrant_boxes rect_shapely (0, 0, 2, 2)) = [(0, 1, 1, 2), (1, 1, 2, 2), (0, 0, 1, 1), (1, 0, 2, 1)]"
proof -
  let ?p0 = "''0.000000,2.000000:2.000000,2.000000:2.000000,0.000000:0.000000,0.000000''"
  note main = capacity_exceeded_subdivides [where sh = rect_shapely and geom = "(0, 0, 2, 2)"
      and api = scenario_api and month = "''2025-01''" and depth = 0 and cell_id = "[]"
      and w = empty_world and ps = ?p0 and body = None
      and minx = 0 and miny = 0 and maxx = 2 and maxy = 2]
  have h: "encode_geom rect_shapely (0, 0, 2, 2) = Inr ?p0
      \<and> cache empty_world (cell_path [] ''2025-01'') = None
      \<and> scenario_api (trace empty_world) ?p0 ''2025-01'' = Response 503 None
      \<and> 0 < MAX_GRID_DEPTH"
    by (simp add: encode_rect_0022 empty_world_def scenario_api_def MAX_GRID_DEPTH_def)
  from main [THEN conjunct1, THEN mp, OF h]
  have a: "fetch_with_subdivision rect_shapely scenario_api (0, 0, 2, 2) ''2025-01'' 0 [] empty_world
     = (Inr (JArr [crime_rec 1, crime_rec 2, crime_rec 3, crime_rec 4, crime_rec 5, crime_rec 6,
                   crime_rec 7, crime_rec 8, crime_rec 9, crime_rec 10]), scenario_world)"
    by (simp only: scenario_pieces scenario_children prod.case sum.case scenario_final_write
        cell_path_root)
  have b: "geom_bounds rect_shapely (0, 0, 2, 2) = (0, 0, 2, 2)"
    by (simp add: rect_shapely_def)
  from main [THEN conjunct2, THEN conjunct1, THEN mp, OF b]
  have c: "map fst (quadrant_boxes rect_shapely (0, 0, 2, 2)) = [(0, 1, 1, 2), (1, 1, 2, 2), (0, 0, 1, 1), (1, 0, 2, 1)]"
    by (simp add: rect_shapely_def)
  have d: "cache scenario_world ''full_2025-01.json''
       = Some (JArr [crime_rec 1, crime_rec 2, crime_rec 3, crime_rec 4, crime_rec 5, crime_rec 6,
                     crime_rec 7, crime_rec 8, crime_rec 9, crime_rec 10])"
    by (simp add: scenario_world_def)
  from a c d show ?thesis by blast
qed

subsection \<open>Fetching a second time\<close>

lemma fetch_single_poly_cached:
  assumes "fetch_single_poly api ps m p w = (Inr v, w1)" and "cache w1 p \<noteq> None"
  shows "cache w1 p = Some v"
proof (cases "cache w p")
  case (Some u)
  with assms show ?thesis by (auto simp: fetch_single_poly_def)
next
  case None
  show ?thesis
  proof (cases "api (trace w) ps m")
    case RequestException
    with None assms show ?thesis by (auto simp: fetch_single_poly_def Let_def)
  next
    case (Response status_code body)
    show ?thesis
    proof (cases "status_code = 200")
      case False
      with Response None assms show ?thesis
        by (auto simp: fetch_single_poly_def Let_def split: if_splits)
    next
      case True
      with Response None assms show ?thesis
        by (cases body; cases "py_len (the body)") (auto simp: fetch_single_poly_def Let_def)
    qed
  qed
qed

text \<open>
  C3, as the code has it. The service is unreachable when the region is fetched first;
  the fetch returns the empty list and caches nothing. The second fetch, from the state
  the first one left, sends another request and returns a different result.
\<close>

theorem second_fetch_after_failure_queries_again:
  "fetch_with_subdivision rect_shapely flaky_api (0, 0, 2, 2) ''2025-01'' 0 [] empty_world
     = (Inr (JArr []),
        emit (Get ''0.000000,2.000000:2.000000,2.000000:2.000000,0.000000:0.000000,0.000000''
                ''2025-01'' RequestException) empty_world)
   \<and> fetch_with_subdivision rect_shapely flaky_api (0, 0, 2, 2) ''2025-01'' 0 []
       (emit (Get ''0.000000,2.000000:2.000000,2.000000:2.000000,0.000000:0.000000,0.000000''
                ''2025-01'' RequestException) empty_world)
     = (Inr (JArr [crime_rec 1]),
        write_cache ''full_2025-01.json'' (JArr [crime_rec 1])
          (emit (Get ''0.000000,2.000000:2.000000,2.000000:2.000000,0.000000:0.000000,0.000000''
                   ''2025-01'' (Response 200 (Some (JArr [crime_rec 1]))))
            (emit (Get ''0.000000,2.000000:2.000000,2.000000:2.000000,0.000000:0.000000,0.000000''
                     ''2025-01'' RequestException) empty_world)))"
proof -
  let ?p0 = "''0.000000,2.000000:2.000000,2.000000:2.000000,0.000000:0.000000,0.000000''"
  let ?w1 = "emit (Get ?p0 ''2025-01'' RequestException) empty_world"
  have s1: "fetch_single_poly flaky_api ?p0 ''2025-01'' (cell_path [] ''2025-01'') empty_world
      = (Inr (JArr []), ?w1)"
    using fetch_single_poly_failure [where api = flaky_api and w = empty_world and ps = ?p0
        and m = "''2025-01''" and p = "cell_path [] ''2025-01''"]
    by (simp add: empty_world_def flaky_api_def other_failure_def)
  have a: "fetch_with_subdivision rect_shapely flaky_api (0, 0, 2, 2) ''2025-01'' 0 [] empty_world
      = (Inr (JArr []), ?w1)"
    using fetch_not_null [OF encode_rect_0022 s1] by simp
  have b: "fetch_with_subdivision rect_shapely flaky_api (0, 0, 2, 2) ''2025-01'' 0 [] ?w1
      = (Inr (JArr [crime_rec 1]),
         write_cache (cell_path [] ''2025-01'') (JArr [crime_rec 1])
           (emit (Get ?p0 ''2025-01'' (Response 200 (Some (JArr [crime_rec 1])))) ?w1))"
    by (rule fetch_direct_200 [OF encode_rect_0022, where n = 1])
       (simp_all add: empty_world_def flaky_api_def cell_path_def)
  from a b show ?thesis by (simp add: cell_path_root)
qed

text \<open>
  C3 (amended). When a fetch returns normally and leaves a cache file for its own
  (label, month) key (after a cache hit, a 200 answer, or a subdivision whose merged
  result it stored), a second fetch of the same region and month from the state it left
  returns the same result, whatever the service would answer: it sends no request and
  writes no file, and below the depth limit it leaves the state exactly as it was. A
  cache hit on a document other than \<^verbatim>\<open>null\<close> is returned directly. A first fetch that
  ends in a network error or a status other than 200 and 503 leaves no cache file, and
  this guarantee does not apply to it.
\<close>

theorem second_fetch_is_served_from_cache:
  "(fetch_with_subdivision sh api geom month depth cell_id w = (Inr r, w')
      \<and> cache w' (cell_path cell_id month) \<noteq> None
     \<longrightarrow> (\<exists>w''. fetch_with_subdivision sh api' geom month depth cell_id w' = (Inr r, w'')
            \<and> cache w'' = cache w'
            \<and> filter is_get (trace w'') = filter is_get (trace w')
            \<and> (depth < MAX_GRID_DEPTH \<longrightarrow> w'' = w')))
   \<and> (encode_geom sh geom = Inr ps \<and> cache w (cell_path cell_id month) = Some v \<and> v \<noteq> JNull
     \<longrightarrow> fetch_with_subdivision sh api geom month depth cell_id w = (Inr v, w))
   \<and> (encode_geom sh geom = Inr ps \<and> cache w (cell_path cell_id month) = None
        \<and> other_failure (api (trace w) ps month)
     \<longrightarrow> (\<exists>w1. fetch_with_subdivision sh api geom month depth cell_id w = (Inr (JArr []), w1)
            \<and> cache w1 (cell_path cell_id month) = None))"
proof (intro conjI impI)
  let ?path = "cell_path cell_id month"
  assume a: "fetch_with_subdivision sh api geom month depth cell_id w = (Inr r, w')
      \<and> cache w' ?path \<noteq> None"
  then have run: "fetch_with_subdivision sh api geom month depth cell_id w = (Inr r, w')"
    and cached: "cache w' ?path \<noteq> None" by blast+
  from run obtain ps where enc: "encode_geom sh geom = Inr ps"
    by (cases "encode_geom sh geom") (auto simp: fetch_encode_error)
  obtain x w1 where s: "fetch_single_poly api ps month ?path w = (x, w1)"
    by (cases "fetch_single_poly api ps month ?path w")
  from run s enc obtain v where x: "x = Inr v"
    by (cases x) (auto simp: fetch_raises)
  note s = s [unfolded x]
  show "\<exists>w''. fetch_with_subdivision sh api' geom month depth cell_id w' = (Inr r, w'')
            \<and> cache w'' = cache w'
            \<and> filter is_get (trace w'') = filter is_get (trace w')
            \<and> (depth < MAX_GRID_DEPTH \<longrightarrow> w'' = w')"
  proof (cases "v = JNull")
    case False
    from fetch_not_null [OF enc s False] run have eq: "r = v" "w' = w1" by simp_all
    from fetch_single_poly_cached [OF s] cached eq have "cache w' ?path = Some r" by simp
    then have "fetch_single_poly api' ps month ?path w' = (Inr r, w')"
      by (rule fetch_single_poly_hit)
    from fetch_not_null [OF enc this] False eq
    have "fetch_with_subdivision sh api' geom month depth cell_id w' = (Inr r, w')" by simp
    then show ?thesis by simp
  next
    case True
    note s = s [unfolded True]
    show ?thesis
    proof (cases "MAX_GRID_DEPTH \<le> depth")
      case deep: True
      let ?warn = "MaxDepthWarning month (if cell_id \<noteq> [] then cell_id else ''full'')"
      from fetch_max_depth [OF enc s deep] run have eq: "r = JArr []" "w' = emit ?warn w1" by simp_all
      from fetch_single_poly_cached [OF s] cached eq have "cache w' ?path = Some JNull" by simp
      then have "fetch_single_poly api' ps month ?path w' = (Inr JNull, w')"
        by (rule fetch_single_poly_hit)
      from fetch_max_depth [OF enc this deep] eq
      have "fetch_with_subdivision sh api' geom month depth cell_id w' = (Inr r, emit ?warn w')"
        by simp
      with deep show ?thesis by simp
    next
      case False
      then have d: "depth < MAX_GRID_DEPTH" by simp
      obtain minx miny maxx maxy where b: "geom_bounds sh geom = (minx, miny, maxx, maxy)"
        by (cases "geom_bounds sh geom")
      let ?quads = "[(geom_box sh minx ((miny + maxy) / 2) ((minx + maxx) / 2) maxy, ''NW''),
                   (geom_box sh ((minx + maxx) / 2) ((miny + maxy) / 2) maxx maxy, ''NE''),
                   (geom_box sh minx miny ((minx + maxx) / 2) ((miny + maxy) / 2), ''SW''),
                   (geom_box sh ((minx + maxx) / 2) miny maxx ((miny + maxy) / 2), ''SE'')]"
      obtain y w2 where l: "subdivide_loop sh api geom month depth cell_id ?quads [] {} w1 = (y, w2)"
        by (cases "subdivide_loop sh api geom month depth cell_id ?quads [] {} w1")
      from fetch_subdivide [OF enc s d b] l run obtain merged where y: "y = Inr merged"
        by (cases y) auto
      from fetch_subdivide [OF enc s d b] l y run
      have eq: "r = JArr merged" "w' = write_cache ?path (JArr merged) w2" by simp_all
      then have "cache w' ?path = Some r" by simp
      then have "fetch_single_poly api' ps month ?path w' = (Inr r, w')"
        by (rule fetch_single_poly_hit)
      from fetch_not_null [OF enc this] eq
      have "fetch_with_subdivision sh api' geom month depth cell_id w' = (Inr r, w')" by simp
      then show ?thesis by simp
    qed
  qed
next
  assume "encode_geom sh geom = Inr ps \<and> cache w (cell_path cell_id month) = Some v \<and> v \<noteq> JNull"
  then have enc: "encode_geom sh geom = Inr ps" and hit: "cache w (cell_path cell_id month) = Some v"
    and nn: "v \<noteq> JNull" by blast+
  show "fetch_with_subdivision sh api geom month depth cell_id w = (Inr v, w)"
    by (rule fetch_not_null [OF enc fetch_single_poly_hit [OF hit] nn])
next
  assume a: "encode_geom sh geom = Inr ps \<and> cache w (cell_path cell_id month) = None
        \<and> other_failure (api (trace w) ps month)"
  then have enc: "encode_geom sh geom = Inr ps" and miss: "cache w (cell_path cell_id month) = None"
    and f: "other_failure (api (trace w) ps month)" by blast+
  from fetch_not_null [OF enc fetch_single_poly_failure
      [where api = api and ps = ps and m = month, OF miss f]] miss
  show "\<exists>w1. fetch_with_subdivision sh api geom month depth cell_id w = (Inr (JArr []), w1)
            \<and> cache w1 (cell_path cell_id month) = None"
    by simp
qed

theorem second_fetch_is_served_from_cache_witness:
  "fetch_with_subdivision rect_shapely scenario_api (0, 0, 2, 2) ''2025-01'' 0 [] empty_world
     = (Inr (JArr [crime_rec 1, crime_rec 2, crime_rec 3, crime_rec 4, crime_rec 5, crime_rec 6,
                   crime_rec 7, crime_rec 8, crime_rec 9, crime_rec 10]), scenario_world)
   \<and> fetch_with_subdivision rect_shapely (\<lambda>tr p m. RequestException) (0, 0, 2, 2) ''2025-01'' 0 []
       scenario_world
     = (Inr (JArr [crime_rec 1, crime_rec 2, crime_rec 3, crime_rec 4, crime_rec 5, crime_rec 6,
                   crime_rec 7, crime_rec 8, crime_rec 9, crime_rec 10]), scenario_world)"
proof -
  let ?ten = "JArr [crime_rec 1, crime_rec 2, crime_rec 3, crime_rec 4, crime_rec 5, crime_rec 6,
                   crime_rec 7, crime_rec 8, crime_rec 9, crime_rec 10]"
  have h: "fetch_with_subdivision rect_shapely scenario_api (0, 0, 2, 2) ''2025-01'' 0 [] empty_world
      = (Inr ?ten, scenario_world) \<and> cache scenario_world (cell_path [] ''2025-01'') \<noteq> None"
    by (simp add: scenario_run cell_path_root scenario_world_def)
  have d: "0 < MAX_GRID_DEPTH" by (simp add: MAX_GRID_DEPTH_def)
  from second_fetch_is_served_from_cache [where sh = rect_shapely and api = scenario_api
      and geom = "(0, 0, 2, 2)" and month = "''2025-01''" and depth = 0 and cell_id = "[]"
      and w = empty_world and r = ?ten and w' = scenario_world
      and api' = "\<lambda>tr p m. RequestException", THEN conjunct1, THEN mp, OF h] d
  have "fetch_with_subdivision rect_shapely (\<lambda>tr p m. RequestException) (0, 0, 2, 2) ''2025-01'' 0 []
       scenario_world = (Inr ?ten, scenario_world)"
    by auto
  with h show ?thesis by blast
qed

subsection \<open>The depth limit\<close>

lemma depth_induct [case_names limit below]:
  assumes "\<And>d. MAX_GRID_DEPTH \<le> d \<Longrightarrow> P d"
    and "\<And>d. d < MAX_GRID_DEPTH \<Longrightarrow> P (Suc d) \<Longrightarrow> P d"
  shows "P d"
proof (induction "MAX_GRID_DEPTH - d" arbitrary: d)
  case 0
  then show ?case using assms(1) by simp
next
  case (Suc n)
  then have "d < MAX_GRID_DEPTH" and "n = MAX_GRID_DEPTH - Suc d" by simp_all
  with Suc.hyps(1) assms(2) show ?case by blast
qed

lemma run_within_refl: "run_within w w g l"
  by (simp add: run_within_def)

lemma run_within_trans:
  "run_within a b g1 l1 \<Longrightarrow> run_within b c g2 l2 \<Longrightarrow> run_within a c (g1 + g2) (l1 + l2)"
  by (fastforce simp: run_within_def)

lemma run_within_mono:
  "run_within w w' g l \<Longrightarrow> g \<le> g' \<Longrightarrow> l \<le> l' \<Longrightarrow> run_within w w' g' l'"
  by (fastforce simp: run_within_def)

lemma run_within_warning: "run_within w (emit (MaxDepthWarning m l) w) 0 1"
  by (simp add: run_within_def)

lemma run_within_write: "run_within w (write_cache p v w) 0 0"
  by (simp add: run_within_def)

lemma fetch_single_poly_within:
  "fetch_single_poly api ps m p w = (x, w1) \<Longrightarrow> run_within w w1 1 (if x = Inr JNull then 0 else 1)"
  by (auto simp: fetch_single_poly_def run_within_def Let_def
      split: option.splits response.splits if_splits sum.splits)

text \<open>A fetch at the depth limit, or beyond it, makes no recursive call.\<close>

lemma fetch_at_limit:
  "MAX_GRID_DEPTH \<le> depth
   \<Longrightarrow> fetch_with_subdivision sh api geom month depth cell_id w
        = (case encode_geom sh geom of
             Inl e \<Rightarrow> (Inl e, w)
           | Inr ps \<Rightarrow>
               (case fetch_single_poly api ps month (cell_path cell_id month) w of
                  (Inl e, w1) \<Rightarrow> (Inl e, w1)
                | (Inr result, w1) \<Rightarrow>
                    if result \<noteq> JNull then (Inr result, w1)
                    else (Inr (JArr []),
                          emit (MaxDepthWarning month (if cell_id \<noteq> [] then cell_id else ''full'')) w1)))"
  by (subst fetch_unfold) (simp split: sum.splits prod.splits)

lemma fetch_at_limit_within:
  assumes "MAX_GRID_DEPTH \<le> depth"
    and "fetch_with_subdivision sh api geom month depth cell_id w = (r, w')"
  shows "run_within w w' 1 1"
proof (cases "encode_geom sh geom")
  case (Inl e)
  with assms show ?thesis by (simp add: fetch_encode_error run_within_refl)
next
  case (Inr ps)
  obtain x w1 where s: "fetch_single_poly api ps month (cell_path cell_id month) w = (x, w1)"
    by (cases "fetch_single_poly api ps month (cell_path cell_id month) w")
  show ?thesis
  proof (cases "x = Inr JNull")
    case True
    with fetch_max_depth [OF Inr _ assms(1)] s assms(2)
    have w': "w' = emit (MaxDepthWarning month (if cell_id \<noteq> [] then cell_id else ''full'')) w1"
      by simp
    from fetch_single_poly_within [OF s] True have "run_within w w1 1 0" by simp
    from run_within_trans [OF this run_within_warning] w' show ?thesis by simp
  next
    case False
    with s Inr assms(2) have "w' = w1"
      by (cases x) (auto simp: fetch_raises fetch_not_null)
    with fetch_single_poly_within [OF s] False show ?thesis by simp
  qed
qed

lemma subdivide_loop_within:
  assumes child: "\<forall>g c w r w'. fetch_with_subdivision sh api g month (Suc depth) c w = (r, w')
      \<longrightarrow> run_within w w' G L"
  shows "subdivide_loop sh api geom month depth cell_id quads acc seen w = (y, w')
      \<Longrightarrow> run_within w w' (length quads * G) (length quads * L)"
proof (induction quads arbitrary: acc seen w)
  case Nil
  then show ?case by (simp add: run_within_refl)
next
  case (Cons q quads)
  obtain quad suffix where q: "q = (quad, suffix)" by (cases q)
  let ?piece = "geom_intersection sh geom quad"
  show ?case
  proof (cases "geom_is_empty sh ?piece")
    case True
    with Cons.prems q have "subdivide_loop sh api geom month depth cell_id quads acc seen w = (y, w')"
      by (simp add: subdivide_loop_skip)
    from Cons.IH [OF this] show ?thesis
      by (rule run_within_mono) simp_all
  next
    case False
    obtain r w1 where run: "fetch_with_subdivision sh api ?piece month (Suc depth)
        (if cell_id \<noteq> [] then cell_id @ ''_'' @ suffix else suffix) w = (r, w1)"
      by (cases "fetch_with_subdivision sh api ?piece month (Suc depth)
        (if cell_id \<noteq> [] then cell_id @ ''_'' @ suffix else suffix) w")
    from child run have first: "run_within w w1 G L" by blast
    have here: "run_within w w1 (Suc (length quads) * G) (Suc (length quads) * L)"
      using first by (rule run_within_mono) simp_all
    show ?thesis
    proof (cases r)
      case (Inl e)
      with False q run Cons.prems have "w' = w1" by (simp add: subdivide_loop_child)
      with here show ?thesis by simp
    next
      case (Inr crimes)
      show ?thesis
      proof (cases "py_iter crimes")
        case (Inl e)
        with Inr False q run Cons.prems have "w' = w1" by (simp add: subdivide_loop_child)
        with here show ?thesis by simp
      next
        case iter: (Inr cs)
        show ?thesis
        proof (cases "merge_crimes cs acc seen")
          case (Inl e)
          with iter Inr False q run Cons.prems have "w' = w1" by (simp add: subdivide_loop_child)
          with here show ?thesis by simp
        next
          case m: (Inr p)
          obtain acc' seen' where p: "p = (acc', seen')" by (cases p)
          from m p iter Inr False q run Cons.prems
          have "subdivide_loop sh api geom month depth cell_id quads acc' seen' w1 = (y, w')"
            by (simp add: subdivide_loop_child)
          from run_within_trans [OF first Cons.IH [OF this]] show ?thesis by simp
        qed
      qed
    qed
  qed
qed

lemma fetch_below_limit_within:
  assumes child: "\<forall>g c w r w'. fetch_with_subdivision sh api g month (Suc depth) c w = (r, w')
      \<longrightarrow> run_within w w' G L"
    and d: "depth < MAX_GRID_DEPTH" and L: "1 \<le> L"
    and run: "fetch_with_subdivision sh api geom month depth cell_id w = (r, w')"
  shows "run_within w w' (1 + 4 * G) (4 * L)"
proof (cases "encode_geom sh geom")
  case (Inl e)
  with run show ?thesis by (simp add: fetch_encode_error run_within_refl)
next
  case (Inr ps)
  obtain x w1 where s: "fetch_single_poly api ps month (cell_path cell_id month) w = (x, w1)"
    by (cases "fetch_single_poly api ps month (cell_path cell_id month) w")
  show ?thesis
  proof (cases "x = Inr JNull")
    case False
    with s Inr run have "w' = w1"
      by (cases x) (auto simp: fetch_raises fetch_not_null)
    with fetch_single_poly_within [OF s] False have "run_within w w' 1 1" by simp
    then show ?thesis by (rule run_within_mono) (use L in simp_all)
  next
    case True
    with fetch_single_poly_within [OF s] have one: "run_within w w1 1 0" by simp
    obtain minx miny maxx maxy where b: "geom_bounds sh geom = (minx, miny, maxx, maxy)"
      by (cases "geom_bounds sh geom")
    let ?quads = "[(geom_box sh minx ((miny + maxy) / 2) ((minx + maxx) / 2) maxy, ''NW''),
                   (geom_box sh ((minx + maxx) / 2) ((miny + maxy) / 2) maxx maxy, ''NE''),
                   (geom_box sh minx miny ((minx + maxx) / 2) ((miny + maxy) / 2), ''SW''),
                   (geom_box sh ((minx + maxx) / 2) miny maxx ((miny + maxy) / 2), ''SE'')]"
    obtain y w2 where l: "subdivide_loop sh api geom month depth cell_id ?quads [] {} w1 = (y, w2)"
      by (cases "subdivide_loop sh api geom month depth cell_id ?quads [] {} w1")
    from subdivide_loop_within [OF child l] have four: "run_within w1 w2 (4 * G) (4 * L)"
      by (rule run_within_mono) simp_all
    from run_within_trans [OF one four] have upto: "run_within w w2 (1 + 4 * G) (4 * L)" by simp
    from s True have s': "fetch_single_poly api ps month (cell_path cell_id month) w = (Inr JNull, w1)"
      by simp
    show ?thesis
    proof (cases y)
      case (Inl e)
      with fetch_subdivide [OF Inr s' d b] l run have "w' = w2" by simp
      with upto show ?thesis by simp
    next
      case (Inr merged)
      with fetch_subdivide [OF \<open>encode_geom sh geom = Inr ps\<close> s' d b] l run
      have "w' = write_cache (cell_path cell_id month) (JArr merged) w2" by simp
      with run_within_trans [OF upto run_within_write] show ?thesis by simp
    qed
  qed
qed

lemma fetch_within:
  "fetch_with_subdivision sh api geom month depth cell_id w = (r, w')
   \<Longrightarrow> run_within w w' (total_bound (MAX_GRID_DEPTH - depth)) (4 ^ (MAX_GRID_DEPTH - depth))"
proof (induction depth arbitrary: geom cell_id w r w' rule: depth_induct)
  case (limit d)
  from fetch_at_limit_within [OF limit] limit(1) show ?case by simp
next
  case (below d)
  from below(1) have k: "MAX_GRID_DEPTH - d = Suc (MAX_GRID_DEPTH - Suc d)" by simp
  from below(2) have child: "\<forall>g c w r w'. fetch_with_subdivision sh api g month (Suc d) c w = (r, w')
      \<longrightarrow> run_within w w' (total_bound (MAX_GRID_DEPTH - Suc d)) (4 ^ (MAX_GRID_DEPTH - Suc d))"
    by blast
  have "run_within w w' (1 + 4 * total_bound (MAX_GRID_DEPTH - Suc d))
      (4 * 4 ^ (MAX_GRID_DEPTH - Suc d))"
    by (rule fetch_below_limit_within [OF child below(1) _ below(3)]) simp
  then show ?case by (simp add: k)
qed

text \<open>
  C2. A fetch at depth \<open>MAX_GRID_DEPTH\<close> or deeper makes no recursive call: its body is
  one call of \<^verbatim>\<open>_fetch_single_poly\<close>, and a 503 answer there gives the empty list (with a
  warning, and no cache file). So a fetch started at depth \<open>d\<close> adds to the trace at most
  \<open>total_bound (MAX_GRID_DEPTH - d)\<close> requests, of which at most
  \<open>4 ^ (MAX_GRID_DEPTH - d)\<close> are leaf queries; for the entry point, which starts at depth
  0, these are 21 requests and \<open>4 ^ MAX_GRID_DEPTH = 16\<close> leaf queries, for every
  geometry and every service. The function is total, so every fetch returns.
\<close>

theorem subdivision_depth_is_bounded:
  "(MAX_GRID_DEPTH \<le> depth
     \<longrightarrow> fetch_with_subdivision sh api geom month depth cell_id w
         = (case encode_geom sh geom of
              Inl e \<Rightarrow> (Inl e, w)
            | Inr ps \<Rightarrow>
                (case fetch_single_poly api ps month (cell_path cell_id month) w of
                   (Inl e, w1) \<Rightarrow> (Inl e, w1)
                 | (Inr result, w1) \<Rightarrow>
                     if result \<noteq> JNull then (Inr result, w1)
                     else (Inr (JArr []),
                           emit (MaxDepthWarning month (if cell_id \<noteq> [] then cell_id else ''full'')) w1))))
   \<and> (MAX_GRID_DEPTH \<le> depth \<and> encode_geom sh geom = Inr ps
        \<and> cache w (cell_path cell_id month) = None \<and> api (trace w) ps month = Response 503 body
     \<longrightarrow> fetch_with_subdivision sh api geom month depth cell_id w
         = (Inr (JArr []),
            emit (MaxDepthWarning month (if cell_id \<noteq> [] then cell_id else ''full''))
              (emit (Get ps month (Response 503 body)) w)))
   \<and> (fetch_with_subdivision sh api geom month depth cell_id w = (r, w')
     \<longrightarrow> run_within w w' (total_bound (MAX_GRID_DEPTH - depth)) (4 ^ (MAX_GRID_DEPTH - depth)))
   \<and> (fetch_borough_month sh api geom month w = (r, w')
     \<longrightarrow> run_within w w' 21 (4 ^ MAX_GRID_DEPTH))
   \<and> (4 :: nat) ^ MAX_GRID_DEPTH = 16"
proof (intro conjI impI)
  assume "MAX_GRID_DEPTH \<le> depth"
  then show "fetch_with_subdivision sh api geom month depth cell_id w
         = (case encode_geom sh geom of
              Inl e \<Rightarrow> (Inl e, w)
            | Inr ps \<Rightarrow>
                (case fetch_single_poly api ps month (cell_path cell_id month) w of
                   (Inl e, w1) \<Rightarrow> (Inl e, w1)
                 | (Inr result, w1) \<Rightarrow>
                     if result \<noteq> JNull then (Inr result, w1)
                     else (Inr (JArr []),
                           emit (MaxDepthWarning month (if cell_id \<noteq> [] then cell_id else ''full'')) w1)))"
    by (rule fetch_at_limit)
next
  assume a: "MAX_GRID_DEPTH \<le> depth \<and> encode_geom sh geom = Inr ps
        \<and> cache w (cell_path cell_id month) = None \<and> api (trace w) ps month = Response 503 body"
  then have deep: "MAX_GRID_DEPTH \<le> depth" and enc: "encode_geom sh geom = Inr ps"
    and miss: "cache w (cell_path cell_id month) = None"
    and cap: "api (trace w) ps month = Response 503 body" by blast+
  show "fetch_with_subdivision sh api geom month depth cell_id w
         = (Inr (JArr []),
            emit (MaxDepthWarning month (if cell_id \<noteq> [] then cell_id else ''full''))
              (emit (Get ps month (Response 503 body)) w))"
    by (rule fetch_max_depth [OF enc fetch_single_poly_503 [where api = api, OF miss cap] deep])
next
  assume "fetch_with_subdivision sh api geom month depth cell_id w = (r, w')"
  then show "run_within w w' (total_bound (MAX_GRID_DEPTH - depth)) (4 ^ (MAX_GRID_DEPTH - depth))"
    by (rule fetch_within)
next
  assume "fetch_borough_month sh api geom month w = (r, w')"
  then have "fetch_with_subdivision sh api geom month 0 [] w = (r, w')"
    by (simp add: fetch_borough_month_def)
  from fetch_within [OF this] show "run_within w w' 21 (4 ^ MAX_GRID_DEPTH)"
    by (simp add: MAX_GRID_DEPTH_def eval_nat_numeral)
next
  show "(4 :: nat) ^ MAX_GRID_DEPTH = 16" by (simp add: MAX_GRID_DEPTH_def)
qed

theorem subdivision_depth_is_bounded_witness:
  "run_within empty_world scenario_world 21 (4 ^ MAX_GRID_DEPTH)
   \<and> length (filter is_get (trace scenario_world)) = 5
   \<and> length (filter is_leaf (trace scenario_world)) = 4
   \<and> fetch_with_subdivision rect_shapely (\<lambda>tr p m. Response 503 None) (0, 1, 1, 2) ''2025-01'' 2
       ''NW_NW'' empty_world
     = (Inr (JArr []),
        emit (MaxDepthWarning ''2025-01'' ''NW_NW'')
          (emit (Get ''1.000000,1.000000:2.000000,1.000000:2.000000,0.000000:1.000000,0.000000''
                   ''2025-01'' (Response 503 None)) empty_world))"
proof -
  let ?p1 = "''1.000000,1.000000:2.000000,1.000000:2.000000,0.000000:1.000000,0.000000''"
  let ?busy = "\<lambda>(tr :: event list) (p :: string) (m :: string). Response 503 None"
  let ?ten = "JArr [crime_rec 1, crime_rec 2, crime_rec 3, crime_rec 4, crime_rec 5, crime_rec 6,
                   crime_rec 7, crime_rec 8, crime_rec 9, crime_rec 10]"
  have run: "fetch_borough_month rect_shapely scenario_api (0, 0, 2, 2) ''2025-01'' empty_world
      = (Inr ?ten, scenario_world)"
    by (simp add: fetch_borough_month_def scenario_run)
  have a: "run_within empty_world scenario_world 21 (4 ^ MAX_GRID_DEPTH)"
    by (rule subdivision_depth_is_bounded [where sh = rect_shapely and api = scenario_api
          and geom = "(0, 0, 2, 2)" and month = "''2025-01''" and w = empty_world and r = "Inr ?ten"
          and w' = scenario_world, THEN conjunct2, THEN conjunct2, THEN conjunct2, THEN conjunct1,
          THEN mp, OF run])
  have h: "MAX_GRID_DEPTH \<le> 2 \<and> encode_geom rect_shapely (0, 1, 1, 2) = Inr ?p1
        \<and> cache empty_world (cell_path ''NW_NW'' ''2025-01'') = None
        \<and> ?busy (trace empty_world) ?p1 ''2025-01'' = Response 503 None"
    by (simp add: MAX_GRID_DEPTH_def encode_rect_0112 empty_world_def)
  from subdivision_depth_is_bounded [where sh = rect_shapely and api = ?busy
          and geom = "(0, 1, 1, 2)" and month = "''2025-01''" and w = empty_world and depth = 2
          and cell_id = "''NW_NW''" and ps = ?p1 and body = None,
          THEN conjunct2, THEN conjunct1, THEN mp, OF h]
  have b: "fetch_with_subdivision rect_shapely ?busy (0, 1, 1, 2) ''2025-01'' 2 ''NW_NW'' empty_world
     = (Inr (JArr []),
        emit (MaxDepthWarning ''2025-01'' ''NW_NW'') (emit (Get ?p1 ''2025-01'' (Response 503 None)) empty_world))"
    by simp
  have c: "length (filter is_get (trace scenario_world)) = 5"
    "length (filter is_leaf (trace scenario_world)) = 4"
    by (simp_all add: scenario_world_def)
  from a b c show ?thesis by blast
qed

subsection \<open>What is written to the cache\<close>

lemma keeps_entries_refl: "keeps_entries w w"
  by (simp add: keeps_entries_def)

lemma keeps_entries_trans: "keeps_entries a b \<Longrightarrow> keeps_entries b c \<Longrightarrow> keeps_entries a c"
  by (simp add: keeps_entries_def)

lemma keeps_entries_emit: "keeps_entries w (emit e w)"
  by (simp add: keeps_entries_def)

lemma fetch_single_poly_keeps:
  "fetch_single_poly api ps m p w = (x, w1) \<Longrightarrow> keeps_entries w w1"
  by (auto simp: fetch_single_poly_def keeps_entries_def Let_def
      split: option.splits response.splits if_splits sum.splits)

lemma fetch_single_poly_null:
  "fetch_single_poly api ps m p w = (Inr JNull, w1) \<Longrightarrow> cache w p = None \<or> cache w p = Some JNull"
  by (cases "cache w p") (auto simp: fetch_single_poly_def)

lemma subdivide_loop_keeps:
  assumes child: "\<forall>g c w r w'. fetch_with_subdivision sh api g month (Suc depth) c w = (r, w')
      \<longrightarrow> keeps_entries w w'"
  shows "subdivide_loop sh api geom month depth cell_id quads acc seen w = (y, w')
      \<Longrightarrow> keeps_entries w w'"
proof (induction quads arbitrary: acc seen w)
  case Nil
  then show ?case by (simp add: keeps_entries_refl)
next
  case (Cons q quads)
  obtain quad suffix where q: "q = (quad, suffix)" by (cases q)
  let ?piece = "geom_intersection sh geom quad"
  show ?case
  proof (cases "geom_is_empty sh ?piece")
    case True
    with Cons.prems q have "subdivide_loop sh api geom month depth cell_id quads acc seen w = (y, w')"
      by (simp add: subdivide_loop_skip)
    then show ?thesis by (rule Cons.IH)
  next
    case False
    obtain r w1 where run: "fetch_with_subdivision sh api ?piece month (Suc depth)
        (if cell_id \<noteq> [] then cell_id @ ''_'' @ suffix else suffix) w = (r, w1)"
      by (cases "fetch_with_subdivision sh api ?piece month (Suc depth)
        (if cell_id \<noteq> [] then cell_id @ ''_'' @ suffix else suffix) w")
    from child run have first: "keeps_entries w w1" by blast
    show ?thesis
    proof (cases r)
      case (Inl e)
      with False q run Cons.prems have "w' = w1" by (simp add: subdivide_loop_child)
      with first show ?thesis by simp
    next
      case (Inr crimes)
      show ?thesis
      proof (cases "py_iter crimes")
        case (Inl e)
        with Inr False q run Cons.prems have "w' = w1" by (simp add: subdivide_loop_child)
        with first show ?thesis by simp
      next
        case iter: (Inr cs)
        show ?thesis
        proof (cases "merge_crimes cs acc seen")
          case (Inl e)
          with iter Inr False q run Cons.prems have "w' = w1" by (simp add: subdivide_loop_child)
          with first show ?thesis by simp
        next
          case m: (Inr p)
          obtain acc' seen' where p: "p = (acc', seen')" by (cases p)
          from m p iter Inr False q run Cons.prems
          have "subdivide_loop sh api geom month depth cell_id quads acc' seen' w1 = (y, w')"
            by (simp add: subdivide_loop_child)
          from keeps_entries_trans [OF first Cons.IH [OF this]] show ?thesis .
        qed
      qed
    qed
  qed
qed

lemma fetch_keeps:
  "fetch_with_subdivision sh api geom month depth cell_id w = (r, w') \<Longrightarrow> keeps_entries w w'"
proof (induction depth arbitrary: geom cell_id w r w' rule: depth_induct)
  case (limit d)
  show ?case
  proof (cases "encode_geom sh geom")
    case (Inl e)
    with limit show ?thesis by (simp add: fetch_encode_error keeps_entries_refl)
  next
    case (Inr ps)
    obtain x w1 where s: "fetch_single_poly api ps month (cell_path cell_id month) w = (x, w1)"
      by (cases "fetch_single_poly api ps month (cell_path cell_id month) w")
    note k = fetch_single_poly_keeps [OF s]
    show ?thesis
    proof (cases "x = Inr JNull")
      case True
      with fetch_max_depth [OF Inr _ limit(1)] s limit(2)
      have "w' = emit (MaxDepthWarning month (if cell_id \<noteq> [] then cell_id else ''full'')) w1"
        by simp
      with keeps_entries_trans [OF k keeps_entries_emit] show ?thesis by simp
    next
      case False
      with s Inr limit(2) have "w' = w1"
        by (cases x) (auto simp: fetch_raises fetch_not_null)
      with k show ?thesis by simp
    qed
  qed
next
  case (below d)
  from below(2) have child: "\<forall>g c w r w'. fetch_with_subdivision sh api g month (Suc d) c w = (r, w')
      \<longrightarrow> keeps_entries w w'" by blast
  show ?case
  proof (cases "encode_geom sh geom")
    case (Inl e)
    with below(3) show ?thesis by (simp add: fetch_encode_error keeps_entries_refl)
  next
    case enc: (Inr ps)
    obtain x w1 where s: "fetch_single_poly api ps month (cell_path cell_id month) w = (x, w1)"
      by (cases "fetch_single_poly api ps month (cell_path cell_id month) w")
    note k = fetch_single_poly_keeps [OF s]
    show ?thesis
    proof (cases "x = Inr JNull")
      case False
      with s enc below(3) have "w' = w1"
        by (cases x) (auto simp: fetch_raises fetch_not_null)
      with k show ?thesis by simp
    next
      case True
      with s have s': "fetch_single_poly api ps month (cell_path cell_id month) w = (Inr JNull, w1)"
        by simp
      obtain minx miny maxx maxy where b: "geom_bounds sh geom = (minx, miny, maxx, maxy)"
        by (cases "geom_bounds sh geom")
      let ?quads = "[(geom_box sh minx ((miny + maxy) / 2) ((minx + maxx) / 2) maxy, ''NW''),
                   (geom_box sh ((minx + maxx) / 2) ((miny + maxy) / 2) maxx maxy, ''NE''),
                   (geom_box sh minx miny ((minx + maxx) / 2) ((miny + maxy) / 2), ''SW''),
                   (geom_box sh ((minx + maxx) / 2) miny maxx ((miny + maxy) / 2), ''SE'')]"
      obtain y w2 where l: "subdivide_loop sh api geom month d cell_id ?quads [] {} w1 = (y, w2)"
        by (cases "subdivide_loop sh api geom month d cell_id ?quads [] {} w1")
      from keeps_entries_trans [OF k subdivide_loop_keeps [OF child l]]
      have upto: "keeps_entries w w2" .
      show ?thesis
      proof (cases y)
        case (Inl e)
        with fetch_subdivide [OF enc s' below(1) b] l below(3) have "w' = w2" by simp
        with upto show ?thesis by simp
      next
        case (Inr merged)
        with fetch_subdivide [OF enc s' below(1) b] l below(3)
        have w': "w' = write_cache (cell_path cell_id month) (JArr merged) w2" by simp
        from fetch_single_poly_null [OF s'] upto show ?thesis
          unfolding w' keeps_entries_def by auto
      qed
    qed
  qed
qed

text \<open>
  C5, as the code has it. The service rejects the whole region as too large and is
  unreachable for each of its four quadrants. No request of the fetch has succeeded, and
  yet it leaves a cache entry for the region: the empty merge of its children.
\<close>

theorem merge_is_cached_without_any_success:
  "fetch_with_subdivision rect_shapely overload_api (0, 0, 2, 2) ''2025-01'' 0 [] empty_world
     = (Inr (JArr []),
        \<lparr>cache = [''full_2025-01.json'' \<mapsto> JArr []],
         trace =
           [Get ''0.000000,2.000000:2.000000,2.000000:2.000000,0.000000:0.000000,0.000000'' ''2025-01''
              (Response 503 None),
            Get ''1.000000,1.000000:2.000000,1.000000:2.000000,0.000000:1.000000,0.000000'' ''2025-01''
              RequestException,
            Get ''1.000000,2.000000:2.000000,2.000000:2.000000,1.000000:1.000000,1.000000'' ''2025-01''
              RequestException,
            Get ''0.000000,1.000000:1.000000,1.000000:1.000000,0.000000:0.000000,0.000000'' ''2025-01''
              RequestException,
            Get ''0.000000,2.000000:1.000000,2.000000:1.000000,1.000000:0.000000,1.000000'' ''2025-01''
              RequestException,
            Write ''full_2025-01.json'' (JArr [])]\<rparr>)"
proof -
  let ?m = "''2025-01''"
  let ?p0 = "''0.000000,2.000000:2.000000,2.000000:2.000000,0.000000:0.000000,0.000000''"
  let ?p1 = "''1.000000,1.000000:2.000000,1.000000:2.000000,0.000000:1.000000,0.000000''"
  let ?p2 = "''1.000000,2.000000:2.000000,2.000000:2.000000,1.000000:1.000000,1.000000''"
  let ?p3 = "''0.000000,1.000000:1.000000,1.000000:1.000000,0.000000:0.000000,0.000000''"
  let ?p4 = "''0.000000,2.000000:1.000000,2.000000:1.000000,1.000000:0.000000,1.000000''"
  let ?w1 = "emit (Get ?p0 ?m (Response 503 None)) empty_world"
  let ?w2 = "emit (Get ?p1 ?m RequestException) ?w1"
  let ?w3 = "emit (Get ?p2 ?m RequestException) ?w2"
  let ?w4 = "emit (Get ?p3 ?m RequestException) ?w3"
  let ?w5 = "emit (Get ?p4 ?m RequestException) ?w4"
  have fail: "fetch_with_subdivision rect_shapely overload_api g ?m d c w
      = (Inr (JArr []), emit (Get p ?m RequestException) w)"
    if "encode_geom rect_shapely g = Inr p" "cache w (cell_path c ?m) = None"
      "overload_api (trace w) p ?m = RequestException" for g d c w p
  proof -
    from that(3) have "other_failure (overload_api (trace w) p ?m)"
      by (simp add: other_failure_def)
    from fetch_single_poly_failure [where api = overload_api and ps = p and m = ?m, OF that(2) this] that(3)
    have "fetch_single_poly overload_api p ?m (cell_path c ?m) w
        = (Inr (JArr []), emit (Get p ?m RequestException) w)" by simp
    from fetch_not_null [OF that(1) this] show ?thesis by simp
  qed
  have c1: "fetch_with_subdivision rect_shapely overload_api (0, 1, 1, 2) ?m d ''NW'' ?w1
      = (Inr (JArr []), ?w2)" for d
    by (rule fail) (simp_all add: encode_rect_0112 empty_world_def overload_api_def)
  have c2: "fetch_with_subdivision rect_shapely overload_api (1, 1, 2, 2) ?m d ''NE'' ?w2
      = (Inr (JArr []), ?w3)" for d
    by (rule fail) (simp_all add: encode_rect_1122 empty_world_def overload_api_def)
  have c3: "fetch_with_subdivision rect_shapely overload_api (0, 0, 1, 1) ?m d ''SW'' ?w3
      = (Inr (JArr []), ?w4)" for d
    by (rule fail) (simp_all add: encode_rect_0011 empty_world_def overload_api_def)
  have c4: "fetch_with_subdivision rect_shapely overload_api (1, 0, 2, 1) ?m d ''SE'' ?w4
      = (Inr (JArr []), ?w5)" for d
    by (rule fail) (simp_all add: encode_rect_1021 empty_world_def overload_api_def)
  have children: "spec_merge_children rect_shapely overload_api ?m 0 []
      [((0, 1, 1, 2), ''NW''), ((1, 1, 2, 2), ''NE''), ((0, 0, 1, 1), ''SW''), ((1, 0, 2, 1), ''SE'')]
      [] ?w1 = (Inr [], ?w5)"
    by (simp add: child_id_def c1 c2 c3 c4)
  have s: "fetch_single_poly overload_api ?p0 ?m (cell_path [] ?m) empty_world = (Inr JNull, ?w1)"
    by (rule fetch_single_poly_503) (simp_all add: empty_world_def overload_api_def)
  have b: "geom_bounds rect_shapely (0, 0, 2, 2) = (0, 0, 2, 2)"
    by (simp add: rect_shapely_def)
  have d: "0 < MAX_GRID_DEPTH" by (simp add: MAX_GRID_DEPTH_def)
  have q: "[(geom_box rect_shapely 0 ((0 + 2) / 2) ((0 + 2) / 2) 2, ''NW''),
            (geom_box rect_shapely ((0 + 2) / 2) ((0 + 2) / 2) 2 2, ''NE''),
            (geom_box rect_shapely 0 0 ((0 + 2) / 2) ((0 + 2) / 2), ''SW''),
            (geom_box rect_shapely ((0 + 2) / 2) 0 2 ((0 + 2) / 2), ''SE'')]
      = quadrant_boxes rect_shapely (0, 0, 2, 2)"
    by (simp add: quadrant_boxes_def b)
  have loop: "subdivide_loop rect_shapely overload_api (0, 0, 2, 2) ?m 0 []
        (quadrant_boxes rect_shapely (0, 0, 2, 2)) [] {} ?w1
      = spec_merge_children rect_shapely overload_api ?m 0 []
          (surviving_pieces rect_shapely (0, 0, 2, 2)) [] ?w1"
    by (simp only: surviving_pieces_def subdivide_loop_refines [OF merge_inv_empty])
  have fin: "write_cache ''full_2025-01.json'' (JArr []) ?w5
      = \<lparr>cache = [''full_2025-01.json'' \<mapsto> JArr []],
         trace = [Get ?p0 ?m (Response 503 None), Get ?p1 ?m RequestException,
            Get ?p2 ?m RequestException, Get ?p3 ?m RequestException, Get ?p4 ?m RequestException,
            Write ''full_2025-01.json'' (JArr [])]\<rparr>"
    by (simp add: write_cache_def emit_def empty_world_def)
  have "fetch_with_subdivision rect_shapely overload_api (0, 0, 2, 2) ?m 0 [] empty_world
      = (Inr (JArr []), write_cache ''full_2025-01.json'' (JArr []) ?w5)"
    using fetch_subdivide [OF encode_rect_0022 s d b]
    by (simp only: q loop scenario_pieces children prod.case sum.case cell_path_root)
  with fin show ?thesis by simp
qed

text \<open>
  C5 (amended). A fetch changes no cache entry that held a document other than \<^verbatim>\<open>null\<close>
  when it began, whatever the service answers and however the fetch ends. A cell whose
  own request ends in a network error or in a status other than 200 and 503 gets no
  entry, nor does a cell given up at the depth limit. An entry is written for a cell
  whose request is answered with status 200 (the payload), and for a cell answered 503
  below the depth limit once its children have returned (their merged result), whether
  or not any of the children's requests succeeded.
\<close>

theorem cache_entries_are_kept:
  "(fetch_with_subdivision sh api geom month depth cell_id w = (r, w')
      \<and> cache w k = Some v \<and> v \<noteq> JNull
     \<longrightarrow> cache w' k = Some v)
   \<and> (encode_geom sh geom = Inr ps \<and> cache w (cell_path cell_id month) = None
        \<and> other_failure (api (trace w) ps month)
     \<longrightarrow> (\<exists>w1. fetch_with_subdivision sh api geom month depth cell_id w = (Inr (JArr []), w1)
            \<and> cache w1 = cache w))
   \<and> (encode_geom sh geom = Inr ps \<and> cache w (cell_path cell_id month) = None
        \<and> api (trace w) ps month = Response 503 body \<and> MAX_GRID_DEPTH \<le> depth
     \<longrightarrow> (\<exists>w1. fetch_with_subdivision sh api geom month depth cell_id w = (Inr (JArr []), w1)
            \<and> cache w1 = cache w))
   \<and> (encode_geom sh geom = Inr ps \<and> cache w (cell_path cell_id month) = None
        \<and> api (trace w) ps month = Response 200 (Some v) \<and> py_len v = Inr n
     \<longrightarrow> (\<exists>w1. fetch_with_subdivision sh api geom month depth cell_id w = (Inr v, w1)
            \<and> cache w1 = (cache w)(cell_path cell_id month \<mapsto> v)))
   \<and> (encode_geom sh geom = Inr ps \<and> cache w (cell_path cell_id month) = None
        \<and> api (trace w) ps month = Response 503 body \<and> depth < MAX_GRID_DEPTH
        \<and> fetch_with_subdivision sh api geom month depth cell_id w = (Inr r', w')
     \<longrightarrow> cache w' (cell_path cell_id month) = Some r')"
proof (intro conjI impI)
  assume "fetch_with_subdivision sh api geom month depth cell_id w = (r, w')
      \<and> cache w k = Some v \<and> v \<noteq> JNull"
  then have run: "fetch_with_subdivision sh api geom month depth cell_id w = (r, w')"
    and e: "cache w k = Some v" "v \<noteq> JNull" by blast+
  from fetch_keeps [OF run] e show "cache w' k = Some v" by (simp add: keeps_entries_def)
next
  assume "encode_geom sh geom = Inr ps \<and> cache w (cell_path cell_id month) = None
        \<and> other_failure (api (trace w) ps month)"
  then have enc: "encode_geom sh geom = Inr ps" and miss: "cache w (cell_path cell_id month) = None"
    and f: "other_failure (api (trace w) ps month)" by blast+
  from fetch_not_null [OF enc fetch_single_poly_failure
      [where api = api and ps = ps and m = month, OF miss f]]
  show "\<exists>w1. fetch_with_subdivision sh api geom month depth cell_id w = (Inr (JArr []), w1)
            \<and> cache w1 = cache w" by simp
next
  assume "encode_geom sh geom = Inr ps \<and> cache w (cell_path cell_id month) = None
        \<and> api (trace w) ps month = Response 503 body \<and> MAX_GRID_DEPTH \<le> depth"
  then have enc: "encode_geom sh geom = Inr ps" and miss: "cache w (cell_path cell_id month) = None"
    and cap: "api (trace w) ps month = Response 503 body" and deep: "MAX_GRID_DEPTH \<le> depth"
    by blast+
  from fetch_max_depth [OF enc fetch_single_poly_503 [where api = api, OF miss cap] deep]
  show "\<exists>w1. fetch_with_subdivision sh api geom month depth cell_id w = (Inr (JArr []), w1)
            \<and> cache w1 = cache w" by simp
next
  assume "encode_geom sh geom = Inr ps \<and> cache w (cell_path cell_id month) = None
        \<and> api (trace w) ps month = Response 200 (Some v) \<and> py_len v = Inr n"
  then have enc: "encode_geom sh geom = Inr ps" and miss: "cache w (cell_path cell_id month) = None"
    and ok: "api (trace w) ps month = Response 200 (Some v)" and len: "py_len v = Inr n"
    by blast+
  from fetch_direct_200 [where api = api, OF enc miss ok len]
  show "\<exists>w1. fetch_with_subdivision sh api geom month depth cell_id w = (Inr v, w1)
            \<and> cache w1 = (cache w)(cell_path cell_id month \<mapsto> v)" by simp
next
  assume "encode_geom sh geom = Inr ps \<and> cache w (cell_path cell_id month) = None
        \<and> api (trace w) ps month = Response 503 body \<and> depth < MAX_GRID_DEPTH
        \<and> fetch_with_subdivision sh api geom month depth cell_id w = (Inr r', w')"
  then have enc: "encode_geom sh geom = Inr ps" and miss: "cache w (cell_path cell_id month) = None"
    and cap: "api (trace w) ps month = Response 503 body" and d: "depth < MAX_GRID_DEPTH"
    and run: "fetch_with_subdivision sh api geom month depth cell_id w = (Inr r', w')"
    by blast+
  obtain minx miny maxx maxy where b: "geom_bounds sh geom = (minx, miny, maxx, maxy)"
    by (cases "geom_bounds sh geom")
  let ?quads = "[(geom_box sh minx ((miny + maxy) / 2) ((minx + maxx) / 2) maxy, ''NW''),
                   (geom_box sh ((minx + maxx) / 2) ((miny + maxy) / 2) maxx maxy, ''NE''),
                   (geom_box sh minx miny ((minx + maxx) / 2) ((miny + maxy) / 2), ''SW''),
                   (geom_box sh ((minx + maxx) / 2) miny maxx ((miny + maxy) / 2), ''SE'')]"
  let ?w1 = "emit (Get ps month (Response 503 body)) w"
  obtain y w2 where l: "subdivide_loop sh api geom month depth cell_id ?quads [] {} ?w1 = (y, w2)"
    by (cases "subdivide_loop sh api geom month depth cell_id ?quads [] {} ?w1")
  from fetch_subdivide [OF enc fetch_single_poly_503 [where api = api, OF miss cap] d b] l run
  show "cache w' (cell_path cell_id month) = Some r'"
    by (cases y) auto
qed

theorem cache_entries_are_kept_witness:
  "fetch_with_subdivision rect_shapely (\<lambda>tr p m. Response 200 (Some (JArr [crime_rec 1]))) (0, 0, 2, 2)
       ''2025-01'' 0 [] \<lparr>cache = [''NW_2025-01.json'' \<mapsto> JArr [crime_rec 7]], trace = []\<rparr>
     = (Inr (JArr [crime_rec 1]),
        \<lparr>cache = [''NW_2025-01.json'' \<mapsto> JArr [crime_rec 7],
                  ''full_2025-01.json'' \<mapsto> JArr [crime_rec 1]],
         trace = [Get ''0.000000,2.000000:2.000000,2.000000:2.000000,0.000000:0.000000,0.000000''
                    ''2025-01'' (Response 200 (Some (JArr [crime_rec 1]))),
                  Write ''full_2025-01.json'' (JArr [crime_rec 1])]\<rparr>)
   \<and> cache \<lparr>cache = [''NW_2025-01.json'' \<mapsto> JArr [crime_rec 7],
                       ''full_2025-01.json'' \<mapsto> JArr [crime_rec 1]],
              trace = [Get ''0.000000,2.000000:2.000000,2.000000:2.000000,0.000000:0.000000,0.000000''
                         ''2025-01'' (Response 200 (Some (JArr [crime_rec 1]))),
                       Write ''full_2025-01.json'' (JArr [crime_rec 1])]\<rparr>
        ''NW_2025-01.json'' = Some (JArr [crime_rec 7])
   \<and> cache scenario_world ''full_2025-01.json''
       = Some (JArr [crime_rec 1, crime_rec 2, crime_rec 3, crime_rec 4, crime_rec 5, crime_rec 6,
                     crime_rec 7, crime_rec 8, crime_rec 9, crime_rec 10])"
proof -
  let ?p0 = "''0.000000,2.000000:2.000000,2.000000:2.000000,0.000000:0.000000,0.000000''"
  let ?up = "\<lambda>(tr :: event list) (p :: string) (m :: string). Response 200 (Some (JArr [crime_rec 1]))"
  let ?w0 = "\<lparr>cache = [''NW_2025-01.json'' \<mapsto> JArr [crime_rec 7]], trace = []\<rparr>"
  let ?w1 = "\<lparr>cache = [''NW_2025-01.json'' \<mapsto> JArr [crime_rec 7],
                  ''full_2025-01.json'' \<mapsto> JArr [crime_rec 1]],
         trace = [Get ?p0 ''2025-01'' (Response 200 (Some (JArr [crime_rec 1]))),
                  Write ''full_2025-01.json'' (JArr [crime_rec 1])]\<rparr>"
  let ?ten = "JArr [crime_rec 1, crime_rec 2, crime_rec 3, crime_rec 4, crime_rec 5, crime_rec 6,
                   crime_rec 7, crime_rec 8, crime_rec 9, crime_rec 10]"
  note main = cache_entries_are_kept
  have run: "fetch_with_subdivision rect_shapely ?up (0, 0, 2, 2) ''2025-01'' 0 [] ?w0
      = (Inr (JArr [crime_rec 1]), ?w1)"
    using fetch_direct_200 [where sh = rect_shapely and api = ?up and geom = "(0, 0, 2, 2)"
        and ps = ?p0 and w = ?w0 and cell_id = "[]" and month = "''2025-01''"
        and v = "JArr [crime_rec 1]" and n = 1 and depth = 0]
    by (simp add: encode_rect_0022 cell_path_def write_cache_def emit_def)
  have h1: "fetch_with_subdivision rect_shapely ?up (0, 0, 2, 2) ''2025-01'' 0 [] ?w0
      = (Inr (JArr [crime_rec 1]), ?w1)
      \<and> cache ?w0 ''NW_2025-01.json'' = Some (JArr [crime_rec 7]) \<and> JArr [crime_rec 7] \<noteq> JNull"
    using run by simp
  have a: "cache ?w1 ''NW_2025-01.json'' = Some (JArr [crime_rec 7])"
    by (rule main [where sh = rect_shapely and api = ?up and geom = "(0, 0, 2, 2)"
          and month = "''2025-01''" and depth = 0 and cell_id = "[]" and w = ?w0
          and r = "Inr (JArr [crime_rec 1])" and w' = ?w1 and k = "''NW_2025-01.json''"
          and v = "JArr [crime_rec 7]", THEN conjunct1, THEN mp, OF h1])
  have "encode_geom rect_shapely (0, 0, 2, 2) = Inr ?p0
      \<and> cache empty_world (cell_path [] ''2025-01'') = None
      \<and> scenario_api (trace empty_world) ?p0 ''2025-01'' = Response 503 None
      \<and> 0 < MAX_GRID_DEPTH"
    by (simp add: encode_rect_0022 empty_world_def scenario_api_def MAX_GRID_DEPTH_def)
  with scenario_run
  have h5: "encode_geom rect_shapely (0, 0, 2, 2) = Inr ?p0
      \<and> cache empty_world (cell_path [] ''2025-01'') = None
      \<and> scenario_api (trace empty_world) ?p0 ''2025-01'' = Response 503 None
      \<and> 0 < MAX_GRID_DEPTH
      \<and> fetch_with_subdivision rect_shapely scenario_api (0, 0, 2, 2) ''2025-01'' 0 [] empty_world
          = (Inr ?ten, scenario_world)"
    by blast
  have b: "cache scenario_world (cell_path [] ''2025-01'') = Some ?ten"
    by (rule main [where sh = rect_shapely and api = scenario_api and geom = "(0, 0, 2, 2)"
          and month = "''2025-01''" and depth = 0 and cell_id = "[]" and w = empty_world
          and ps = ?p0 and body = None and r' = ?ten and w' = scenario_world,
          THEN conjunct2, THEN conjunct2, THEN conjunct2, THEN conjunct2, THEN mp, OF h5])
  from run a b show ?thesis by (simp add: cell_path_root)
qed

subsection \<open>A piece that is not a polygon\<close>

lemma spec_merge_children_append:
  "spec_merge_children sh api month depth cell_id (xs @ ys) merged w
     = (case spec_merge_children sh api month depth cell_id xs merged w of
          (Inl e, w1) \<Rightarrow> (Inl e, w1)
        | (Inr merged', w1) \<Rightarrow> spec_merge_children sh api month depth cell_id ys merged' w1)"
proof (induction xs arbitrary: merged w)
  case Nil
  show ?case by simp
next
  case (Cons x xs)
  obtain piece suffix where x: "x = (piece, suffix)" by (cases x)
  show ?case
    unfolding x
    by (simp add: Cons.IH split: prod.splits sum.splits option.splits)
qed

lemma encode_no_exterior:
  "geom_exterior sh piece = None \<Longrightarrow> encode_geom sh piece = Inl AttributeError"
  by (simp add: encode_geom_def simplify_to_n_points_def)

text \<open>
  C1. The loop over the quadrants passes over a clipped piece only when it is empty. A
  region can meet a quadrant of its bounding box in a point or in a line: such a piece
  is not empty and is no polygon, and \<^verbatim>\<open>_simplify_to_n_points\<close> raises
  \<^verbatim>\<open>AttributeError\<close> on it, since it has no \<^verbatim>\<open>exterior\<close>. So for a region that is not
  cached and is answered with status 503 below the depth limit: when the pieces before
  such a piece have been fetched and merged, the fetch of the region raises at this
  piece, before any request for it; the pieces after it are never fetched, what was
  merged is dropped, and no file is written for the region.
\<close>

theorem degenerate_piece_aborts_subdivision:
  "encode_geom sh geom = Inr ps \<and> cache w (cell_path cell_id month) = None
     \<and> api (trace w) ps month = Response 503 body \<and> depth < MAX_GRID_DEPTH
     \<and> surviving_pieces sh geom = before @ (piece, suffix) # rest
     \<and> spec_merge_children sh api month depth cell_id before []
          (emit (Get ps month (Response 503 body)) w) = (Inr merged, w2)
     \<and> geom_exterior sh piece = None
   \<longrightarrow> fetch_with_subdivision sh api geom month depth cell_id w = (Inl AttributeError, w2)"
proof
  let ?w1 = "emit (Get ps month (Response 503 body)) w"
  assume a: "encode_geom sh geom = Inr ps \<and> cache w (cell_path cell_id month) = None
     \<and> api (trace w) ps month = Response 503 body \<and> depth < MAX_GRID_DEPTH
     \<and> surviving_pieces sh geom = before @ (piece, suffix) # rest
     \<and> spec_merge_children sh api month depth cell_id before [] ?w1 = (Inr merged, w2)
     \<and> geom_exterior sh piece = None"
  then have h: "encode_geom sh geom = Inr ps \<and> cache w (cell_path cell_id month) = None
      \<and> api (trace w) ps month = Response 503 body \<and> depth < MAX_GRID_DEPTH"
    and sp: "surviving_pieces sh geom = before @ (piece, suffix) # rest"
    and bef: "spec_merge_children sh api month depth cell_id before [] ?w1 = (Inr merged, w2)"
    and ext: "geom_exterior sh piece = None" by blast+
  have child: "fetch_with_subdivision sh api piece month (depth + 1) (child_id cell_id suffix) w2
      = (Inl AttributeError, w2)"
    by (rule fetch_encode_error [OF encode_no_exterior [OF ext]])
  have "spec_merge_children sh api month depth cell_id (surviving_pieces sh geom) [] ?w1
      = spec_merge_children sh api month depth cell_id ((piece, suffix) # rest) merged w2"
    by (simp only: sp spec_merge_children_append bef prod.case sum.case)
  also have "\<dots> = (Inl AttributeError, w2)"
    using child by simp
  finally have loop: "spec_merge_children sh api month depth cell_id (surviving_pieces sh geom) [] ?w1
      = (Inl AttributeError, w2)" .
  from capacity_exceeded_subdivides [where sh = sh and geom = geom and ps = ps and w = w
      and cell_id = cell_id and month = month and api = api and body = body and depth = depth,
      THEN conjunct1, THEN mp, OF h]
  show "fetch_with_subdivision sh api geom month depth cell_id w = (Inl AttributeError, w2)"
    by (simp only: loop prod.case sum.case)
qed

text \<open>
  The triangular region is too large for the service. The north-west quadrant of its
  bounding box meets it in the point \<open>(1, 1)\<close>, and the fetch of the region raises there:
  no quadrant is asked for and nothing is cached, although three of the four pieces are
  polygons.
\<close>

theorem degenerate_piece_aborts_subdivision_witness:
  "fetch_borough_month convex_shapely (\<lambda>tr p m. Response 503 None) triangle ''2025-01'' empty_world
     = (Inl AttributeError,
        \<lparr>cache = Map.empty,
         trace = [Get ''0.000000,0.000000:0.000000,2.000000:2.000000,2.000000'' ''2025-01''
                    (Response 503 None)]\<rparr>)
   \<and> hd (surviving_pieces convex_shapely triangle) = ([(1, 1)], ''NW'')
   \<and> map snd (surviving_pieces convex_shapely triangle) = [''NW'', ''NE'', ''SW'', ''SE'']
   \<and> \<not> geom_is_empty convex_shapely [(1, 1)]
   \<and> geom_exterior convex_shapely [(1, 1)] = None"
proof -
  let ?ps = "''0.000000,0.000000:0.000000,2.000000:2.000000,2.000000''"
  let ?m = "''2025-01''"
  let ?api = "\<lambda>(tr :: event list) (p :: string) (m :: string). Response 503 None"
  let ?rest = "[([(1, 1), (2, 1), (2, 2)], ''NE''), ([(1, 1), (0, 0), (1, 0)], ''SW''),
                ([(1, 1), (1, 0), (2, 0), (2, 1)], ''SE'')] :: (convex \<times> string) list"
  have enc: "encode_geom convex_shapely triangle = Inr ?ps"
    by (simp add: encode_geom_def simplify_to_n_points_def convex_shapely_def triangle_def
        MAX_POLY_POINTS_def coords_to_api_string_def fmt6_eval)
  have b: "geom_bounds convex_shapely triangle = (0, 0, 2, 2)"
    by (simp add: convex_shapely_def bounds_of_def triangle_def)
  have q: "quadrant_boxes convex_shapely triangle
      = [([(1, 1), (1, 2), (0, 2), (0, 1)], ''NW''), ([(2, 1), (2, 2), (1, 2), (1, 1)], ''NE''),
         ([(1, 0), (1, 1), (0, 1), (0, 0)], ''SW''), ([(2, 0), (2, 1), (1, 1), (1, 0)], ''SE'')]"
    by (simp add: quadrant_boxes_def b) (simp add: convex_shapely_def)
  have i1: "geom_intersection convex_shapely triangle [(1, 1), (1, 2), (0, 2), (0, 1)] = [(1, 1)]"
    by (simp add: convex_shapely_def bounds_of_def clip_box_def clip_half_def cut_x_def cut_y_def
        tidy_def triangle_def)
  have i2: "geom_intersection convex_shapely triangle [(2, 1), (2, 2), (1, 2), (1, 1)]
      = [(1, 1), (2, 1), (2, 2)]"
    by (simp add: convex_shapely_def bounds_of_def clip_box_def clip_half_def cut_x_def cut_y_def
        tidy_def triangle_def)
  have i3: "geom_intersection convex_shapely triangle [(1, 0), (1, 1), (0, 1), (0, 0)]
      = [(1, 1), (0, 0), (1, 0)]"
    by (simp add: convex_shapely_def bounds_of_def clip_box_def clip_half_def cut_x_def cut_y_def
        tidy_def triangle_def)
  have i4: "geom_intersection convex_shapely triangle [(2, 0), (2, 1), (1, 1), (1, 0)]
      = [(1, 1), (1, 0), (2, 0), (2, 1)]"
    by (simp add: convex_shapely_def bounds_of_def clip_box_def clip_half_def cut_x_def cut_y_def
        tidy_def triangle_def)
  have emp: "geom_is_empty convex_shapely g = (g = [])" for g
    by (simp add: convex_shapely_def)
  have sp: "surviving_pieces convex_shapely triangle = ([(1, 1)], ''NW'') # ?rest"
    by (simp add: surviving_pieces_def q i1 i2 i3 i4 emp)
  have ext: "geom_exterior convex_shapely [(1, 1)] = None"
    by (simp add: convex_shapely_def)
  have h: "encode_geom convex_shapely triangle = Inr ?ps
     \<and> cache empty_world (cell_path [] ?m) = None
     \<and> ?api (trace empty_world) ?ps ?m = Response 503 None \<and> 0 < MAX_GRID_DEPTH
     \<and> surviving_pieces convex_shapely triangle = [] @ ([(1, 1)], ''NW'') # ?rest
     \<and> spec_merge_children convex_shapely ?api ?m 0 [] [] []
          (emit (Get ?ps ?m (Response 503 None)) empty_world)
        = (Inr [], emit (Get ?ps ?m (Response 503 None)) empty_world)
     \<and> geom_exterior convex_shapely [(1, 1)] = None"
    by (simp add: enc sp ext empty_world_def MAX_GRID_DEPTH_def)
  from degenerate_piece_aborts_subdivision [where sh = convex_shapely and geom = triangle
      and ps = ?ps and w = empty_world and cell_id = "[]" and month = ?m and api = ?api
      and body = None and depth = 0 and before = "[]" and piece = "[(1, 1)]" and suffix = "''NW''"
      and rest = ?rest and merged = "[]"
      and ?w2.0 = "emit (Get ?ps ?m (Response 503 None)) empty_world", THEN mp, OF h]
  have run: "fetch_borough_month convex_shapely ?api triangle ?m empty_world
     = (Inl AttributeError,
        \<lparr>cache = Map.empty, trace = [Get ?ps ?m (Response 503 None)]\<rparr>)"
    by (simp add: fetch_borough_month_def emit_def empty_world_def)
  from run sp ext show ?thesis by (simp add: emp)
qed

end
